theory Spec2Isabelle
  imports Main "HOL-Library.AList"
begin

section \<open>Strings and the validator (sms/utils/validator.py)\<close>

text \<open>
  Python strings are modelled as \<^typ>\<open>string\<close>, one \<^typ>\<open>char\<close> per code point below 256.
  \<open>str.strip()\<close> removes the characters Python counts as white space at both ends; below
  256 these are 9-13, 28-32, 133 and 160.
\<close>

definition isspace :: "char \<Rightarrow> bool" where
  "isspace c =
     (let n = (of_char c :: nat)
      in (9 \<le> n \<and> n \<le> 13) \<or> (28 \<le> n \<and> n \<le> 32) \<or> n = 133 \<or> n = 160)"

definition strip :: "string \<Rightarrow> string" where
  "strip s = rev (dropWhile isspace (rev (dropWhile isspace s)))"

definition is_lower :: "char \<Rightarrow> bool" where
  "is_lower c = (let n = (of_char c :: nat) in 97 \<le> n \<and> n \<le> 122)"

definition is_upper :: "char \<Rightarrow> bool" where
  "is_upper c = (let n = (of_char c :: nat) in 65 \<le> n \<and> n \<le> 90)"

definition is_alpha :: "char \<Rightarrow> bool" where
  "is_alpha c = (is_lower c \<or> is_upper c)"

definition is_digit :: "char \<Rightarrow> bool" where
  "is_digit c = (let n = (of_char c :: nat) in 48 \<le> n \<and> n \<le> 57)"

text \<open>
  \<open>str.upper()\<close> is only ever applied to a course id that passed \<open>check_course_id\<close>, so
  to ASCII letters and digits; other characters are left as they are.
\<close>

definition upper_char :: "char \<Rightarrow> char" where
  "upper_char c = (if is_lower c then char_of ((of_char c :: nat) - 32) else c)"

definition upper :: "string \<Rightarrow> string" where
  "upper s = map upper_char s"

text \<open>
  The validator is modelled in the configuration in which the optional packages
  \<open>regex\<close> and \<open>email_validator\<close> are not installed (the \<open>except ImportError\<close> branches):
  \<open>check_name\<close> matches \<^verbatim>\<open>^[a-zA-Z' .-]+$\<close> and \<open>check_email_r\<close> matches
  \<^verbatim>\<open>^[a-zA-Z0-9_.+-]+@[a-zA-Z0-9-]+\.[a-zA-Z0-9-.]+$\<close>. Both use \<open>re.fullmatch\<close>.
\<close>

definition name_char :: "char \<Rightarrow> bool" where
  "name_char c = (is_alpha c \<or> c = CHR 0x27 \<or> c = CHR '' '' \<or> c = CHR ''.'' \<or> c = CHR ''-'')"

definition check_name :: "string \<Rightarrow> bool" where
  "check_name name = (let t = strip name in t \<noteq> [] \<and> list_all name_char t)"

definition check_age :: "int \<Rightarrow> bool" where
  "check_age age = (0 \<le> age \<and> age \<le> 120)"

definition email_local_char :: "char \<Rightarrow> bool" where
  "email_local_char c =
     (is_alpha c \<or> is_digit c \<or> c = CHR ''_'' \<or> c = CHR ''.'' \<or> c = CHR ''+'' \<or> c = CHR ''-'')"

definition email_domain_char :: "char \<Rightarrow> bool" where
  "email_domain_char c = (is_alpha c \<or> is_digit c \<or> c = CHR ''-'')"

definition email_tail_char :: "char \<Rightarrow> bool" where
  "email_tail_char c = (is_alpha c \<or> is_digit c \<or> c = CHR ''-'' \<or> c = CHR ''.'')"

text \<open>
  The local part cannot hold \<open>@\<close> and the first domain label cannot hold a dot, so the
  regular expression splits a string in one way only: at the first \<open>@\<close>, then at the
  first dot after it.
\<close>

definition email_match :: "string \<Rightarrow> bool" where
  "email_match s =
     (let l = takeWhile (\<lambda>c. c \<noteq> CHR ''@'') s;
          r = dropWhile (\<lambda>c. c \<noteq> CHR ''@'') s
      in case r of
           [] \<Rightarrow> False
         | _ # r' \<Rightarrow>
             (let d = takeWhile (\<lambda>c. c \<noteq> CHR ''.'') r';
                  t = dropWhile (\<lambda>c. c \<noteq> CHR ''.'') r'
              in l \<noteq> [] \<and> list_all email_local_char l \<and>
                 d \<noteq> [] \<and> list_all email_domain_char d \<and>
                 (case t of [] \<Rightarrow> False
                  | _ # t' \<Rightarrow> t' \<noteq> [] \<and> list_all email_tail_char t')))"

definition check_email_r :: "string \<Rightarrow> bool \<times> string" where
  "check_email_r email = (if email_match (strip email) then (True, []) else (False, []))"

definition check_email :: "string \<Rightarrow> bool" where
  "check_email email = fst (check_email_r email)"

definition check_id :: "string \<Rightarrow> bool" where
  "check_id p_id = (let t = strip p_id in length t = 9 \<and> list_all is_digit t)"

definition check_course_id :: "string \<Rightarrow> bool" where
  "check_course_id c_id =
     (let t = strip c_id
      in (length t = 7 \<or> length t = 8) \<and>
         list_all is_alpha (take 4 t) \<and>
         list_all is_digit (take 3 (drop 4 t)) \<and>
         list_all is_alpha (drop 7 t))"

definition course_name_char :: "char \<Rightarrow> bool" where
  "course_name_char c =
     (is_alpha c \<or> is_digit c \<or> c = CHR '' '' \<or> c = CHR 0x27 \<or> c = CHR ''.'' \<or>
      c = CHR '','' \<or> c = CHR '':'' \<or> c = CHR ''&'' \<or> c = CHR ''('' \<or> c = CHR '')'' \<or>
      c = CHR ''/'' \<or> c = CHR ''-'')"

definition check_course_name :: "string \<Rightarrow> bool" where
  "check_course_name name =
     (let t = strip name in 3 < length t \<and> length t \<le> 100 \<and> list_all course_name_char t)"

section \<open>Python values and exceptions\<close>

text \<open>
  Keyword arguments and parsed JSON are dynamically typed. The values modelled are
  \<open>None\<close>, integers, strings, lists, dictionaries with string keys (in insertion order)
  and references to \<open>Instructor\<close> objects; booleans and floats are outside the model.
\<close>

datatype pyval =
    PNone
  | PInt int
  | PStr string
  | PList "pyval list"
  | PDict "(string \<times> pyval) list"
  | PInstructor nat

fun truthy :: "pyval \<Rightarrow> bool" where
  "truthy PNone = False"
| "truthy (PInt n) = (n \<noteq> 0)"
| "truthy (PStr s) = (s \<noteq> [])"
| "truthy (PList xs) = (xs \<noteq> [])"
| "truthy (PDict kvs) = (kvs \<noteq> [])"
| "truthy (PInstructor r) = True"

text \<open>
  \<open>DataError\<close> is the data layer's own exception (a subclass of \<open>ValueError\<close>); the
  others are the built-in exceptions that the code lets through or handles, \<open>csv.Error\<close>
  and \<open>sqlite3.Error\<close>. Each carries its message where the code gives or shows one.
  \<open>UnicodeDecodeError\<close> is a subclass of \<open>ValueError\<close> too. \<open>OSError\<close> stands for the
  subclasses other than \<open>FileNotFoundError\<close> that \<open>open\<close> raises (\<open>IsADirectoryError\<close>,
  \<open>PermissionError\<close>). \<open>OverflowError\<close> is what \<open>sqlite3\<close> raises for an integer beyond 64
  bits; it is not a \<open>sqlite3.Error\<close>.
\<close>

datatype error =
    DataError string
  | ValueError string
  | KeyError string
  | TypeError
  | AttributeError
  | Sqlite3Error string
  | UnicodeDecodeError string
  | FileNotFoundError
  | OSError string
  | CsvError string
  | OverflowError string

text \<open>\<open>kwargs.get(k)\<close>: the value, or \<open>None\<close> for a missing key.\<close>

definition kwget :: "(string \<times> pyval) list \<Rightarrow> string \<Rightarrow> pyval" where
  "kwget kwargs k = (case map_of kwargs k of None \<Rightarrow> PNone | Some v \<Rightarrow> v)"

text \<open>
  Calling \<open>f(**kwargs)\<close> for a function with the parameters \<open>params\<close>, none of which has a
  default: a missing or an unexpected keyword raises \<open>TypeError\<close>.
\<close>

definition binds :: "string list \<Rightarrow> (string \<times> pyval) list \<Rightarrow> bool" where
  "binds params kwargs =
     (list_all (\<lambda>k. k \<in> set params) (map fst kwargs) \<and>
      list_all (\<lambda>p. map_of kwargs p \<noteq> None) params)"

text \<open>
  \<open>except ValueError as e: raise DataError(e)\<close>: an instance of a subclass is caught as
  well; other exceptions pass through.
\<close>

fun wrap_ValueError :: "error \<Rightarrow> error" where
  "wrap_ValueError (ValueError m) = DataError m"
| "wrap_ValueError (UnicodeDecodeError m) = DataError m"
| "wrap_ValueError e = e"

section \<open>The entity model (sms/models)\<close>

text \<open>
  Objects live in a heap, one list per class; a reference is an index into the list of its
  class, issued by the allocation that appended the object. A relationship list holds
  references, so two lists can share an object, as in the source.
\<close>

record Person =
  name :: string
  age :: int
  email :: string

record Student = Person +
  student_id :: string
  registered_courses :: "nat list"

record Instructor = Person +
  instructor_id :: string
  assigned_courses :: "nat list"

record Course =
  course_id :: string
  course_name :: string
  instructor :: pyval
  enrolled_students :: "nat list"

record heap =
  student_objs :: "Student list"
  instructor_objs :: "Instructor list"
  course_objs :: "Course list"

text \<open>
  A \<open>FileManager\<close> holds three dictionaries from id to object; the record carries them
  together with the heap the references point into.
\<close>

record FileManager = heap +
  students :: "(string \<times> nat) list"
  instructors :: "(string \<times> nat) list"
  courses :: "(string \<times> nat) list"

definition invalid_email_msg :: "string \<Rightarrow> string" where
  "invalid_email_msg m = ''Invalid Email Address'' @ (if m \<noteq> [] then '': '' @ m else ''.'')"

text \<open>\<open>Person.__init__\<close>, with the checks in the order of the source.\<close>

definition Person_init :: "pyval \<Rightarrow> pyval \<Rightarrow> pyval \<Rightarrow> error + Person" where
  "Person_init n a e =
     (case n of
        PStr nm \<Rightarrow>
          if \<not> check_name (strip nm) then Inl (ValueError ''Invalid Name.'')
          else (case a of
                  PInt ag \<Rightarrow>
                    if \<not> check_age ag then Inl (ValueError ''Invalid Age.'')
                    else (case e of
                            PStr em \<Rightarrow>
                              (let r = check_email_r (strip em)
                               in if \<not> fst r then Inl (ValueError (invalid_email_msg (snd r)))
                                  else Inr \<lparr>name = strip nm, age = ag, email = strip em\<rparr>)
                          | _ \<Rightarrow> Inl AttributeError)
                | _ \<Rightarrow> Inl TypeError)
      | _ \<Rightarrow> Inl AttributeError)"

definition Student_init :: "pyval \<Rightarrow> pyval \<Rightarrow> pyval \<Rightarrow> pyval \<Rightarrow> error + Student" where
  "Student_init n a e sid =
     (case Person_init n a e of
        Inl err \<Rightarrow> Inl err
      | Inr p \<Rightarrow>
          (case sid of
             PStr s \<Rightarrow>
               if \<not> check_id (strip s) then Inl (ValueError ''Invalid Student ID.'')
               else Inr \<lparr>name = name p, age = age p, email = email p,
                         student_id = strip s, registered_courses = []\<rparr>
           | _ \<Rightarrow> Inl AttributeError))"

text \<open>\<open>Instructor.__init__\<close> checks the stripped id and stores the id as given.\<close>

definition Instructor_init :: "pyval \<Rightarrow> pyval \<Rightarrow> pyval \<Rightarrow> pyval \<Rightarrow> error + Instructor" where
  "Instructor_init n a e iid =
     (case Person_init n a e of
        Inl err \<Rightarrow> Inl err
      | Inr p \<Rightarrow>
          (case iid of
             PStr s \<Rightarrow>
               if \<not> check_id (strip s) then Inl (ValueError ''Invalid Instructor ID.'')
               else Inr \<lparr>name = name p, age = age p, email = email p,
                         instructor_id = s, assigned_courses = []\<rparr>
           | _ \<Rightarrow> Inl AttributeError))"

definition Student_new :: "(string \<times> pyval) list \<Rightarrow> error + Student" where
  "Student_new kwargs =
     (if binds [''name'', ''age'', ''email'', ''student_id''] kwargs
      then Student_init (kwget kwargs ''name'') (kwget kwargs ''age'') (kwget kwargs ''email'')
             (kwget kwargs ''student_id'')
      else Inl TypeError)"

definition Instructor_new :: "(string \<times> pyval) list \<Rightarrow> error + Instructor" where
  "Instructor_new kwargs =
     (if binds [''name'', ''age'', ''email'', ''instructor_id''] kwargs
      then Instructor_init (kwget kwargs ''name'') (kwget kwargs ''age'') (kwget kwargs ''email'')
             (kwget kwargs ''instructor_id'')
      else Inl TypeError)"

text \<open>The course ids of a list of course references, and the student ids likewise.\<close>

definition course_ids :: "'a heap_scheme \<Rightarrow> nat list \<Rightarrow> string list" where
  "course_ids h rs = map (\<lambda>r. course_id (course_objs h ! r)) rs"

definition student_ids :: "'a heap_scheme \<Rightarrow> nat list \<Rightarrow> string list" where
  "student_ids h rs = map (\<lambda>r. student_id (student_objs h ! r)) rs"

text \<open>\<open>Instructor.assign_course\<close>: appends unless a course of the same id is assigned.\<close>

definition Instructor_assign_course :: "nat \<Rightarrow> nat \<Rightarrow> 'a heap_scheme \<Rightarrow> 'a heap_scheme" where
  "Instructor_assign_course ri rc h =
     (let i = instructor_objs h ! ri
      in if course_id (course_objs h ! rc) \<notin> set (course_ids h (assigned_courses i))
         then h\<lparr>instructor_objs :=
                  (instructor_objs h)[ri := i\<lparr>assigned_courses := assigned_courses i @ [rc]\<rparr>]\<rparr>
         else h)"

text \<open>
  \<open>Course.__init__\<close>: validates, allocates the course and, as its last statement, assigns
  it to the instructor. The result is the reference of the new course. A value that is
  not an \<open>Instructor\<close> has no \<open>assign_course\<close>.
\<close>

definition Course_init ::
  "pyval \<Rightarrow> pyval \<Rightarrow> pyval \<Rightarrow> 'a heap_scheme \<Rightarrow> (error + nat) \<times> 'a heap_scheme" where
  "Course_init cid cname instr h =
     (case cid of
        PStr c \<Rightarrow>
          if \<not> check_course_id (strip c) then (Inl (ValueError ''Invalid Course ID.''), h)
          else (case cname of
                  PStr n \<Rightarrow>
                    if \<not> check_course_name (strip n)
                    then (Inl (ValueError ''Invalid Course Name.''), h)
                    else (case instr of
                            PInstructor ri \<Rightarrow>
                              (let rc = length (course_objs h);
                                   h1 = h\<lparr>course_objs := course_objs h @
                                          [\<lparr>course_id = upper (strip c), course_name = n,
                                            instructor = instr, enrolled_students = []\<rparr>]\<rparr>
                               in (Inr rc, Instructor_assign_course ri rc h1))
                          | _ \<Rightarrow> (Inl AttributeError, h))
                | _ \<Rightarrow> (Inl AttributeError, h))
      | _ \<Rightarrow> (Inl AttributeError, h))"

definition Course_new ::
  "(string \<times> pyval) list \<Rightarrow> 'a heap_scheme \<Rightarrow> (error + nat) \<times> 'a heap_scheme" where
  "Course_new kwargs h =
     (if binds [''course_id'', ''course_name'', ''instructor''] kwargs
      then Course_init (kwget kwargs ''course_id'') (kwget kwargs ''course_name'')
             (kwget kwargs ''instructor'') h
      else (Inl TypeError, h))"

text \<open>\<open>Course.add_student\<close> and \<open>Student.register_course\<close>.\<close>

definition Course_add_student :: "nat \<Rightarrow> nat \<Rightarrow> 'a heap_scheme \<Rightarrow> 'a heap_scheme" where
  "Course_add_student rc rs h =
     (let c = course_objs h ! rc
      in if student_id (student_objs h ! rs) \<notin> set (student_ids h (enrolled_students c))
         then h\<lparr>course_objs :=
                  (course_objs h)[rc := c\<lparr>enrolled_students := enrolled_students c @ [rs]\<rparr>]\<rparr>
         else h)"

definition Student_register_course :: "nat \<Rightarrow> nat \<Rightarrow> 'a heap_scheme \<Rightarrow> 'a heap_scheme" where
  "Student_register_course rs rc h =
     (let s = student_objs h ! rs
      in if course_id (course_objs h ! rc) \<notin> set (course_ids h (registered_courses s))
         then Course_add_student rc rs
                (h\<lparr>student_objs :=
                     (student_objs h)[rs := s\<lparr>registered_courses := registered_courses s @ [rc]\<rparr>]\<rparr>)
         else h)"

section \<open>\<open>int\<close>, \<open>str\<close> and \<open>repr\<close>\<close>

text \<open>
  \<open>repr(s)\<close> of a string, which the message of \<open>int\<close> shows: single quotes, or double
  quotes when the string holds a single quote and no double quote; the quote in use and
  the backslash are escaped, so are tab, line feed and carriage return, and every other
  character that is not printable (below 256: 0-31, 127-160 and 173) is written as a
  backslash, \<open>x\<close> and its two hexadecimal digits.
\<close>

definition hex_char :: "nat \<Rightarrow> char" where
  "hex_char n = (if n < 10 then char_of (48 + n) else char_of (87 + n))"

definition printable :: "char \<Rightarrow> bool" where
  "printable c = (let n = (of_char c :: nat) in (32 \<le> n \<and> n < 127) \<or> (161 \<le> n \<and> n \<noteq> 173))"

definition escape_char :: "char \<Rightarrow> char \<Rightarrow> string" where
  "escape_char q c =
     (if c = q \<or> c = CHR 0x5C then [CHR 0x5C, c]
      else if c = CHR 0x09 then [CHR 0x5C, CHR ''t'']
      else if c = CHR 0x0A then [CHR 0x5C, CHR ''n'']
      else if c = CHR 0x0D then [CHR 0x5C, CHR ''r'']
      else if printable c then [c]
      else [CHR 0x5C, CHR ''x'', hex_char ((of_char c :: nat) div 16),
            hex_char ((of_char c :: nat) mod 16)])"

definition py_repr :: "string \<Rightarrow> string" where
  "py_repr s =
     (let q = (if CHR 0x27 \<in> set s \<and> CHR 0x22 \<notin> set s then CHR 0x22 else CHR 0x27)
      in q # concat (map (escape_char q) s) @ [q])"

text \<open>
  \<open>int(s)\<close> for a string, in base 10, as CPython 3.11 parses it. White space beyond
  ASCII (below 256: 133 and 160) is first read as a space. Then come ASCII white space
  (9-13 and 32; not 28-31, which \<open>str.strip()\<close> removes), an optional sign, decimal
  digits, where single underscores may stand between two digits, and ASCII white space
  up to the end. Anything else is an invalid literal, and the message shows the first 200
  characters of the \<open>repr\<close> of the string. A run of more than 4300 digits is refused as
  soon as it has been scanned, before what follows it is looked at
  (\<open>sys.get_int_max_str_digits()\<close> at its default). \<open>str(n)\<close> for an integer is its
  decimal numeral; it is applied to ages, which the constructors keep within 0-120.
\<close>

definition int_space :: "char \<Rightarrow> bool" where
  "int_space c = (let n = (of_char c :: nat) in (9 \<le> n \<and> n \<le> 13) \<or> n = 32)"

definition ascii_space :: "char \<Rightarrow> char" where
  "ascii_space c = (let n = (of_char c :: nat) in if n = 133 \<or> n = 160 then CHR '' '' else c)"

definition numeral_char :: "char \<Rightarrow> bool" where
  "numeral_char c = (is_digit c \<or> c = CHR ''_'')"

definition digit_val :: "char \<Rightarrow> nat" where
  "digit_val c = (of_char c :: nat) - 48"

definition digits_val :: "string \<Rightarrow> nat" where
  "digits_val s = foldl (\<lambda>a c. 10 * a + digit_val c) 0 s"

fun int_body_ok :: "string \<Rightarrow> bool" where
  "int_body_ok [] = False"
| "int_body_ok [c] = is_digit c"
| "int_body_ok (c # d # cs) =
     (is_digit c \<and> (if d = CHR ''_'' then int_body_ok cs else int_body_ok (d # cs)))"

definition digit_char :: "nat \<Rightarrow> char" where
  "digit_char n = char_of (48 + n)"

fun str_nat :: "nat \<Rightarrow> string" where
  "str_nat n = (if n < 10 then [digit_char n] else str_nat (n div 10) @ [digit_char (n mod 10)])"

definition str_int :: "int \<Rightarrow> string" where
  "str_int i = (if i < 0 then CHR ''-'' # str_nat (nat (- i)) else str_nat (nat i))"

definition invalid_literal :: "string \<Rightarrow> error" where
  "invalid_literal s = ValueError (''invalid literal for int() with base 10: '' @ take 200 (py_repr s))"

definition too_many_digits :: "nat \<Rightarrow> error" where
  "too_many_digits n =
     ValueError (''Exceeds the limit (4300 digits) for integer string conversion: value has '' @
                 str_nat n @ '' digits; use sys.set_int_max_str_digits() to increase the limit'')"

definition int_of_str :: "string \<Rightarrow> error + int" where
  "int_of_str s =
     (let t = dropWhile int_space (map ascii_space s);
          neg = (case t of [] \<Rightarrow> False | c # _ \<Rightarrow> c = CHR ''-'');
          u = (case t of [] \<Rightarrow> [] | c # r \<Rightarrow> if c = CHR ''-'' \<or> c = CHR ''+'' then r else t);
          b = takeWhile numeral_char u;
          ds = filter is_digit b
      in if \<not> int_body_ok b then Inl (invalid_literal s)
         else if 4300 < int (length ds) then Inl (too_many_digits (length ds))
         else if dropWhile int_space (dropWhile numeral_char u) \<noteq> [] then Inl (invalid_literal s)
         else Inr ((if neg then - 1 else 1) * int (digits_val ds)))"

section \<open>\<open>update\<close> of the entities\<close>


text \<open>\<open>int(v)\<close> on the values of the model: an integer is itself, a string is parsed.\<close>

definition int_of_pyval :: "pyval \<Rightarrow> error + int" where
  "int_of_pyval v =
     (case v of
        PInt n \<Rightarrow> Inr n
      | PStr s \<Rightarrow> int_of_str s
      | _ \<Rightarrow> Inl TypeError)"




text \<open>\<open>Course.update\<close>: a truthy \<open>instructor\<close> replaces the reference and nothing else.\<close>

definition Course_update :: "(string \<times> pyval) list \<Rightarrow> Course \<Rightarrow> error option \<times> Course" where
  "Course_update kwargs c =
     (let cn = kwget kwargs ''course_name''; i = kwget kwargs ''instructor''
      in case (if truthy cn
               then (case cn of
                       PStr n \<Rightarrow>
                         if \<not> check_course_name (strip n)
                         then (Some (ValueError ''Invalid Course Name.''), c)
                         else (None, c\<lparr>course_name := strip n\<rparr>)
                     | _ \<Rightarrow> (Some AttributeError, c))
               else (None, c)) of
           (Some e, c1) \<Rightarrow> (Some e, c1)
         | (None, c1) \<Rightarrow> (None, if truthy i then c1\<lparr>instructor := i\<rparr> else c1))"

section \<open>The in-memory manager (sms/data/dm/memory.py)\<close>

text \<open>
  Every operation takes the datastore and returns its outcome (the exception raised, or
  the value returned) with the datastore as the call leaves it. A dictionary is an
  association list in insertion order: \<open>d[k] = v\<close> is \<^const>\<open>AList.update\<close>, \<open>del d[k]\<close> is
  \<^const>\<open>AList.delete\<close>, \<open>d.get(k)\<close> is \<^const>\<open>map_of\<close>.
\<close>

type_synonym 'a result = "error + 'a"

definition quoted :: "string \<Rightarrow> string" where
  "quoted s = CHR 0x27 # s @ [CHR 0x27]"

text \<open>
  The text of an id inside a message. An id is a string in every call that gets this far
  with an entity found; for the other values the text is the numeral or a placeholder.
\<close>

fun id_text :: "pyval \<Rightarrow> string" where
  "id_text (PStr s) = s"
| "id_text (PInt n) = str_int n"
| "id_text PNone = ''None''"
| "id_text v = ''<object>''"

definition already_exists :: "string \<Rightarrow> string \<Rightarrow> error" where
  "already_exists kind i = DataError (kind @ '' with ID '' @ quoted i @ '' already exists.'')"

definition not_found :: "string \<Rightarrow> string \<Rightarrow> error" where
  "not_found kind i = DataError (kind @ '' with ID '' @ quoted i @ '' not found.'')"

definition does_not_exist :: "string \<Rightarrow> string \<Rightarrow> error" where
  "does_not_exist kind i = DataError (kind @ '' with ID '' @ quoted i @ '' does not exist.'')"

definition id_required :: "string \<Rightarrow> error" where
  "id_required kind = DataError (kind @ '' ID is required.'')"

text \<open>
  \<open>k in d\<close> for a dictionary with string keys: a list or a dictionary is unhashable
  (\<open>TypeError\<close>), any other value that is not a string is not a key.
\<close>

definition dict_find :: "(string \<times> nat) list \<Rightarrow> pyval \<Rightarrow> error + nat option" where
  "dict_find d k =
     (case k of
        PStr s \<Rightarrow> Inr (map_of d s)
      | PList xs \<Rightarrow> Inl TypeError
      | PDict kvs \<Rightarrow> Inl TypeError
      | _ \<Rightarrow> Inr None)"

definition MemoryDataManager_add_student ::
  "(string \<times> pyval) list \<Rightarrow> FileManager \<Rightarrow> unit result \<times> FileManager" where
  "MemoryDataManager_add_student kwargs ds =
     (case Student_new kwargs of
        Inl e \<Rightarrow> (Inl (wrap_ValueError e), ds)
      | Inr s \<Rightarrow>
          if map_of (students ds) (student_id s) \<noteq> None
          then (Inl (already_exists ''Student'' (student_id s)), ds)
          else (Inr (),
                ds\<lparr>student_objs := student_objs ds @ [s],
                   students := AList.update (student_id s) (length (student_objs ds)) (students ds)\<rparr>))"


definition MemoryDataManager_remove_student ::
  "string \<Rightarrow> FileManager \<Rightarrow> unit result \<times> FileManager" where
  "MemoryDataManager_remove_student sid ds =
     (case map_of (students ds) sid of
        None \<Rightarrow> (Inl (does_not_exist ''Student'' sid), ds)
      | Some r \<Rightarrow> (Inr (), ds\<lparr>students := AList.delete sid (students ds)\<rparr>))"

definition MemoryDataManager_get_student ::
  "string \<Rightarrow> FileManager \<Rightarrow> nat result \<times> FileManager" where
  "MemoryDataManager_get_student sid ds =
     (case map_of (students ds) sid of
        None \<Rightarrow> (Inl (not_found ''Student'' sid), ds)
      | Some r \<Rightarrow> (Inr r, ds))"

definition MemoryDataManager_add_instructor ::
  "(string \<times> pyval) list \<Rightarrow> FileManager \<Rightarrow> unit result \<times> FileManager" where
  "MemoryDataManager_add_instructor kwargs ds =
     (case Instructor_new kwargs of
        Inl e \<Rightarrow> (Inl (wrap_ValueError e), ds)
      | Inr i \<Rightarrow>
          if map_of (instructors ds) (instructor_id i) \<noteq> None
          then (Inl (already_exists ''Instructor'' (instructor_id i)), ds)
          else (Inr (),
                ds\<lparr>instructor_objs := instructor_objs ds @ [i],
                   instructors :=
                     AList.update (instructor_id i) (length (instructor_objs ds)) (instructors ds)\<rparr>))"


definition MemoryDataManager_remove_instructor ::
  "string \<Rightarrow> FileManager \<Rightarrow> unit result \<times> FileManager" where
  "MemoryDataManager_remove_instructor iid ds =
     (case map_of (instructors ds) iid of
        None \<Rightarrow> (Inl (does_not_exist ''Instructor'' iid), ds)
      | Some r \<Rightarrow> (Inr (), ds\<lparr>instructors := AList.delete iid (instructors ds)\<rparr>))"

definition MemoryDataManager_get_instructor ::
  "string \<Rightarrow> FileManager \<Rightarrow> nat result \<times> FileManager" where
  "MemoryDataManager_get_instructor iid ds =
     (case map_of (instructors ds) iid of
        None \<Rightarrow> (Inl (not_found ''Instructor'' iid), ds)
      | Some r \<Rightarrow> (Inr r, ds))"

text \<open>
  \<open>add_course\<close> builds the \<open>Course\<close> first, which already assigns it to the instructor, and
  only then looks the id up.
\<close>

definition MemoryDataManager_add_course ::
  "(string \<times> pyval) list \<Rightarrow> FileManager \<Rightarrow> unit result \<times> FileManager" where
  "MemoryDataManager_add_course kwargs ds =
     (case Course_new kwargs ds of
        (Inl e, ds1) \<Rightarrow> (Inl (wrap_ValueError e), ds1)
      | (Inr rc, ds1) \<Rightarrow>
          (let cid = course_id (course_objs ds1 ! rc)
           in if map_of (courses ds1) cid \<noteq> None
              then (Inl (already_exists ''Course'' cid), ds1)
              else (Inr (), ds1\<lparr>courses := AList.update cid rc (courses ds1)\<rparr>)))"

definition MemoryDataManager_edit_course ::
  "(string \<times> pyval) list \<Rightarrow> FileManager \<Rightarrow> unit result \<times> FileManager" where
  "MemoryDataManager_edit_course kwargs ds =
     (let cid = kwget kwargs ''course_id''
      in if \<not> truthy cid then (Inl (id_required ''Course''), ds)
         else (case dict_find (courses ds) cid of
                 Inl e \<Rightarrow> (Inl e, ds)
               | Inr None \<Rightarrow> (Inl (not_found ''Course'' (id_text cid)), ds)
               | Inr (Some r) \<Rightarrow>
                   (case Course_update kwargs (course_objs ds ! r) of
                      (eo, c') \<Rightarrow>
                        ((case eo of None \<Rightarrow> Inr () | Some e \<Rightarrow> Inl (wrap_ValueError e)),
                         ds\<lparr>course_objs := (course_objs ds)[r := c']\<rparr>))))"

text \<open>
  \<open>remove_course\<close>: \<open>list.remove(c)\<close> removes the first occurrence of the object and raises
  \<open>ValueError\<close> when there is none; that exception is not caught. The loop over the
  enrolled students stops at the first exception.
\<close>

definition not_in_list :: error where
  "not_in_list = ValueError ''list.remove(x): x not in list''"

fun detach_students :: "nat \<Rightarrow> nat list \<Rightarrow> FileManager \<Rightarrow> unit result \<times> FileManager" where
  "detach_students rc [] ds = (Inr (), ds)"
| "detach_students rc (rs # rest) ds =
     (let s = student_objs ds ! rs
      in if rc \<in> set (registered_courses s)
         then detach_students rc rest
                (ds\<lparr>student_objs :=
                      (student_objs ds)[rs := s\<lparr>registered_courses := remove1 rc (registered_courses s)\<rparr>]\<rparr>)
         else (Inl not_in_list, ds))"

definition MemoryDataManager_remove_course ::
  "string \<Rightarrow> FileManager \<Rightarrow> unit result \<times> FileManager" where
  "MemoryDataManager_remove_course cid ds =
     (case map_of (courses ds) cid of
        None \<Rightarrow> (Inl (does_not_exist ''Course'' cid), ds)
      | Some rc \<Rightarrow>
          (let c = course_objs ds ! rc
           in case instructor c of
                PInstructor ri \<Rightarrow>
                  (let i = instructor_objs ds ! ri
                   in if rc \<in> set (assigned_courses i)
                      then (case detach_students rc (enrolled_students c)
                                   (ds\<lparr>instructor_objs :=
                                         (instructor_objs ds)
                                           [ri := i\<lparr>assigned_courses := remove1 rc (assigned_courses i)\<rparr>]\<rparr>) of
                              (Inl e, ds2) \<Rightarrow> (Inl e, ds2)
                            | (Inr u, ds2) \<Rightarrow>
                                (Inr (), ds2\<lparr>courses := AList.delete cid (courses ds2)\<rparr>))
                      else (Inl not_in_list, ds))
              | _ \<Rightarrow> (Inl AttributeError, ds)))"

definition MemoryDataManager_get_course ::
  "string \<Rightarrow> FileManager \<Rightarrow> nat result \<times> FileManager" where
  "MemoryDataManager_get_course cid ds =
     (case map_of (courses ds) cid of
        None \<Rightarrow> (Inl (not_found ''Course'' cid), ds)
      | Some r \<Rightarrow> (Inr r, ds))"

definition MemoryDataManager_enroll_student ::
  "string \<Rightarrow> string \<Rightarrow> FileManager \<Rightarrow> unit result \<times> FileManager" where
  "MemoryDataManager_enroll_student sid cid ds =
     (case map_of (students ds) sid of
        None \<Rightarrow> (Inl (not_found ''Student'' sid), ds)
      | Some rs \<Rightarrow>
          (case map_of (courses ds) cid of
             None \<Rightarrow> (Inl (not_found ''Course'' cid), ds)
           | Some rc \<Rightarrow> (Inr (), Student_register_course rs rc ds)))"

text \<open>A manager that holds nothing, over an empty heap.\<close>

definition empty_datastore :: FileManager where
  "empty_datastore =
     \<lparr>student_objs = [], instructor_objs = [], course_objs = [],
      students = [], instructors = [], courses = []\<rparr>"

section \<open>Serialization (sms/data/dm/file.py)\<close>

text \<open>
  The string or the integer inside a value. They are applied only where a constructor has
  already accepted the value, which it does for a string (an integer) alone.
\<close>

fun the_str :: "pyval \<Rightarrow> string" where
  "the_str (PStr s) = s"
| "the_str v = []"

fun the_int :: "pyval \<Rightarrow> int" where
  "the_int (PInt n) = n"
| "the_int v = 0"

text \<open>
  Subscription \<open>v[k]\<close> with a string key and iteration \<open>for x in v\<close> on the values of the
  model: only a dictionary can be subscripted with a string; a list yields its elements,
  a dictionary its keys and a string its characters.
\<close>

fun getitem :: "pyval \<Rightarrow> string \<Rightarrow> error + pyval" where
  "getitem (PDict kvs) k = (case map_of kvs k of None \<Rightarrow> Inl (KeyError k) | Some v \<Rightarrow> Inr v)"
| "getitem v k = Inl TypeError"

fun iterate :: "pyval \<Rightarrow> error + pyval list" where
  "iterate (PList xs) = Inr xs"
| "iterate (PDict kvs) = Inr (map (\<lambda>kv. PStr (fst kv)) kvs)"
| "iterate (PStr s) = Inr (map (\<lambda>c. PStr [c]) s)"
| "iterate v = Inl TypeError"

text \<open>A \<open>for\<close> loop whose body may raise: the first exception ends the loop.\<close>

fun for_each ::
  "('a \<Rightarrow> FileManager \<Rightarrow> error option \<times> FileManager) \<Rightarrow> 'a list \<Rightarrow> FileManager \<Rightarrow>
   error option \<times> FileManager" where
  "for_each body [] fm = (None, fm)"
| "for_each body (x # xs) fm =
     (case body x fm of
        (Some e, fm1) \<Rightarrow> (Some e, fm1)
      | (None, fm1) \<Rightarrow> for_each body xs fm1)"

definition clear_all :: "FileManager \<Rightarrow> FileManager" where
  "clear_all fm = fm\<lparr>students := [], instructors := [], courses := []\<rparr>"

subsection \<open>JSON\<close>

text \<open>
  \<open>to_dict\<close> of the three classes. \<open>Course.to_dict\<close> reads \<open>self.instructor.instructor_id\<close>,
  which a value that is not an \<open>Instructor\<close> does not have.
\<close>

definition Person_to_dict :: "'a Person_scheme \<Rightarrow> (string \<times> pyval) list" where
  "Person_to_dict p = [(''name'', PStr (name p)), (''age'', PInt (age p)), (''email'', PStr (email p))]"

definition Student_to_dict :: "'a heap_scheme \<Rightarrow> Student \<Rightarrow> pyval" where
  "Student_to_dict h s =
     PDict (Person_to_dict s @
            [(''type'', PStr ''student''), (''student_id'', PStr (student_id s)),
             (''registered_courses'', PList (map PStr (course_ids h (registered_courses s))))])"

definition Instructor_to_dict :: "'a heap_scheme \<Rightarrow> Instructor \<Rightarrow> pyval" where
  "Instructor_to_dict h i =
     PDict (Person_to_dict i @
            [(''type'', PStr ''instructor''), (''instructor_id'', PStr (instructor_id i)),
             (''assigned_courses'', PList (map PStr (course_ids h (assigned_courses i))))])"

definition Course_to_dict :: "'a heap_scheme \<Rightarrow> Course \<Rightarrow> error + pyval" where
  "Course_to_dict h c =
     (case instructor c of
        PInstructor ri \<Rightarrow>
          Inr (PDict [(''course_id'', PStr (course_id c)), (''course_name'', PStr (course_name c)),
                      (''instructor_id'', PStr (instructor_id (instructor_objs h ! ri))),
                      (''enrolled_students'',
                       PList (map PStr (student_ids h (enrolled_students c))))])
      | _ \<Rightarrow> Inl AttributeError)"

text \<open>A list comprehension whose element expression may raise.\<close>

fun collect :: "('a \<Rightarrow> error + 'b) \<Rightarrow> 'a list \<Rightarrow> error + 'b list" where
  "collect f [] = Inr []"
| "collect f (x # xs) =
     (case f x of
        Inl e \<Rightarrow> Inl e
      | Inr y \<Rightarrow> (case collect f xs of Inl e \<Rightarrow> Inl e | Inr ys \<Rightarrow> Inr (y # ys)))"

text \<open>
  What \<open>open\<close> and \<open>json.load\<close> make of a path: no such file; a path that cannot be opened
  for reading (a directory, a file without read permission), with the message of the
  \<open>OSError\<close>; a file that is not UTF-8 text, with the message of the
  \<open>UnicodeDecodeError\<close>; a text that is not JSON; or the parsed document. \<open>json.dump\<close>
  followed by \<open>json.load\<close> gives the document back.
\<close>

datatype json_file =
    FileNotFound
  | Unreadable string
  | Undecodable string
  | InvalidJSON
  | Document pyval

text \<open>
  \<open>save_to_json\<close> builds the whole document before it opens the file, so an exception
  leaves the file as it was.
\<close>

definition json_document :: "FileManager \<Rightarrow> error + pyval" where
  "json_document fm =
     (case collect (\<lambda>r. Course_to_dict fm (course_objs fm ! r)) (map snd (courses fm)) of
        Inl e \<Rightarrow> Inl e
      | Inr cs \<Rightarrow>
          Inr (PDict
                 [(''students'',
                   PList (map (\<lambda>r. Student_to_dict fm (student_objs fm ! r)) (map snd (students fm)))),
                  (''instructors'',
                   PList (map (\<lambda>r. Instructor_to_dict fm (instructor_objs fm ! r))
                            (map snd (instructors fm)))),
                  (''courses'', PList cs)]))"

definition save_to_json :: "FileManager \<Rightarrow> json_file \<Rightarrow> error option \<times> json_file" where
  "save_to_json fm file =
     (case json_document fm of Inl e \<Rightarrow> (Some e, file) | Inr d \<Rightarrow> (None, Document d))"

text \<open>The bodies of the four loops of \<open>load_from_json\<close>.\<close>

definition json_instructor :: "pyval \<Rightarrow> FileManager \<Rightarrow> error option \<times> FileManager" where
  "json_instructor d fm =
     (case getitem d ''instructor_id'' of Inl e \<Rightarrow> (Some e, fm) | Inr iid \<Rightarrow>
      case getitem d ''name'' of Inl e \<Rightarrow> (Some e, fm) | Inr n \<Rightarrow>
      case getitem d ''age'' of Inl e \<Rightarrow> (Some e, fm) | Inr a \<Rightarrow>
      case getitem d ''email'' of Inl e \<Rightarrow> (Some e, fm) | Inr em \<Rightarrow>
      case Instructor_init n a em iid of Inl e \<Rightarrow> (Some e, fm) | Inr i \<Rightarrow>
        (None, fm\<lparr>instructor_objs := instructor_objs fm @ [i],
                  instructors :=
                    AList.update (the_str iid) (length (instructor_objs fm)) (instructors fm)\<rparr>))"

definition json_student :: "pyval \<Rightarrow> FileManager \<Rightarrow> error option \<times> FileManager" where
  "json_student d fm =
     (case getitem d ''student_id'' of Inl e \<Rightarrow> (Some e, fm) | Inr sid \<Rightarrow>
      case getitem d ''name'' of Inl e \<Rightarrow> (Some e, fm) | Inr n \<Rightarrow>
      case getitem d ''age'' of Inl e \<Rightarrow> (Some e, fm) | Inr a \<Rightarrow>
      case getitem d ''email'' of Inl e \<Rightarrow> (Some e, fm) | Inr em \<Rightarrow>
      case Student_init n a em sid of Inl e \<Rightarrow> (Some e, fm) | Inr s \<Rightarrow>
        (None, fm\<lparr>student_objs := student_objs fm @ [s],
                  students :=
                    AList.update (the_str sid) (length (student_objs fm)) (students fm)\<rparr>))"

text \<open>A course whose instructor id is not a key of \<open>self.instructors\<close> is skipped.\<close>

definition new_course :: "pyval \<Rightarrow> pyval \<Rightarrow> nat \<Rightarrow> FileManager \<Rightarrow> error option \<times> FileManager" where
  "new_course cid cname ri fm =
     (case Course_init cid cname (PInstructor ri) fm of
        (Inl e, fm1) \<Rightarrow> (Some e, fm1)
      | (Inr rc, fm1) \<Rightarrow> (None, fm1\<lparr>courses := AList.update (the_str cid) rc (courses fm1)\<rparr>))"

definition json_course :: "pyval \<Rightarrow> FileManager \<Rightarrow> error option \<times> FileManager" where
  "json_course d fm =
     (case getitem d ''course_id'' of Inl e \<Rightarrow> (Some e, fm) | Inr cid \<Rightarrow>
      case getitem d ''instructor_id'' of Inl e \<Rightarrow> (Some e, fm) | Inr iid \<Rightarrow>
      case dict_find (instructors fm) iid of Inl e \<Rightarrow> (Some e, fm) | Inr None \<Rightarrow> (None, fm)
      | Inr (Some ri) \<Rightarrow>
          (case getitem d ''course_name'' of Inl e \<Rightarrow> (Some e, fm)
           | Inr cname \<Rightarrow> new_course cid cname ri fm))"

definition link_course :: "nat \<Rightarrow> pyval \<Rightarrow> FileManager \<Rightarrow> error option \<times> FileManager" where
  "link_course rs cid fm =
     (case dict_find (courses fm) cid of
        Inl e \<Rightarrow> (Some e, fm)
      | Inr None \<Rightarrow> (None, fm)
      | Inr (Some rc) \<Rightarrow> (None, Student_register_course rs rc fm))"

definition json_link :: "pyval \<Rightarrow> FileManager \<Rightarrow> error option \<times> FileManager" where
  "json_link d fm =
     (case getitem d ''student_id'' of Inl e \<Rightarrow> (Some e, fm) | Inr sid \<Rightarrow>
      case dict_find (students fm) sid of Inl e \<Rightarrow> (Some e, fm)
      | Inr None \<Rightarrow> (Some (KeyError (id_text sid)), fm)
      | Inr (Some rs) \<Rightarrow>
          (case getitem d ''registered_courses'' of Inl e \<Rightarrow> (Some e, fm) | Inr v \<Rightarrow>
           case iterate v of Inl e \<Rightarrow> (Some e, fm)
           | Inr cids \<Rightarrow> for_each (link_course rs) cids fm))"

text \<open>One \<open>for x in data[key]: body\<close> of the loader.\<close>

definition for_key ::
  "pyval \<Rightarrow> string \<Rightarrow> (pyval \<Rightarrow> FileManager \<Rightarrow> error option \<times> FileManager) \<Rightarrow> FileManager \<Rightarrow>
   error option \<times> FileManager" where
  "for_key data key body fm =
     (case getitem data key of Inl e \<Rightarrow> (Some e, fm) | Inr v \<Rightarrow>
      case iterate v of Inl e \<Rightarrow> (Some e, fm) | Inr xs \<Rightarrow> for_each body xs fm)"

text \<open>
  \<open>load_from_json\<close>: clears the three dictionaries, then reads. A missing file and a text
  that is not JSON are logged and the method returns (\<open>except FileNotFoundError\<close>,
  \<open>except json.JSONDecodeError\<close>); every other exception leaves the method, with the
  dictionaries as filled so far.
\<close>

definition load_from_json :: "json_file \<Rightarrow> FileManager \<Rightarrow> unit result \<times> FileManager" where
  "load_from_json file fm =
     (let fm0 = clear_all fm
      in case file of
           FileNotFound \<Rightarrow> (Inr (), fm0)
         | Unreadable m \<Rightarrow> (Inl (OSError m), fm0)
         | Undecodable m \<Rightarrow> (Inl (UnicodeDecodeError m), fm0)
         | InvalidJSON \<Rightarrow> (Inr (), fm0)
         | Document data \<Rightarrow>
             (case for_key data ''instructors'' json_instructor fm0 of
                (Some e, fm1) \<Rightarrow> (Inl e, fm1)
              | (None, fm1) \<Rightarrow>
             (case for_key data ''students'' json_student fm1 of
                (Some e, fm2) \<Rightarrow> (Inl e, fm2)
              | (None, fm2) \<Rightarrow>
             (case for_key data ''courses'' json_course fm2 of
                (Some e, fm3) \<Rightarrow> (Inl e, fm3)
              | (None, fm3) \<Rightarrow>
             (case for_key data ''students'' json_link fm3 of
                (Some e, fm4) \<Rightarrow> (Inl e, fm4)
              | (None, fm4) \<Rightarrow> (Inr (), fm4))))))"

subsection \<open>CSV\<close>

text \<open>
  The content of a CSV file is the list of its rows, a row the list of its fields: what
  \<open>csv.writer\<close> is given row by row, and what \<open>csv.reader\<close> yields for a file that a reader
  opened like the writer would. A path of the directory is no file; or one that cannot
  be opened (with the message of the \<open>OSError\<close>); or a file; or a file that is text only
  up to some point: the rows before it, and the message of the \<open>UnicodeDecodeError\<close>.
\<close>

type_synonym csv_file = "string list list"

datatype csv_entry =
    NoFile
  | NoAccess string
  | File csv_file
  | Garbled csv_file string

record csv_dir =
  instructors_csv :: csv_entry
  students_csv :: csv_entry
  courses_csv :: csv_entry
  enrollments_csv :: csv_entry

definition Instructor_to_row :: "Instructor \<Rightarrow> string list" where
  "Instructor_to_row i = [name i, str_int (age i), email i, instructor_id i]"

definition Student_to_row :: "Student \<Rightarrow> string list" where
  "Student_to_row s = [name s, str_int (age s), email s, student_id s]"

definition Course_to_row :: "'a heap_scheme \<Rightarrow> Course \<Rightarrow> error + string list" where
  "Course_to_row h c =
     (case instructor c of
        PInstructor ri \<Rightarrow> Inr [course_id c, course_name c, instructor_id (instructor_objs h ! ri)]
      | _ \<Rightarrow> Inl AttributeError)"

definition enrollment_rows :: "FileManager \<Rightarrow> string list list" where
  "enrollment_rows fm =
     concat (map (\<lambda>r. map (\<lambda>c. [student_id (student_objs fm ! r), c])
                        (course_ids fm (registered_courses (student_objs fm ! r))))
                 (map snd (students fm)))"

text \<open>The rows written by a loop whose element expression may raise, and the exception.\<close>

fun rows_before :: "('a \<Rightarrow> error + 'b) \<Rightarrow> 'a list \<Rightarrow> 'b list \<times> error option" where
  "rows_before f [] = ([], None)"
| "rows_before f (x # xs) =
     (case f x of
        Inl e \<Rightarrow> ([], Some e)
      | Inr y \<Rightarrow> (case rows_before f xs of (ys, r) \<Rightarrow> (y # ys, r)))"

text \<open>
  \<open>save_to_csv\<close> writes the files one after the other, each opened with \<open>newline=''\<close>, so
  that the rows reach the file as \<open>csv.writer\<close> encodes them. When a course row raises, the
  first two files are written, \<open>courses.csv\<close> holds its header and the rows before that
  course (the \<open>with\<close> statement closes it), and \<open>enrollments.csv\<close> is as it was.
\<close>

definition save_to_csv :: "FileManager \<Rightarrow> csv_dir \<Rightarrow> error option \<times> csv_dir" where
  "save_to_csv fm dir =
     (let d2 = dir\<lparr>instructors_csv :=
                     File ([''name'', ''age'', ''email'', ''instructor_id''] #
                           map (\<lambda>r. Instructor_to_row (instructor_objs fm ! r))
                             (map snd (instructors fm))),
                   students_csv :=
                     File ([''name'', ''age'', ''email'', ''student_id''] #
                           map (\<lambda>r. Student_to_row (student_objs fm ! r)) (map snd (students fm)))\<rparr>
      in case rows_before (\<lambda>r. Course_to_row fm (course_objs fm ! r)) (map snd (courses fm)) of
           (rows, Some e) \<Rightarrow>
             (Some e,
              d2\<lparr>courses_csv := File ([''course_id'', ''course_name'', ''instructor_id''] # rows)\<rparr>)
         | (rows, None) \<Rightarrow>
             (None,
              d2\<lparr>courses_csv := File ([''course_id'', ''course_name'', ''instructor_id''] # rows),
                 enrollments_csv := File ([''student_id'', ''course_id''] # enrollment_rows fm)\<rparr>))"

text \<open>
  \<open>load_from_csv\<close> opens its files without \<open>newline=''\<close>: the text layer hands every
  carriage return followed by a line feed, and every other carriage return, to the reader
  as one line feed, also inside a quoted field.
\<close>

fun universal_newlines :: "string \<Rightarrow> string" where
  "universal_newlines [] = []"
| "universal_newlines [c] = [if c = CHR 0x0D then CHR 0x0A else c]"
| "universal_newlines (c # d # cs) =
     (if c = CHR 0x0D \<and> d = CHR 0x0A then CHR 0x0A # universal_newlines cs
      else if c = CHR 0x0D then CHR 0x0A # universal_newlines (d # cs)
      else c # universal_newlines (d # cs))"

text \<open>
  \<open>csv.reader\<close> refuses a field of more than \<open>csv.field_size_limit()\<close> = 131072
  characters with \<open>csv.Error\<close>, when it comes to the row that holds it.
\<close>

definition read_row :: "string list \<Rightarrow> error + string list" where
  "read_row row =
     (let fs = map universal_newlines row
      in if list_ex (\<lambda>f. 131072 < int (length f)) fs
         then Inl (CsvError ''field larger than field limit (131072)'')
         else Inr fs)"

text \<open>
  \<open>csv.DictReader\<close>: the first row gives the field names; every later row that is not
  empty becomes a dictionary, a field missing at the end of a short row being \<open>None\<close> (the
  surplus of a long row goes under the key \<open>None\<close>, which no string reaches). The rows
  come one by one: each is a dictionary or the exception raised in reading it.
\<close>

definition row_dict :: "string list \<Rightarrow> string list \<Rightarrow> pyval" where
  "row_dict fieldnames row =
     PDict (foldl (\<lambda>d kv. AList.update (fst kv) (snd kv) d) []
              (zip fieldnames (map PStr row @ replicate (length fieldnames - length row) PNone)))"

definition DictReader :: "csv_file \<Rightarrow> (error + pyval) list" where
  "DictReader file =
     (case file of
        [] \<Rightarrow> []
      | header # rows \<Rightarrow>
          (case read_row header of
             Inl e \<Rightarrow> [Inl e]
           | Inr fieldnames \<Rightarrow>
               map (\<lambda>r. case read_row r of Inl e \<Rightarrow> Inl e | Inr fs \<Rightarrow> Inr (row_dict fieldnames fs))
                 (filter (\<lambda>r. r \<noteq> []) rows)))"

text \<open>\<open>for row in reader: body\<close>: an exception of the reader or of the body ends the loop.\<close>

fun for_rows ::
  "(pyval \<Rightarrow> FileManager \<Rightarrow> error option \<times> FileManager) \<Rightarrow> (error + pyval) list \<Rightarrow>
   FileManager \<Rightarrow> error option \<times> FileManager" where
  "for_rows body [] fm = (None, fm)"
| "for_rows body (Inl e # xs) fm = (Some e, fm)"
| "for_rows body (Inr x # xs) fm =
     (case body x fm of
        (Some e, fm1) \<Rightarrow> (Some e, fm1)
      | (None, fm1) \<Rightarrow> for_rows body xs fm1)"

text \<open>One \<open>with open(...) as file: for row in csv.DictReader(file): body\<close>.\<close>

definition read_csv ::
  "csv_entry \<Rightarrow> (pyval \<Rightarrow> FileManager \<Rightarrow> error option \<times> FileManager) \<Rightarrow> FileManager \<Rightarrow>
   error option \<times> FileManager" where
  "read_csv entry body fm =
     (case entry of
        NoFile \<Rightarrow> (Some FileNotFoundError, fm)
      | NoAccess m \<Rightarrow> (Some (OSError m), fm)
      | File rows \<Rightarrow> for_rows body (DictReader rows) fm
      | Garbled rows m \<Rightarrow> for_rows body (DictReader rows @ [Inl (UnicodeDecodeError m)]) fm)"

text \<open>The bodies of the four loops of \<open>load_from_csv\<close>, with the lookups in source order.\<close>

definition csv_instructor :: "pyval \<Rightarrow> FileManager \<Rightarrow> error option \<times> FileManager" where
  "csv_instructor row fm =
     (case getitem row ''name'' of Inl e \<Rightarrow> (Some e, fm) | Inr n \<Rightarrow>
      case getitem row ''age'' of Inl e \<Rightarrow> (Some e, fm) | Inr a \<Rightarrow>
      case int_of_pyval a of Inl e \<Rightarrow> (Some e, fm) | Inr ag \<Rightarrow>
      case getitem row ''email'' of Inl e \<Rightarrow> (Some e, fm) | Inr em \<Rightarrow>
      case getitem row ''instructor_id'' of Inl e \<Rightarrow> (Some e, fm) | Inr iid \<Rightarrow>
      case Instructor_init n (PInt ag) em iid of Inl e \<Rightarrow> (Some e, fm) | Inr i \<Rightarrow>
        (None, fm\<lparr>instructor_objs := instructor_objs fm @ [i],
                  instructors :=
                    AList.update (the_str iid) (length (instructor_objs fm)) (instructors fm)\<rparr>))"

definition csv_student :: "pyval \<Rightarrow> FileManager \<Rightarrow> error option \<times> FileManager" where
  "csv_student row fm =
     (case getitem row ''name'' of Inl e \<Rightarrow> (Some e, fm) | Inr n \<Rightarrow>
      case getitem row ''age'' of Inl e \<Rightarrow> (Some e, fm) | Inr a \<Rightarrow>
      case int_of_pyval a of Inl e \<Rightarrow> (Some e, fm) | Inr ag \<Rightarrow>
      case getitem row ''email'' of Inl e \<Rightarrow> (Some e, fm) | Inr em \<Rightarrow>
      case getitem row ''student_id'' of Inl e \<Rightarrow> (Some e, fm) | Inr sid \<Rightarrow>
      case Student_init n (PInt ag) em sid of Inl e \<Rightarrow> (Some e, fm) | Inr s \<Rightarrow>
        (None, fm\<lparr>student_objs := student_objs fm @ [s],
                  students :=
                    AList.update (the_str sid) (length (student_objs fm)) (students fm)\<rparr>))"

definition csv_course :: "pyval \<Rightarrow> FileManager \<Rightarrow> error option \<times> FileManager" where
  "csv_course row fm =
     (case getitem row ''instructor_id'' of Inl e \<Rightarrow> (Some e, fm) | Inr iid \<Rightarrow>
      case dict_find (instructors fm) iid of Inl e \<Rightarrow> (Some e, fm) | Inr None \<Rightarrow> (None, fm)
      | Inr (Some ri) \<Rightarrow>
          (case getitem row ''course_id'' of Inl e \<Rightarrow> (Some e, fm) | Inr cid \<Rightarrow>
           case getitem row ''course_name'' of Inl e \<Rightarrow> (Some e, fm)
           | Inr cname \<Rightarrow> new_course cid cname ri fm))"

definition csv_enrollment :: "pyval \<Rightarrow> FileManager \<Rightarrow> error option \<times> FileManager" where
  "csv_enrollment row fm =
     (case getitem row ''student_id'' of Inl e \<Rightarrow> (Some e, fm) | Inr sid \<Rightarrow>
      case dict_find (students fm) sid of Inl e \<Rightarrow> (Some e, fm) | Inr so \<Rightarrow>
      case getitem row ''course_id'' of Inl e \<Rightarrow> (Some e, fm) | Inr cid \<Rightarrow>
      case dict_find (courses fm) cid of Inl e \<Rightarrow> (Some e, fm) | Inr co \<Rightarrow>
        (case (so, co) of
           (Some rs, Some rc) \<Rightarrow> (None, Student_register_course rs rc fm)
         | _ \<Rightarrow> (None, fm)))"

text \<open>
  \<open>load_from_csv\<close>: clears the dictionaries and reads the four files in turn inside one
  \<open>try\<close>. \<open>FileNotFoundError\<close> is the only exception it catches: it clears the dictionaries
  again and returns. Any other exception leaves the method with the dictionaries as
  filled so far.
\<close>

definition load_from_csv :: "csv_dir \<Rightarrow> FileManager \<Rightarrow> unit result \<times> FileManager" where
  "load_from_csv dir fm =
     (let r =
        (case read_csv (instructors_csv dir) csv_instructor (clear_all fm) of
           (Some e, fm1) \<Rightarrow> (Some e, fm1)
         | (None, fm1) \<Rightarrow>
        (case read_csv (students_csv dir) csv_student fm1 of
           (Some e, fm2) \<Rightarrow> (Some e, fm2)
         | (None, fm2) \<Rightarrow>
        (case read_csv (courses_csv dir) csv_course fm2 of
           (Some e, fm3) \<Rightarrow> (Some e, fm3)
         | (None, fm3) \<Rightarrow> read_csv (enrollments_csv dir) csv_enrollment fm3)))
      in case fst r of
           None \<Rightarrow> (Inr (), snd r)
         | Some e \<Rightarrow>
             if e = FileNotFoundError then (Inr (), clear_all (snd r)) else (Inl e, snd r))"

text \<open>The in-memory manager delegates export and import to its datastore.\<close>

definition MemoryDataManager_data_to_json ::
  "FileManager \<Rightarrow> json_file \<Rightarrow> error option \<times> json_file" where
  "MemoryDataManager_data_to_json ds file = save_to_json ds file"

definition MemoryDataManager_data_from_json ::
  "json_file \<Rightarrow> FileManager \<Rightarrow> unit result \<times> FileManager" where
  "MemoryDataManager_data_from_json file ds = load_from_json file ds"

definition MemoryDataManager_data_to_csv ::
  "FileManager \<Rightarrow> csv_dir \<Rightarrow> error option \<times> csv_dir" where
  "MemoryDataManager_data_to_csv ds dir = save_to_csv ds dir"

definition MemoryDataManager_data_from_csv ::
  "csv_dir \<Rightarrow> FileManager \<Rightarrow> unit result \<times> FileManager" where
  "MemoryDataManager_data_from_csv dir ds = load_from_csv dir ds"

section \<open>The relational store (sms/data/db/contract.py, sms/data/db/manager.py)\<close>

text \<open>
  The four tables of the schema, each a list of rows in insertion order, with the columns
  in the order of their \<open>CREATE TABLE\<close>: students and instructors
  \<open>(name, age, email, id)\<close>, courses \<open>(course_id, course_name, instructor_id)\<close>,
  enrollments \<open>(student_id, course_id)\<close>. The constraints declared in the schema are
  enforced as SQLite does with \<open>PRAGMA foreign_keys = 1\<close>: a primary key is unique, a
  foreign key must exist, and deleting a student or a course cascades to its enrollments.
  A violated constraint raises \<open>sqlite3.IntegrityError\<close>.
\<close>

type_synonym person_row = "string \<times> int \<times> string \<times> string"

record DatabaseManager =
  students_tab :: "person_row list"
  instructors_tab :: "person_row list"
  courses_tab :: "(string \<times> string \<times> string) list"
  enrollments_tab :: "(string \<times> string) list"

definition row_id :: "person_row \<Rightarrow> string" where
  "row_id r = snd (snd (snd r))"

definition dbm_get_student :: "DatabaseManager \<Rightarrow> string \<Rightarrow> person_row option" where
  "dbm_get_student db sid = find (\<lambda>r. row_id r = sid) (students_tab db)"

definition dbm_get_instructor :: "DatabaseManager \<Rightarrow> string \<Rightarrow> person_row option" where
  "dbm_get_instructor db iid = find (\<lambda>r. row_id r = iid) (instructors_tab db)"

text \<open>
  \<open>get_course\<close> and \<open>get_all_courses\<close> select from \<open>courses JOIN instructors\<close>: a course
  whose instructor row is missing is not returned. The rows come in the order of the
  courses table.
\<close>

definition joined :: "DatabaseManager \<Rightarrow> string \<times> string \<times> string \<Rightarrow> bool" where
  "joined db c = (dbm_get_instructor db (snd (snd c)) \<noteq> None)"

definition dbm_get_course :: "DatabaseManager \<Rightarrow> string \<Rightarrow> (string \<times> string \<times> string) option" where
  "dbm_get_course db cid = find (\<lambda>c. fst c = cid \<and> joined db c) (courses_tab db)"

definition dbm_get_all_courses :: "DatabaseManager \<Rightarrow> (string \<times> string \<times> string) list" where
  "dbm_get_all_courses db = filter (joined db) (courses_tab db)"

definition unique_failed :: "string \<Rightarrow> error" where
  "unique_failed cols = Sqlite3Error (''UNIQUE constraint failed: '' @ cols)"

definition foreign_key_failed :: error where
  "foreign_key_failed = Sqlite3Error ''FOREIGN KEY constraint failed''"

definition dbm_add_student ::
  "string \<Rightarrow> string \<Rightarrow> int \<Rightarrow> string \<Rightarrow> DatabaseManager \<Rightarrow> error + DatabaseManager" where
  "dbm_add_student sid n a e db =
     (if dbm_get_student db sid \<noteq> None then Inl (unique_failed ''students.student_id'')
      else Inr (db\<lparr>students_tab := students_tab db @ [(n, a, e, sid)]\<rparr>))"

definition dbm_add_instructor ::
  "string \<Rightarrow> string \<Rightarrow> int \<Rightarrow> string \<Rightarrow> DatabaseManager \<Rightarrow> error + DatabaseManager" where
  "dbm_add_instructor iid n a e db =
     (if dbm_get_instructor db iid \<noteq> None then Inl (unique_failed ''instructors.instructor_id'')
      else Inr (db\<lparr>instructors_tab := instructors_tab db @ [(n, a, e, iid)]\<rparr>))"

definition dbm_add_course ::
  "string \<Rightarrow> string \<Rightarrow> string \<Rightarrow> DatabaseManager \<Rightarrow> error + DatabaseManager" where
  "dbm_add_course cid cname iid db =
     (if find (\<lambda>c. fst c = cid) (courses_tab db) \<noteq> None
      then Inl (unique_failed ''courses.course_id'')
      else if dbm_get_instructor db iid = None then Inl foreign_key_failed
      else Inr (db\<lparr>courses_tab := courses_tab db @ [(cid, cname, iid)]\<rparr>))"

definition dbm_enroll_student ::
  "string \<Rightarrow> string \<Rightarrow> DatabaseManager \<Rightarrow> error + DatabaseManager" where
  "dbm_enroll_student sid cid db =
     (if (sid, cid) \<in> set (enrollments_tab db)
      then Inl (unique_failed ''enrollments.student_id, enrollments.course_id'')
      else if dbm_get_student db sid = None \<or> find (\<lambda>c. fst c = cid) (courses_tab db) = None
      then Inl foreign_key_failed
      else Inr (db\<lparr>enrollments_tab := enrollments_tab db @ [(sid, cid)]\<rparr>))"

definition dbm_delete_student :: "string \<Rightarrow> DatabaseManager \<Rightarrow> error + DatabaseManager" where
  "dbm_delete_student sid db =
     Inr (db\<lparr>students_tab := filter (\<lambda>r. row_id r \<noteq> sid) (students_tab db),
             enrollments_tab := filter (\<lambda>e. fst e \<noteq> sid) (enrollments_tab db)\<rparr>)"

definition dbm_delete_instructor :: "string \<Rightarrow> DatabaseManager \<Rightarrow> error + DatabaseManager" where
  "dbm_delete_instructor iid db =
     (if dbm_get_instructor db iid \<noteq> None \<and> find (\<lambda>c. snd (snd c) = iid) (courses_tab db) \<noteq> None
      then Inl foreign_key_failed
      else Inr (db\<lparr>instructors_tab := filter (\<lambda>r. row_id r \<noteq> iid) (instructors_tab db)\<rparr>))"

definition dbm_delete_course :: "string \<Rightarrow> DatabaseManager \<Rightarrow> error + DatabaseManager" where
  "dbm_delete_course cid db =
     Inr (db\<lparr>courses_tab := filter (\<lambda>c. fst c \<noteq> cid) (courses_tab db),
             enrollments_tab := filter (\<lambda>e. snd e \<noteq> cid) (enrollments_tab db)\<rparr>)"

text \<open>
  A value bound to a parameter of a statement (\<open>sqlite3\<close> of Python 3.11):
  \<open>None\<close> is \<open>NULL\<close>, an integer of at most 64 bits an \<open>INTEGER\<close>, a string a \<open>TEXT\<close>; a
  list, a dictionary or an object is refused with \<open>sqlite3.ProgrammingError\<close>, which names
  the position of the parameter, from 1.
\<close>

datatype cell = Null | Integer int | Text string

fun type_name :: "pyval \<Rightarrow> string" where
  "type_name PNone = ''NoneType''"
| "type_name (PInt n) = ''int''"
| "type_name (PStr s) = ''str''"
| "type_name (PList xs) = ''list''"
| "type_name (PDict kvs) = ''dict''"
| "type_name (PInstructor r) = ''Instructor''"

definition bind_param :: "nat \<Rightarrow> pyval \<Rightarrow> error + cell" where
  "bind_param pos v =
     (case v of
        PNone \<Rightarrow> Inr Null
      | PInt n \<Rightarrow>
          if - (2 ^ 63) \<le> n \<and> n < 2 ^ 63 then Inr (Integer n)
          else Inl (OverflowError ''Python int too large to convert to SQLite INTEGER'')
      | PStr t \<Rightarrow> Inr (Text t)
      | _ \<Rightarrow>
          Inl (Sqlite3Error (''Error binding parameter '' @ str_nat pos @ '': type '' @
                             quoted (type_name v) @ '' is not supported'')))"

fun bind_all :: "nat \<Rightarrow> pyval list \<Rightarrow> error + cell list" where
  "bind_all pos [] = Inr []"
| "bind_all pos (v # vs) =
     (case bind_param pos v of
        Inl e \<Rightarrow> Inl e
      | Inr c \<Rightarrow> (case bind_all (Suc pos) vs of Inl e \<Rightarrow> Inl e | Inr cs \<Rightarrow> Inr (c # cs)))"

text \<open>
  \<open>WHERE id = ?\<close> on a \<open>TEXT\<close> column: the column's affinity turns an integer parameter
  into its decimal text before the comparison; \<open>NULL\<close> equals nothing.
\<close>

fun key_text :: "cell \<Rightarrow> string option" where
  "key_text Null = None"
| "key_text (Integer n) = Some (str_int n)"
| "key_text (Text t) = Some t"

text \<open>
  What a column stores of a value. A \<open>TEXT NOT NULL\<close> column stores a text, and an integer
  as its decimal text. An \<open>INTEGER NOT NULL\<close> column stores an integer; a text it stores
  as an integer, a real or the text itself, by the rules of SQLite for numeric literals:
  a row that the typed tables of this model do not hold, for which the model gives no
  result (\<open>None\<close>). \<open>NULL\<close> violates \<open>NOT NULL\<close>.
\<close>

datatype 'a stored = Violates | Untyped | Stores 'a

fun text_column :: "cell \<Rightarrow> string stored" where
  "text_column Null = Violates"
| "text_column (Integer n) = Stores (str_int n)"
| "text_column (Text t) = Stores t"

fun integer_column :: "cell \<Rightarrow> int stored" where
  "integer_column Null = Violates"
| "integer_column (Integer n) = Stores n"
| "integer_column (Text t) = Untyped"

definition not_null_failed :: "string \<Rightarrow> string \<Rightarrow> error" where
  "not_null_failed table column =
     Sqlite3Error (''NOT NULL constraint failed: '' @ table @ ''.'' @ column)"

text \<open>
  The row after \<open>UPDATE table SET ... WHERE id = ?\<close>, for the assignments \<open>sets\<close> (column
  name and bound value; the keywords of a call are distinct). The \<open>NOT NULL\<close> constraints
  are checked in the order of the columns of the table.
\<close>

definition update_row ::
  "string \<Rightarrow> (string \<times> cell) list \<Rightarrow> person_row \<Rightarrow> (error + person_row) option" where
  "update_row table sets row =
     (case row of (n, a, e, i) \<Rightarrow>
        (let n' = (case map_of sets ''name'' of None \<Rightarrow> Stores n | Some c \<Rightarrow> text_column c);
             a' = (case map_of sets ''age'' of None \<Rightarrow> Stores a | Some c \<Rightarrow> integer_column c);
             e' = (case map_of sets ''email'' of None \<Rightarrow> Stores e | Some c \<Rightarrow> text_column c)
         in if n' = Violates then Some (Inl (not_null_failed table ''name''))
            else if a' = Violates then Some (Inl (not_null_failed table ''age''))
            else if e' = Violates then Some (Inl (not_null_failed table ''email''))
            else (case (n', a', e') of
                    (Stores n2, Stores a2, Stores e2) \<Rightarrow> Some (Inr (n2, a2, e2, i))
                  | _ \<Rightarrow> None)))"

text \<open>
  \<open>update_student\<close> and \<open>update_instructor\<close>: the keyword arguments other than \<open>name\<close>,
  \<open>age\<close> and \<open>email\<close> are dropped; with none left nothing is executed. Otherwise the
  values and then the id are bound, and the row of that id (the primary key: at most one)
  is updated in place. The outcome is the exception or the table.
\<close>

definition update_fields :: "(string \<times> pyval) list \<Rightarrow> (string \<times> pyval) list" where
  "update_fields kwargs =
     filter (\<lambda>kv. fst kv = ''name'' \<or> fst kv = ''age'' \<or> fst kv = ''email'') kwargs"

fun update_rows ::
  "string \<Rightarrow> (string \<times> cell) list \<Rightarrow> string \<Rightarrow> person_row list \<Rightarrow>
   (error + person_row list) option" where
  "update_rows table sets key [] = Some (Inr [])"
| "update_rows table sets key (r # rs) =
     (if row_id r = key
      then (case update_row table sets r of
              None \<Rightarrow> None
            | Some (Inl e) \<Rightarrow> Some (Inl e)
            | Some (Inr r') \<Rightarrow> Some (Inr (r' # rs)))
      else (case update_rows table sets key rs of
              None \<Rightarrow> None
            | Some (Inl e) \<Rightarrow> Some (Inl e)
            | Some (Inr rs') \<Rightarrow> Some (Inr (r # rs'))))"

definition update_table ::
  "string \<Rightarrow> pyval \<Rightarrow> (string \<times> pyval) list \<Rightarrow> person_row list \<Rightarrow>
   (error + person_row list) option" where
  "update_table table pid kwargs rows =
     (let fields = update_fields kwargs
      in if fields = [] then Some (Inr rows)
         else (case bind_all 1 (map snd fields @ [pid]) of
                 Inl e \<Rightarrow> Some (Inl e)
               | Inr cells \<Rightarrow>
                   (case key_text (last cells) of
                      None \<Rightarrow> Some (Inr rows)
                    | Some key \<Rightarrow> update_rows table (zip (map fst fields) (butlast cells)) key rows)))"

definition dbm_update_student ::
  "pyval \<Rightarrow> (string \<times> pyval) list \<Rightarrow> DatabaseManager \<Rightarrow> (error + DatabaseManager) option" where
  "dbm_update_student sid kwargs db =
     (case update_table ''students'' sid kwargs (students_tab db) of
        None \<Rightarrow> None
      | Some (Inl e) \<Rightarrow> Some (Inl e)
      | Some (Inr rows) \<Rightarrow> Some (Inr (db\<lparr>students_tab := rows\<rparr>)))"

definition dbm_update_instructor ::
  "pyval \<Rightarrow> (string \<times> pyval) list \<Rightarrow> DatabaseManager \<Rightarrow> (error + DatabaseManager) option" where
  "dbm_update_instructor iid kwargs db =
     (case update_table ''instructors'' iid kwargs (instructors_tab db) of
        None \<Rightarrow> None
      | Some (Inl e) \<Rightarrow> Some (Inl e)
      | Some (Inr rows) \<Rightarrow> Some (Inr (db\<lparr>instructors_tab := rows\<rparr>)))"

section \<open>The database manager and its cache (sms/data/dm/database.py)\<close>

text \<open>
  The hydrated data is the dictionary of three lists and three maps that
  \<open>_get_hydrated_data\<close> builds; the class attribute \<open>_cache\<close> holds it, or the empty
  dictionary (\<open>None\<close> here). The objects it refers to live in the heap of the state.
\<close>

record hydrated_data =
  all_students :: "nat list"
  all_instructors :: "nat list"
  all_courses :: "nat list"
  students_map :: "(string \<times> nat) list"
  instructors_map :: "(string \<times> nat) list"
  courses_map :: "(string \<times> nat) list"

record DatabaseDataManager = heap +
  dbm :: DatabaseManager
  cache :: "hydrated_data option"

fun wrap_sqlite3 :: "error \<Rightarrow> error" where
  "wrap_sqlite3 (Sqlite3Error m) = DataError m"
| "wrap_sqlite3 e = e"

definition clear_cache :: "DatabaseDataManager \<Rightarrow> DatabaseDataManager" where
  "clear_cache st = st\<lparr>cache := None\<rparr>"

text \<open>The list comprehensions \<open>[Student(*s) for s in ...]\<close> and \<open>[Instructor(*i) for i in ...]\<close>.\<close>

fun build_students :: "person_row list \<Rightarrow> error + Student list" where
  "build_students [] = Inr []"
| "build_students ((n, a, e, i) # rows) =
     (case Student_init (PStr n) (PInt a) (PStr e) (PStr i) of
        Inl err \<Rightarrow> Inl err
      | Inr s \<Rightarrow> (case build_students rows of Inl err \<Rightarrow> Inl err | Inr ss \<Rightarrow> Inr (s # ss)))"

fun build_instructors :: "person_row list \<Rightarrow> error + Instructor list" where
  "build_instructors [] = Inr []"
| "build_instructors ((n, a, e, i) # rows) =
     (case Instructor_init (PStr n) (PInt a) (PStr e) (PStr i) of
        Inl err \<Rightarrow> Inl err
      | Inr x \<Rightarrow> (case build_instructors rows of Inl err \<Rightarrow> Inl err | Inr xs \<Rightarrow> Inr (x # xs)))"

text \<open>The loop over the course rows: a row whose instructor is not in the map is skipped.\<close>

fun build_courses ::
  "(string \<times> string \<times> string) list \<Rightarrow> (string \<times> nat) list \<Rightarrow> nat list \<Rightarrow>
   DatabaseDataManager \<Rightarrow> (error + nat list) \<times> DatabaseDataManager" where
  "build_courses [] imap acc st = (Inr acc, st)"
| "build_courses ((cid, cname, iid) # rows) imap acc st =
     (case map_of imap iid of
        None \<Rightarrow> build_courses rows imap acc st
      | Some ri \<Rightarrow>
          (case Course_init (PStr cid) (PStr cname) (PInstructor ri) st of
             (Inl err, st1) \<Rightarrow> (Inl err, st1)
           | (Inr rc, st1) \<Rightarrow> build_courses rows imap (acc @ [rc]) st1))"

text \<open>A dictionary comprehension \<open>{key(x): x for x in xs}\<close> over references.\<close>

definition dict_of :: "(nat \<Rightarrow> string) \<Rightarrow> nat list \<Rightarrow> (string \<times> nat) list" where
  "dict_of key rs = foldl (\<lambda>d r. AList.update (key r) r d) [] rs"

text \<open>The loop over the enrollment rows appends to both lists directly.\<close>

fun link_enrollments ::
  "(string \<times> string) list \<Rightarrow> (string \<times> nat) list \<Rightarrow> (string \<times> nat) list \<Rightarrow>
   DatabaseDataManager \<Rightarrow> DatabaseDataManager" where
  "link_enrollments [] smap cmap st = st"
| "link_enrollments ((sid, cid) # rows) smap cmap st =
     (case (map_of smap sid, map_of cmap cid) of
        (Some rs, Some rc) \<Rightarrow>
          link_enrollments rows smap cmap
            (st\<lparr>student_objs :=
                  (student_objs st)
                    [rs := (student_objs st ! rs)
                       \<lparr>registered_courses := registered_courses (student_objs st ! rs) @ [rc]\<rparr>],
                course_objs :=
                  (course_objs st)
                    [rc := (course_objs st ! rc)
                       \<lparr>enrolled_students := enrolled_students (course_objs st ! rc) @ [rs]\<rparr>]\<rparr>)
      | _ \<Rightarrow> link_enrollments rows smap cmap st)"

text \<open>
  \<open>_get_hydrated_data\<close>: the cache if it is not empty, else a fresh graph built from the
  tables and stored in the cache. A \<open>ValueError\<close> of a constructor is not a
  \<open>sqlite3.Error\<close> and passes through.
\<close>

definition get_hydrated_data ::
  "DatabaseDataManager \<Rightarrow> hydrated_data result \<times> DatabaseDataManager" where
  "get_hydrated_data st =
     (case cache st of
        Some d \<Rightarrow> (Inr d, st)
      | None \<Rightarrow>
          (case build_students (students_tab (dbm st)) of
             Inl e \<Rightarrow> (Inl e, st)
           | Inr ss \<Rightarrow>
               (case build_instructors (instructors_tab (dbm st)) of
                  Inl e \<Rightarrow> (Inl e, st)
                | Inr xs \<Rightarrow>
                    (let srefs = [length (student_objs st) ..< length (student_objs st) + length ss];
                         irefs = [length (instructor_objs st) ..<
                                  length (instructor_objs st) + length xs];
                         st1 = st\<lparr>student_objs := student_objs st @ ss,
                                  instructor_objs := instructor_objs st @ xs\<rparr>;
                         imap = dict_of (\<lambda>r. instructor_id (instructor_objs st1 ! r)) irefs
                     in case build_courses (dbm_get_all_courses (dbm st)) imap [] st1 of
                          (Inl e, st2) \<Rightarrow> (Inl e, st2)
                        | (Inr crefs, st2) \<Rightarrow>
                            (let smap = dict_of (\<lambda>r. student_id (student_objs st2 ! r)) srefs;
                                 cmap = dict_of (\<lambda>r. course_id (course_objs st2 ! r)) crefs;
                                 st3 = link_enrollments (enrollments_tab (dbm st)) smap cmap st2;
                                 d = \<lparr>all_students = srefs, all_instructors = irefs,
                                      all_courses = crefs, students_map = smap,
                                      instructors_map = imap, courses_map = cmap\<rparr>
                             in (Inr d, st3\<lparr>cache := Some d\<rparr>))))))"

text \<open>The reads clear the cache and hydrate again.\<close>

definition DatabaseDataManager_get_students ::
  "DatabaseDataManager \<Rightarrow> nat list result \<times> DatabaseDataManager" where
  "DatabaseDataManager_get_students st =
     (case get_hydrated_data (clear_cache st) of
        (Inl e, st1) \<Rightarrow> (Inl e, st1)
      | (Inr d, st1) \<Rightarrow> (Inr (all_students d), st1))"


definition DatabaseDataManager_get_instructor ::
  "string \<Rightarrow> DatabaseDataManager \<Rightarrow> nat result \<times> DatabaseDataManager" where
  "DatabaseDataManager_get_instructor iid st =
     (case get_hydrated_data (clear_cache st) of
        (Inl e, st1) \<Rightarrow> (Inl e, st1)
      | (Inr d, st1) \<Rightarrow>
          (case map_of (instructors_map d) iid of
             None \<Rightarrow> (Inl (not_found ''Instructor'' iid), st1)
           | Some r \<Rightarrow> (Inr r, st1)))"

definition DatabaseDataManager_get_course ::
  "string \<Rightarrow> DatabaseDataManager \<Rightarrow> nat result \<times> DatabaseDataManager" where
  "DatabaseDataManager_get_course cid st =
     (case get_hydrated_data (clear_cache st) of
        (Inl e, st1) \<Rightarrow> (Inl e, st1)
      | (Inr d, st1) \<Rightarrow>
          (case map_of (courses_map d) cid of
             None \<Rightarrow> (Inl (not_found ''Course'' cid), st1)
           | Some r \<Rightarrow> (Inr r, st1)))"

text \<open>
  The mutating calls. After the constructor has accepted the keyword arguments, \<open>name\<close>,
  \<open>email\<close> and the id are strings and \<open>age\<close> is an integer (so \<open>the_str\<close> and \<open>the_int\<close>
  read them); the row is inserted from the arguments as given, not from the object.
\<close>

definition on_store ::
  "error + DatabaseManager \<Rightarrow> DatabaseDataManager \<Rightarrow> unit result \<times> DatabaseDataManager" where
  "on_store r st =
     (case r of Inl e \<Rightarrow> (Inl (wrap_sqlite3 e), st) | Inr db \<Rightarrow> (Inr (), st\<lparr>dbm := db\<rparr>))"

definition DatabaseDataManager_add_student ::
  "(string \<times> pyval) list \<Rightarrow> DatabaseDataManager \<Rightarrow> unit result \<times> DatabaseDataManager" where
  "DatabaseDataManager_add_student kwargs st =
     (case Student_new kwargs of
        Inl e \<Rightarrow> (Inl (wrap_ValueError e), st)
      | Inr s \<Rightarrow>
          if dbm_get_student (dbm st) (student_id s) \<noteq> None
          then (Inl (already_exists ''Student'' (student_id s)), st)
          else on_store
                 (dbm_add_student (the_str (kwget kwargs ''student_id''))
                    (the_str (kwget kwargs ''name'')) (the_int (kwget kwargs ''age''))
                    (the_str (kwget kwargs ''email'')) (dbm st)) st)"

definition DatabaseDataManager_add_instructor ::
  "(string \<times> pyval) list \<Rightarrow> DatabaseDataManager \<Rightarrow> unit result \<times> DatabaseDataManager" where
  "DatabaseDataManager_add_instructor kwargs st =
     (case Instructor_new kwargs of
        Inl e \<Rightarrow> (Inl (wrap_ValueError e), st)
      | Inr i \<Rightarrow>
          if dbm_get_instructor (dbm st) (instructor_id i) \<noteq> None
          then (Inl (already_exists ''Instructor'' (instructor_id i)), st)
          else on_store
                 (dbm_add_instructor (the_str (kwget kwargs ''instructor_id''))
                    (the_str (kwget kwargs ''name'')) (the_int (kwget kwargs ''age''))
                    (the_str (kwget kwargs ''email'')) (dbm st)) st)"

definition DatabaseDataManager_add_course ::
  "(string \<times> pyval) list \<Rightarrow> DatabaseDataManager \<Rightarrow> unit result \<times> DatabaseDataManager" where
  "DatabaseDataManager_add_course kwargs st =
     (case Course_new kwargs st of
        (Inl e, st1) \<Rightarrow> (Inl (wrap_ValueError e), st1)
      | (Inr rc, st1) \<Rightarrow>
          (let c = course_objs st1 ! rc
           in if dbm_get_course (dbm st1) (course_id c) \<noteq> None
              then (Inl (already_exists ''Course'' (course_id c)), st1)
              else (case instructor c of
                      PInstructor ri \<Rightarrow>
                        on_store
                          (dbm_add_course (course_id c) (course_name c)
                             (instructor_id (instructor_objs st1 ! ri)) (dbm st1)) st1
                    | _ \<Rightarrow> (Inl AttributeError, st1))))"

definition DatabaseDataManager_remove_student ::
  "string \<Rightarrow> DatabaseDataManager \<Rightarrow> unit result \<times> DatabaseDataManager" where
  "DatabaseDataManager_remove_student sid st =
     (if dbm_get_student (dbm st) sid = None then (Inl (does_not_exist ''Student'' sid), st)
      else on_store (dbm_delete_student sid (dbm st)) st)"

definition DatabaseDataManager_remove_instructor ::
  "string \<Rightarrow> DatabaseDataManager \<Rightarrow> unit result \<times> DatabaseDataManager" where
  "DatabaseDataManager_remove_instructor iid st =
     (if dbm_get_instructor (dbm st) iid = None then (Inl (does_not_exist ''Instructor'' iid), st)
      else on_store (dbm_delete_instructor iid (dbm st)) st)"

definition DatabaseDataManager_remove_course ::
  "string \<Rightarrow> DatabaseDataManager \<Rightarrow> unit result \<times> DatabaseDataManager" where
  "DatabaseDataManager_remove_course cid st =
     (if dbm_get_course (dbm st) cid = None then (Inl (does_not_exist ''Course'' cid), st)
      else on_store (dbm_delete_course cid (dbm st)) st)"

definition DatabaseDataManager_enroll_student ::
  "string \<Rightarrow> string \<Rightarrow> DatabaseDataManager \<Rightarrow> unit result \<times> DatabaseDataManager" where
  "DatabaseDataManager_enroll_student sid cid st =
     (if dbm_get_student (dbm st) sid = None then (Inl (not_found ''Student'' sid), st)
      else if dbm_get_course (dbm st) cid = None then (Inl (not_found ''Course'' cid), st)
      else on_store (dbm_enroll_student sid cid (dbm st)) st)"

text \<open>
  \<open>edit_student\<close> and \<open>edit_instructor\<close>: the id must be truthy and its row must exist
  (\<open>get_student\<close> binds the id as given); then the keyword arguments go to the store as
  they are, without the validation and the \<open>if name:\<close> guards of \<open>Person.update\<close>. The
  keyword of the id is the parameter \<open>student_id\<close> of \<open>update_student\<close>, the others are its
  \<open>**kwargs\<close>. The result is \<open>None\<close> where the store's is.
\<close>

definition found_row :: "(string \<Rightarrow> person_row option) \<Rightarrow> pyval \<Rightarrow> error + bool" where
  "found_row get pid =
     (case bind_param 1 pid of
        Inl e \<Rightarrow> Inl e
      | Inr c \<Rightarrow> Inr (case key_text c of None \<Rightarrow> False | Some key \<Rightarrow> get key \<noteq> None))"

definition DatabaseDataManager_edit_student ::
  "(string \<times> pyval) list \<Rightarrow> DatabaseDataManager \<Rightarrow>
   (unit result \<times> DatabaseDataManager) option" where
  "DatabaseDataManager_edit_student kwargs st =
     (let sid = kwget kwargs ''student_id''
      in if \<not> truthy sid then Some (Inl (id_required ''Student''), st)
         else (case found_row (dbm_get_student (dbm st)) sid of
                 Inl e \<Rightarrow> Some (Inl (wrap_sqlite3 e), st)
               | Inr False \<Rightarrow> Some (Inl (not_found ''Student'' (id_text sid)), st)
               | Inr True \<Rightarrow>
                   (case dbm_update_student sid
                           (filter (\<lambda>kv. fst kv \<noteq> ''student_id'') kwargs) (dbm st) of
                      None \<Rightarrow> None
                    | Some r \<Rightarrow> Some (on_store r st))))"

definition DatabaseDataManager_edit_instructor ::
  "(string \<times> pyval) list \<Rightarrow> DatabaseDataManager \<Rightarrow>
   (unit result \<times> DatabaseDataManager) option" where
  "DatabaseDataManager_edit_instructor kwargs st =
     (let iid = kwget kwargs ''instructor_id''
      in if \<not> truthy iid then Some (Inl (id_required ''Instructor''), st)
         else (case found_row (dbm_get_instructor (dbm st)) iid of
                 Inl e \<Rightarrow> Some (Inl (wrap_sqlite3 e), st)
               | Inr False \<Rightarrow> Some (Inl (not_found ''Instructor'' (id_text iid)), st)
               | Inr True \<Rightarrow>
                   (case dbm_update_instructor iid
                           (filter (\<lambda>kv. fst kv \<noteq> ''instructor_id'') kwargs) (dbm st) of
                      None \<Rightarrow> None
                    | Some r \<Rightarrow> Some (on_store r st))))"

text \<open>A manager over empty tables, with an empty cache and no objects.\<close>

definition empty_database :: DatabaseDataManager where
  "empty_database =
     \<lparr>student_objs = [], instructor_objs = [], course_objs = [],
      dbm = \<lparr>students_tab = [], instructors_tab = [], courses_tab = [], enrollments_tab = []\<rparr>,
      cache = None\<rparr>"

section \<open>A small graph built through the manager\<close>

text \<open>
  The scenario of the specification: two instructors, one student, the course EECE230
  taught by the first instructor, and the student enrolled in it. Every step goes through
  the in-memory manager, starting from the empty datastore.
\<close>

definition kw_smith :: "(string \<times> pyval) list" where
  "kw_smith = [(''name'', PStr ''Emily Smith''), (''age'', PInt 45),
               (''email'', PStr ''e.smith@university.edu''), (''instructor_id'', PStr ''199801234'')]"

definition kw_jones :: "(string \<times> pyval) list" where
  "kw_jones = [(''name'', PStr ''Alan Jones''), (''age'', PInt 52),
               (''email'', PStr ''a.jones@university.edu''), (''instructor_id'', PStr ''199505678'')]"

definition kw_john :: "(string \<times> pyval) list" where
  "kw_john = [(''name'', PStr ''John Doe''), (''age'', PInt 20),
              (''email'', PStr ''john.doe@lau.edu''), (''student_id'', PStr ''202401111'')]"

definition kw_eece230 :: "nat \<Rightarrow> (string \<times> pyval) list" where
  "kw_eece230 ri = [(''course_id'', PStr ''EECE230''), (''course_name'', PStr ''Software Engineering''),
                    (''instructor'', PInstructor ri)]"

definition demo_before :: FileManager where
  "demo_before =
     (let d1 = snd (MemoryDataManager_add_instructor kw_smith empty_datastore);
          d2 = snd (MemoryDataManager_add_instructor kw_jones d1);
          d3 = snd (MemoryDataManager_add_student kw_john d2)
      in snd (MemoryDataManager_add_course (kw_eece230 0) d3))"

definition demo_graph :: FileManager where
  "demo_graph = snd (MemoryDataManager_enroll_student ''202401111'' ''EECE230'' demo_before)"

text \<open>The same graph after \<open>edit_course\<close> has given the course to the second instructor.\<close>

definition reassigned_graph :: FileManager where
  "reassigned_graph =
     snd (MemoryDataManager_edit_course
            [(''course_id'', PStr ''EECE230''), (''instructor'', PInstructor 1)] demo_graph)"

lemma demo_graph_value [code]:
  "demo_graph =
     \<lparr>student_objs =
        [\<lparr>name = ''John Doe'', age = 20, email = ''john.doe@lau.edu'',
          student_id = ''202401111'', registered_courses = [0]\<rparr>],
      instructor_objs =
        [\<lparr>name = ''Emily Smith'', age = 45, email = ''e.smith@university.edu'',
          instructor_id = ''199801234'', assigned_courses = [0]\<rparr>,
         \<lparr>name = ''Alan Jones'', age = 52, email = ''a.jones@university.edu'',
          instructor_id = ''199505678'', assigned_courses = []\<rparr>],
      course_objs =
        [\<lparr>course_id = ''EECE230'', course_name = ''Software Engineering'',
          instructor = PInstructor 0, enrolled_students = [0]\<rparr>],
      students = [(''202401111'', 0)],
      instructors = [(''199801234'', 0), (''199505678'', 1)],
      courses = [(''EECE230'', 0)]\<rparr>"
  by code_simp

text \<open>
  The same scenario through the database manager, with one instructor. The course form
  obtains the \<open>Instructor\<close> object from a read (reference 0 of the hydrated graph) and
  passes it to \<open>add_course\<close>.
\<close>

definition db_demo_before :: DatabaseDataManager where
  "db_demo_before =
     (let s1 = snd (DatabaseDataManager_add_instructor kw_smith empty_database);
          s2 = snd (DatabaseDataManager_add_student kw_john s1);
          s3 = snd (DatabaseDataManager_get_instructor ''199801234'' s2)
      in snd (DatabaseDataManager_add_course (kw_eece230 0) s3))"

definition db_demo :: DatabaseDataManager where
  "db_demo = snd (DatabaseDataManager_enroll_student ''202401111'' ''EECE230'' db_demo_before)"

text \<open>A database manager right after a read of the empty tables: the cache is filled.\<close>

definition warm_database :: DatabaseDataManager where
  "warm_database = snd (DatabaseDataManager_get_students empty_database)"

lemma db_demo_before_value [code]:
  "db_demo_before =
     \<lparr>student_objs =
        [\<lparr>name = ''John Doe'', age = 20, email = ''john.doe@lau.edu'',
          student_id = ''202401111'', registered_courses = []\<rparr>],
      instructor_objs =
        [\<lparr>name = ''Emily Smith'', age = 45, email = ''e.smith@university.edu'',
          instructor_id = ''199801234'', assigned_courses = [0]\<rparr>],
      course_objs =
        [\<lparr>course_id = ''EECE230'', course_name = ''Software Engineering'',
          instructor = PInstructor 0, enrolled_students = []\<rparr>],
      dbm =
        \<lparr>students_tab = [(''John Doe'', 20, ''john.doe@lau.edu'', ''202401111'')],
         instructors_tab = [(''Emily Smith'', 45, ''e.smith@university.edu'', ''199801234'')],
         courses_tab = [(''EECE230'', ''Software Engineering'', ''199801234'')],
         enrollments_tab = []\<rparr>,
      cache =
        Some \<lparr>all_students = [0], all_instructors = [0], all_courses = [],
              students_map = [(''202401111'', 0)], instructors_map = [(''199801234'', 0)],
              courses_map = []\<rparr>\<rparr>"
  by code_simp

section \<open>The graph of a datastore and the steps of an import\<close>

text \<open>
  The data-model invariants of a graph. The scalar fields are as the constructors and
  \<open>update\<close> leave them: validated, and stored stripped (an instructor's id as given, a
  course name as given or stripped, a course id stripped and upper-cased).
\<close>

definition valid_person :: "'a Person_scheme \<Rightarrow> bool" where
  "valid_person p =
     (strip (name p) = name p \<and> check_name (name p) \<and> check_age (age p) \<and>
      strip (email p) = email p \<and> check_email (email p))"

definition valid_student :: "Student \<Rightarrow> bool" where
  "valid_student s =
     (valid_person s \<and> strip (student_id s) = student_id s \<and> check_id (student_id s))"

definition valid_instructor :: "Instructor \<Rightarrow> bool" where
  "valid_instructor i = (valid_person i \<and> check_id (strip (instructor_id i)))"

definition valid_course :: "Course \<Rightarrow> bool" where
  "valid_course c =
     (check_course_id (strip (course_id c)) \<and> upper (strip (course_id c)) = course_id c \<and>
      check_course_name (strip (course_name c)))"

text \<open>
  Every dictionary maps the id of an entity to that entity (invariant 3); every course has
  an instructor of the graph, who lists it (invariants 1 and 4), and an instructor lists
  only courses of the graph that are his; a student is registered, once, only in courses
  of the graph that list him, and a course lists only students of the graph that are
  registered in it (invariant 2).
\<close>

definition student_ok :: "FileManager \<Rightarrow> string \<Rightarrow> nat \<Rightarrow> bool" where
  "student_ok fm k r =
     (student_id (student_objs fm ! r) = k \<and> valid_student (student_objs fm ! r) \<and>
      distinct (registered_courses (student_objs fm ! r)) \<and>
      (\<forall>rc \<in> set (registered_courses (student_objs fm ! r)).
         rc \<in> snd ` set (courses fm) \<and> r \<in> set (enrolled_students (course_objs fm ! rc))))"

definition instructor_ok :: "FileManager \<Rightarrow> string \<Rightarrow> nat \<Rightarrow> bool" where
  "instructor_ok fm k r =
     (instructor_id (instructor_objs fm ! r) = k \<and> valid_instructor (instructor_objs fm ! r) \<and>
      (\<forall>rc \<in> set (assigned_courses (instructor_objs fm ! r)).
         rc \<in> snd ` set (courses fm) \<and> instructor (course_objs fm ! rc) = PInstructor r))"

definition course_ok :: "FileManager \<Rightarrow> string \<Rightarrow> nat \<Rightarrow> bool" where
  "course_ok fm k r =
     (course_id (course_objs fm ! r) = k \<and> valid_course (course_objs fm ! r) \<and>
      (case instructor (course_objs fm ! r) of
         PInstructor ri \<Rightarrow>
           ri \<in> snd ` set (instructors fm) \<and>
           r \<in> set (assigned_courses (instructor_objs fm ! ri))
       | _ \<Rightarrow> False) \<and>
      (\<forall>rs \<in> set (enrolled_students (course_objs fm ! r)).
         rs \<in> snd ` set (students fm) \<and> r \<in> set (registered_courses (student_objs fm ! rs))))"

definition well_formed :: "FileManager \<Rightarrow> bool" where
  "well_formed fm =
     (distinct (map fst (students fm)) \<and> distinct (map fst (instructors fm)) \<and>
      distinct (map fst (courses fm)) \<and>
      (\<forall>(k, r) \<in> set (students fm). student_ok fm k r) \<and>
      (\<forall>(k, r) \<in> set (instructors fm). instructor_ok fm k r) \<and>
      (\<forall>(k, r) \<in> set (courses fm). course_ok fm k r))"

text \<open>
  What two graphs are compared on: the entities with their scalar fields (a course with
  the id of its instructor), and the relationship edges as sets of id pairs.
\<close>

definition student_entities :: "FileManager \<Rightarrow> (string \<times> string \<times> string \<times> int \<times> string) list" where
  "student_entities fm =
     map (\<lambda>(k, r). (k, student_id (student_objs fm ! r), name (student_objs fm ! r),
                     age (student_objs fm ! r), email (student_objs fm ! r))) (students fm)"

definition instructor_entities ::
  "FileManager \<Rightarrow> (string \<times> string \<times> string \<times> int \<times> string) list" where
  "instructor_entities fm =
     map (\<lambda>(k, r). (k, instructor_id (instructor_objs fm ! r), name (instructor_objs fm ! r),
                     age (instructor_objs fm ! r), email (instructor_objs fm ! r))) (instructors fm)"

definition instructor_id_of :: "'a heap_scheme \<Rightarrow> Course \<Rightarrow> string" where
  "instructor_id_of h c =
     (case instructor c of PInstructor ri \<Rightarrow> instructor_id (instructor_objs h ! ri) | _ \<Rightarrow> [])"

definition course_entities :: "FileManager \<Rightarrow> (string \<times> string \<times> string \<times> string) list" where
  "course_entities fm =
     map (\<lambda>(k, r). (k, course_id (course_objs fm ! r), course_name (course_objs fm ! r),
                     instructor_id_of fm (course_objs fm ! r))) (courses fm)"

definition enrollment_edges :: "FileManager \<Rightarrow> (string \<times> string) set" where
  "enrollment_edges fm =
     set (concat (map (\<lambda>(k, r). map (Pair k)
                                   (course_ids fm (registered_courses (student_objs fm ! r))))
                      (students fm)))"

definition roster_edges :: "FileManager \<Rightarrow> (string \<times> string) set" where
  "roster_edges fm =
     set (concat (map (\<lambda>(k, r). map (Pair k)
                                   (student_ids fm (enrolled_students (course_objs fm ! r))))
                      (courses fm)))"

definition assigned_edges :: "FileManager \<Rightarrow> (string \<times> string) set" where
  "assigned_edges fm =
     set (concat (map (\<lambda>(k, r). map (Pair k)
                                   (course_ids fm (assigned_courses (instructor_objs fm ! r))))
                      (instructors fm)))"

definition same_graph :: "FileManager \<Rightarrow> FileManager \<Rightarrow> bool" where
  "same_graph a b =
     (set (student_entities a) = set (student_entities b) \<and>
      set (instructor_entities a) = set (instructor_entities b) \<and>
      set (course_entities a) = set (course_entities b) \<and>
      enrollment_edges a = enrollment_edges b \<and>
      roster_edges a = roster_edges b \<and>
      assigned_edges a = assigned_edges b)"

text \<open>
  The definitions from here to the end of this section belong to the proof of the JSON
  round trip, not to the program: they name what the loops of \<open>load_from_json\<close> do once
  every lookup and check of a well-formed export has succeeded (four kinds of steps on
  the target, and \<open>rebuild\<close>, the four loops in a row), what \<open>save_to_json\<close> writes for a
  well-formed graph, and what holds of the target between two steps. That the loader and
  the writer of the program agree with them is proved below (\<open>load_from_json_rebuild\<close>,
  \<open>json_document_well_formed\<close>).
\<close>

definition instr_step :: "Instructor \<Rightarrow> FileManager \<Rightarrow> FileManager" where
  "instr_step i t =
     t\<lparr>instructor_objs := instructor_objs t @ [i\<lparr>assigned_courses := []\<rparr>],
       instructors := AList.update (instructor_id i) (length (instructor_objs t)) (instructors t)\<rparr>"

definition student_step :: "Student \<Rightarrow> FileManager \<Rightarrow> FileManager" where
  "student_step s t =
     t\<lparr>student_objs := student_objs t @ [s\<lparr>registered_courses := []\<rparr>],
       students := AList.update (student_id s) (length (student_objs t)) (students t)\<rparr>"

definition course_step :: "string \<times> string \<times> string \<Rightarrow> FileManager \<Rightarrow> FileManager" where
  "course_step c t =
     (case c of (cid, cname, iid) \<Rightarrow>
        (case map_of (instructors t) iid of
           None \<Rightarrow> t
         | Some ri \<Rightarrow> snd (new_course (PStr cid) (PStr cname) ri t)))"

definition reg_step :: "string \<times> string \<Rightarrow> FileManager \<Rightarrow> FileManager" where
  "reg_step p t =
     (case (map_of (students t) (fst p), map_of (courses t) (snd p)) of
        (Some rs, Some rc) \<Rightarrow> Student_register_course rs rc t
      | _ \<Rightarrow> t)"

definition instructor_list :: "FileManager \<Rightarrow> Instructor list" where
  "instructor_list fm = map (\<lambda>r. instructor_objs fm ! r) (map snd (instructors fm))"

definition student_list :: "FileManager \<Rightarrow> Student list" where
  "student_list fm = map (\<lambda>r. student_objs fm ! r) (map snd (students fm))"

definition course_list :: "FileManager \<Rightarrow> Course list" where
  "course_list fm = map (\<lambda>r. course_objs fm ! r) (map snd (courses fm))"

definition course_item :: "'a heap_scheme \<Rightarrow> Course \<Rightarrow> string \<times> string \<times> string" where
  "course_item h c = (course_id c, course_name c, instructor_id_of h c)"

definition student_pairs :: "'a heap_scheme \<Rightarrow> Student \<Rightarrow> (string \<times> string) list" where
  "student_pairs h s = map (Pair (student_id s)) (course_ids h (registered_courses s))"

definition rebuild :: "FileManager \<Rightarrow> FileManager \<Rightarrow> FileManager" where
  "rebuild fm t =
     foldl (\<lambda>t p. reg_step p t)
       (foldl (\<lambda>t c. course_step c t)
          (foldl (\<lambda>t s. student_step s t)
             (foldl (\<lambda>t i. instr_step i t) (clear_all t) (instructor_list fm))
             (student_list fm))
          (map (course_item fm) (course_list fm)))
       (concat (map (student_pairs fm) (student_list fm)))"

definition course_doc :: "'a heap_scheme \<Rightarrow> Course \<Rightarrow> pyval" where
  "course_doc h c =
     PDict [(''course_id'', PStr (course_id c)), (''course_name'', PStr (course_name c)),
            (''instructor_id'', PStr (instructor_id_of h c)),
            (''enrolled_students'', PList (map PStr (student_ids h (enrolled_students c))))]"

definition export_document :: "FileManager \<Rightarrow> pyval" where
  "export_document fm =
     PDict [(''students'', PList (map (Student_to_dict fm) (student_list fm))),
            (''instructors'', PList (map (Instructor_to_dict fm) (instructor_list fm))),
            (''courses'', PList (map (course_doc fm) (course_list fm)))]"

text \<open>
  What holds of the target of an import between its steps: the references of a dictionary
  are distinct and point to objects that carry the key as their id, and an instructor of
  the dictionary lists existing course objects only.
\<close>

definition target_ok :: "FileManager \<Rightarrow> bool" where
  "target_ok t =
     (distinct (map snd (students t)) \<and> distinct (map snd (instructors t)) \<and>
      distinct (map snd (courses t)) \<and>
      (\<forall>(k, r) \<in> set (students t). r < length (student_objs t) \<and> student_id (student_objs t ! r) = k) \<and>
      (\<forall>(k, r) \<in> set (instructors t).
         r < length (instructor_objs t) \<and> instructor_id (instructor_objs t ! r) = k \<and>
         (\<forall>rc \<in> set (assigned_courses (instructor_objs t ! r)). rc < length (course_objs t))) \<and>
      (\<forall>(k, r) \<in> set (courses t). r < length (course_objs t) \<and> course_id (course_objs t ! r) = k))"

definition unlinked :: "FileManager \<Rightarrow> bool" where
  "unlinked t =
     ((\<forall>(k, r) \<in> set (students t). registered_courses (student_objs t ! r) = []) \<and>
      (\<forall>(k, r) \<in> set (courses t). enrolled_students (course_objs t ! r) = []))"

text \<open>One course step, written out.\<close>

definition course_added :: "string \<Rightarrow> string \<Rightarrow> nat \<Rightarrow> FileManager \<Rightarrow> FileManager" where
  "course_added cid cname ri t =
     t\<lparr>course_objs := course_objs t @
          [\<lparr>course_id = cid, course_name = cname, instructor = PInstructor ri,
            enrolled_students = []\<rparr>],
       instructor_objs :=
         (if cid \<in> set (course_ids t (assigned_courses (instructor_objs t ! ri)))
          then instructor_objs t
          else (instructor_objs t)
                 [ri := (instructor_objs t ! ri)
                    \<lparr>assigned_courses :=
                       assigned_courses (instructor_objs t ! ri) @ [length (course_objs t)]\<rparr>]),
       courses := AList.update cid (length (course_objs t)) (courses t)\<rparr>"

definition course_item_ok :: "FileManager \<Rightarrow> string \<times> string \<times> string \<Rightarrow> bool" where
  "course_item_ok t c =
     (case c of (cid, cname, iid) \<Rightarrow>
        check_course_id (strip cid) \<and> upper (strip cid) = cid \<and>
        check_course_name (strip cname) \<and> map_of (instructors t) iid \<noteq> None \<and>
        cid \<notin> fst ` set (courses t))"

definition course_entity :: "string \<times> string \<times> string \<Rightarrow> string \<times> string \<times> string \<times> string" where
  "course_entity c = (case c of (cid, cname, iid) \<Rightarrow> (cid, cid, cname, iid))"

definition course_edge :: "string \<times> string \<times> string \<Rightarrow> string \<times> string" where
  "course_edge c = (case c of (cid, cname, iid) \<Rightarrow> (iid, cid))"

definition pair_ok :: "FileManager \<Rightarrow> string \<times> string \<Rightarrow> bool" where
  "pair_ok t p = (map_of (students t) (fst p) \<noteq> None \<and> map_of (courses t) (snd p) \<noteq> None)"

definition loaded :: "Instructor list \<Rightarrow> Student list \<Rightarrow> FileManager \<Rightarrow> FileManager" where
  "loaded ins ss t =
     t\<lparr>instructor_objs := instructor_objs t @ map (\<lambda>i. i\<lparr>assigned_courses := []\<rparr>) ins,
       student_objs := student_objs t @ map (\<lambda>s. s\<lparr>registered_courses := []\<rparr>) ss,
       students := zip (map student_id ss) [length (student_objs t)..<length (student_objs t) + length ss],
       instructors := zip (map instructor_id ins)
                        [length (instructor_objs t)..<length (instructor_objs t) + length ins],
       courses := []\<rparr>"

definition student_entity :: "Student \<Rightarrow> string \<times> string \<times> string \<times> int \<times> string" where
  "student_entity s = (student_id s, student_id s, name s, age s, email s)"

definition instructor_entity :: "Instructor \<Rightarrow> string \<times> string \<times> string \<times> int \<times> string" where
  "instructor_entity i = (instructor_id i, instructor_id i, name i, age i, email i)"

section \<open>Removing a student or an instructor\<close>

text \<open>
  C1. The claim: \<open>remove_student\<close> and \<open>remove_instructor\<close> of the in-memory manager first
  sever every relationship edge of the removed entity, so that afterwards no remaining
  course lists the removed student or refers to the removed instructor. The code only
  deletes the dictionary entry. In the scenario graph both removals succeed and change
  nothing but that dictionary: course EECE230 stays in the datastore, its
  \<open>enrolled_students\<close> still holds the removed student 202401111, and its \<open>instructor\<close> is
  still the removed instructor 199801234.
\<close>

theorem remove_student_instructor_keep_edges:
  "MemoryDataManager_remove_student ''202401111'' demo_graph
     = (Inr (), demo_graph\<lparr>students := []\<rparr>) \<and>
   MemoryDataManager_remove_instructor ''199801234'' demo_graph
     = (Inr (), demo_graph\<lparr>instructors := [(''199505678'', 1)]\<rparr>) \<and>
   map_of (courses demo_graph) ''EECE230'' = Some 0 \<and>
   student_ids demo_graph (enrolled_students (course_objs demo_graph ! 0)) = [''202401111''] \<and>
   instructor (course_objs demo_graph ! 0) = PInstructor 0 \<and>
   instructor_id (instructor_objs demo_graph ! 0) = ''199801234''"
  by code_simp

section \<open>Reassigning the instructor of a course\<close>

text \<open>
  C2. The claim: \<open>edit_course\<close> with an \<open>instructor\<close> field removes the course from the old
  instructor's \<open>assigned_courses\<close> and adds it to the new one's. In the in-memory manager
  \<open>Course.update\<close> replaces the reference and touches no list: after the edit of the
  scenario graph the course refers to the second instructor, the first instructor still
  lists the course and the second one lists nothing.
\<close>

theorem edit_course_leaves_assigned_lists:
  "MemoryDataManager_edit_course
     [(''course_id'', PStr ''EECE230''), (''instructor'', PInstructor 1)] demo_graph
     = (Inr (), reassigned_graph) \<and>
   instructor (course_objs reassigned_graph ! 0) = PInstructor 1 \<and>
   assigned_courses (instructor_objs reassigned_graph ! 0) = [0] \<and>
   assigned_courses (instructor_objs reassigned_graph ! 1) = []"
  by code_simp

section \<open>Adding under an id that is taken\<close>

text \<open>
  C4. The claim: an add with an id already present fails with the already-exists
  \<open>DataError\<close> and leaves the graph, every instructor's \<open>assigned_courses\<close> included, as it
  was. \<open>add_course\<close> constructs the \<open>Course\<close> before it looks the id up, and the
  constructor assigns the new object to the instructor it was given. Adding EECE230 again
  with the second instructor fails as claimed, but that instructor's list, empty before,
  now holds the rejected course object (reference 1), which is in no dictionary.
\<close>

theorem add_course_duplicate_mutates_instructor:
  "fst (MemoryDataManager_add_course (kw_eece230 1) demo_graph)
     = Inl (already_exists ''Course'' ''EECE230'') \<and>
   assigned_courses (instructor_objs demo_graph ! 1) = [] \<and>
   assigned_courses
     (instructor_objs (snd (MemoryDataManager_add_course (kw_eece230 1) demo_graph)) ! 1) = [1] \<and>
   courses (snd (MemoryDataManager_add_course (kw_eece230 1) demo_graph)) = [(''EECE230'', 0)]"
  by code_simp

section \<open>Removing a course\<close>

text \<open>
  The effect of the loop of \<open>remove_course\<close> on the student objects: every student in the
  list loses the first occurrence of the course.
\<close>

definition detached :: "nat \<Rightarrow> nat list \<Rightarrow> Student list \<Rightarrow> Student list" where
  "detached rc rss objs =
     map (\<lambda>j. if j \<in> set rss
              then (objs ! j)\<lparr>registered_courses := remove1 rc (registered_courses (objs ! j))\<rparr>
              else objs ! j) [0..<length objs]"

lemma length_detached [simp]: "length (detached rc rss objs) = length objs"
  by (simp add: detached_def)

lemma nth_detached:
  "j < length objs \<Longrightarrow>
   detached rc rss objs ! j =
     (if j \<in> set rss
      then (objs ! j)\<lparr>registered_courses := remove1 rc (registered_courses (objs ! j))\<rparr>
      else objs ! j)"
  by (simp add: detached_def)

lemma detached_Nil [simp]: "detached rc [] objs = objs"
  by (rule nth_equalityI) (simp_all add: nth_detached)

lemma detached_Cons:
  assumes "r \<notin> set rest" "r < length objs"
  shows "detached rc rest
           (objs[r := (objs ! r)\<lparr>registered_courses := remove1 rc (registered_courses (objs ! r))\<rparr>])
         = detached rc (r # rest) objs"
  using assms by (intro nth_equalityI) (auto simp: nth_detached nth_list_update)

lemma detach_students_ok:
  assumes "distinct rss"
    and "list_all (\<lambda>rs. rs < length (student_objs ds) \<and>
                         rc \<in> set (registered_courses (student_objs ds ! rs))) rss"
  shows "detach_students rc rss ds =
           (Inr (), ds\<lparr>student_objs := detached rc rss (student_objs ds)\<rparr>)"
  using assms
proof (induction rss arbitrary: ds)
  case Nil
  then show ?case by simp
next
  case (Cons r rest)
  let ?s = "student_objs ds ! r"
  let ?ds1 = "ds\<lparr>student_objs :=
                  (student_objs ds)[r := ?s\<lparr>registered_courses := remove1 rc (registered_courses ?s)\<rparr>]\<rparr>"
  from Cons.prems have r: "r < length (student_objs ds)" "rc \<in> set (registered_courses ?s)"
    and nin: "r \<notin> set rest" and d: "distinct rest" by auto
  have "list_all (\<lambda>rs. rs < length (student_objs ?ds1) \<and>
                         rc \<in> set (registered_courses (student_objs ?ds1 ! rs))) rest"
    using Cons.prems nin by (auto simp: list_all_iff nth_list_update)
  from Cons.IH[OF d this] r nin show ?case
    by (simp add: Let_def detached_Cons)
qed

text \<open>
  What \<open>remove_course\<close> does where its two \<open>list.remove\<close> calls find the course: let the
  course stored under \<open>cid\<close> be listed exactly once by its instructor and exactly once by
  every student of its \<open>enrolled_students\<close>, which holds no student twice (invariants 1
  and 2 of the data model for this course). Then \<open>remove_course\<close> succeeds; the instructor
  and each of those students lose the course from their lists and nothing else changes
  but the course dictionary, which loses the key; so afterwards neither the instructor nor
  any of those students lists the course, nobody is deleted, and \<open>get_course\<close> fails with
  the not-found \<open>DataError\<close>.
\<close>

lemma remove_course_detaches:
  assumes c: "map_of (courses ds) cid = Some rc"
    and i: "instructor (course_objs ds ! rc) = PInstructor ri"
    and ri: "ri < length (instructor_objs ds)"
    and a: "rc \<in> set (assigned_courses (instructor_objs ds ! ri))"
    and da: "distinct (assigned_courses (instructor_objs ds ! ri))"
    and de: "distinct (enrolled_students (course_objs ds ! rc))"
    and e: "\<forall>rs \<in> set (enrolled_students (course_objs ds ! rc)).
              rs < length (student_objs ds) \<and>
              rc \<in> set (registered_courses (student_objs ds ! rs)) \<and>
              distinct (registered_courses (student_objs ds ! rs))"
  shows "\<exists>ds'. MemoryDataManager_remove_course cid ds = (Inr (), ds') \<and>
           instructor_objs ds' =
             (instructor_objs ds)
               [ri := (instructor_objs ds ! ri)
                  \<lparr>assigned_courses := remove1 rc (assigned_courses (instructor_objs ds ! ri))\<rparr>] \<and>
           student_objs ds' =
             detached rc (enrolled_students (course_objs ds ! rc)) (student_objs ds) \<and>
           course_objs ds' = course_objs ds \<and>
           courses ds' = AList.delete cid (courses ds) \<and>
           rc \<notin> set (assigned_courses (instructor_objs ds' ! ri)) \<and>
           (\<forall>rs \<in> set (enrolled_students (course_objs ds ! rc)).
              rc \<notin> set (registered_courses (student_objs ds' ! rs))) \<and>
           students ds' = students ds \<and> instructors ds' = instructors ds \<and>
           length (student_objs ds') = length (student_objs ds) \<and>
           length (instructor_objs ds') = length (instructor_objs ds) \<and>
           fst (MemoryDataManager_get_course cid ds') = Inl (not_found ''Course'' cid)"
proof -
  let ?c = "course_objs ds ! rc"
  let ?i = "instructor_objs ds ! ri"
  let ?ds1 = "ds\<lparr>instructor_objs :=
                  (instructor_objs ds)[ri := ?i\<lparr>assigned_courses := remove1 rc (assigned_courses ?i)\<rparr>]\<rparr>"
  let ?ds2 = "?ds1\<lparr>student_objs := detached rc (enrolled_students ?c) (student_objs ?ds1)\<rparr>"
  let ?ds' = "?ds2\<lparr>courses := AList.delete cid (courses ?ds2)\<rparr>"
  have la: "list_all (\<lambda>rs. rs < length (student_objs ?ds1) \<and>
                         rc \<in> set (registered_courses (student_objs ?ds1 ! rs))) (enrolled_students ?c)"
    using e by (simp add: list_all_iff)
  have run: "MemoryDataManager_remove_course cid ds = (Inr (), ?ds')"
    using c i a detach_students_ok[OF de la]
    by (simp add: MemoryDataManager_remove_course_def Let_def)
  have "rc \<notin> set (assigned_courses (instructor_objs ?ds' ! ri))"
    using ri da by simp
  moreover have "\<forall>rs \<in> set (enrolled_students ?c).
                   rc \<notin> set (registered_courses (student_objs ?ds' ! rs))"
    using e by (simp add: nth_detached)
  moreover have "fst (MemoryDataManager_get_course cid ?ds') = Inl (not_found ''Course'' cid)"
    by (simp add: MemoryDataManager_get_course_def delete_conv')
  ultimately show ?thesis using run by simp
qed

text \<open>
  The scenario graph meets the hypotheses for EECE230: the removal succeeds there, the
  first instructor and the student end with empty lists, and both are still present.
\<close>

lemma remove_course_detaches_scenario:
  "map_of (courses demo_graph) ''EECE230'' = Some 0 \<and>
   instructor (course_objs demo_graph ! 0) = PInstructor 0 \<and>
   enrolled_students (course_objs demo_graph ! 0) = [0] \<and>
   (\<exists>ds'. MemoryDataManager_remove_course ''EECE230'' demo_graph = (Inr (), ds') \<and>
      0 \<notin> set (assigned_courses (instructor_objs ds' ! 0)) \<and>
      0 \<notin> set (registered_courses (student_objs ds' ! 0)) \<and>
      students ds' = students demo_graph \<and> instructors ds' = instructors demo_graph \<and>
      fst (MemoryDataManager_get_course ''EECE230'' ds') = Inl (not_found ''Course'' ''EECE230''))"
proof -
  have c: "map_of (courses demo_graph) ''EECE230'' = Some 0" by code_simp
  have i: "instructor (course_objs demo_graph ! 0) = PInstructor 0" by code_simp
  have ri: "0 < length (instructor_objs demo_graph)" by code_simp
  have a: "0 \<in> set (assigned_courses (instructor_objs demo_graph ! 0))" by code_simp
  have da: "distinct (assigned_courses (instructor_objs demo_graph ! 0))" by code_simp
  have en: "enrolled_students (course_objs demo_graph ! 0) = [0]" by code_simp
  have de: "distinct (enrolled_students (course_objs demo_graph ! 0))" by (simp add: en)
  have s: "0 < length (student_objs demo_graph) \<and>
           0 \<in> set (registered_courses (student_objs demo_graph ! 0)) \<and>
           distinct (registered_courses (student_objs demo_graph ! 0))" by code_simp
  have e: "\<forall>rs \<in> set (enrolled_students (course_objs demo_graph ! 0)).
             rs < length (student_objs demo_graph) \<and>
             0 \<in> set (registered_courses (student_objs demo_graph ! rs)) \<and>
             distinct (registered_courses (student_objs demo_graph ! rs))"
    using s by (simp add: en)
  from remove_course_detaches[OF c i ri a da de e] c i en show ?thesis
    by auto
qed

text \<open>
  C5. The claim: for every course present in the graph, \<open>remove_course\<close> succeeds, detaches
  the course from its instructor and from its students, and \<open>get_course\<close> fails
  afterwards. The code takes the course out of the instructor's list with \<open>list.remove\<close>
  and catches nothing. On a graph that the manager itself produces, the scenario after
  \<open>edit_course\<close> has given EECE230 to the second instructor (whose list that edit leaves
  empty), the course is present and \<open>remove_course\<close> raises the \<open>ValueError\<close> of
  \<open>list.remove\<close>, not the \<open>DataError\<close> that its docstring announces; the datastore is
  unchanged and \<open>get_course\<close> still finds the course.
\<close>

theorem remove_course_after_reassign_raises:
  "map_of (courses reassigned_graph) ''EECE230'' = Some 0 \<and>
   MemoryDataManager_remove_course ''EECE230'' reassigned_graph
     = (Inl (ValueError ''list.remove(x): x not in list''), reassigned_graph) \<and>
   fst (MemoryDataManager_get_course ''EECE230'' reassigned_graph) = Inr 0"
  by code_simp

section \<open>Editing with a falsy value\<close>

















section \<open>Enrolling twice\<close>

lemma Course_add_student_students [simp]:
  "student_objs (Course_add_student rc rs h) = student_objs h"
  by (simp add: Course_add_student_def Let_def)

lemma Course_add_student_course_id [simp]:
  "course_id (course_objs (Course_add_student rc rs h) ! r) = course_id (course_objs h ! r)"
  by (cases "rc < length (course_objs h)")
     (auto simp: Course_add_student_def Let_def nth_list_update list_update_beyond)

lemma course_ids_Course_add_student [simp]:
  "course_ids (Course_add_student rc rs h) xs = course_ids h xs"
  by (simp add: course_ids_def)

lemma Course_add_student_idem:
  "Course_add_student rc rs (Course_add_student rc rs h) = Course_add_student rc rs h"
  by (cases "rc < length (course_objs h)")
     (auto simp: Course_add_student_def Let_def student_ids_def list_update_beyond)

lemma student_objs_same:
  "student_objs h' = xs \<Longrightarrow> h'\<lparr>student_objs := xs\<rparr> = h'"
  by auto

lemma Student_register_course_idem:
  "Student_register_course rs rc (Student_register_course rs rc h) = Student_register_course rs rc h"
proof (cases "course_id (course_objs h ! rc) \<in> set (course_ids h (registered_courses (student_objs h ! rs)))")
  case True
  then show ?thesis by (simp add: Student_register_course_def Let_def)
next
  case False
  show ?thesis
  proof (cases "rs < length (student_objs h)")
    case True
    with False show ?thesis
      by (simp add: Student_register_course_def Let_def course_ids_def)
  next
    case b: False
    let ?h1 = "Course_add_student rc rs h"
    from b False have 1: "Student_register_course rs rc h = ?h1"
      by (simp add: Student_register_course_def Let_def list_update_beyond)
    from b False have "Student_register_course rs rc ?h1 = Course_add_student rc rs ?h1"
      by (simp add: Student_register_course_def Let_def list_update_beyond student_objs_same)
    then show ?thesis using 1 by (simp add: Course_add_student_idem)
  qed
qed

lemma Student_register_course_dicts [simp]:
  "students (Student_register_course rs rc ds) = students ds"
  "courses (Student_register_course rs rc ds) = courses ds"
  "instructors (Student_register_course rs rc ds) = instructors ds"
  by (simp_all add: Student_register_course_def Course_add_student_def Let_def)

lemma memory_enroll_twice:
  "fst (MemoryDataManager_enroll_student sid cid ds) = Inr () \<Longrightarrow>
   MemoryDataManager_enroll_student sid cid (snd (MemoryDataManager_enroll_student sid cid ds))
     = (Inr (), snd (MemoryDataManager_enroll_student sid cid ds))"
  by (auto simp: MemoryDataManager_enroll_student_def Student_register_course_idem
           split: option.splits)

lemma dbm_enroll_student_Inr:
  assumes "dbm_enroll_student sid cid db = Inr db'"
  shows "db' = db\<lparr>enrollments_tab := enrollments_tab db @ [(sid, cid)]\<rparr>"
  using assms by (simp add: dbm_enroll_student_def split: if_splits)

lemma dbm_gets_enrollments [simp]:
  "dbm_get_student (db\<lparr>enrollments_tab := es\<rparr>) sid = dbm_get_student db sid"
  "dbm_get_course (db\<lparr>enrollments_tab := es\<rparr>) cid = dbm_get_course db cid"
  by (simp_all add: dbm_get_student_def dbm_get_course_def joined_def dbm_get_instructor_def)

lemma dbm_enroll_student_again:
  "dbm_enroll_student sid cid (db\<lparr>enrollments_tab := enrollments_tab db @ [(sid, cid)]\<rparr>)
     = Inl (unique_failed ''enrollments.student_id, enrollments.course_id'')"
  by (simp add: dbm_enroll_student_def)

lemma database_enroll_twice:
  assumes "fst (DatabaseDataManager_enroll_student sid cid st) = Inr ()"
  shows "DatabaseDataManager_enroll_student sid cid (snd (DatabaseDataManager_enroll_student sid cid st))
     = (Inl (DataError ''UNIQUE constraint failed: enrollments.student_id, enrollments.course_id''),
        snd (DatabaseDataManager_enroll_student sid cid st))"
proof -
  from assms have s: "dbm_get_student (dbm st) sid \<noteq> None"
    and c: "dbm_get_course (dbm st) cid \<noteq> None"
    by (auto simp: DatabaseDataManager_enroll_student_def split: if_splits)
  with assms obtain db' where e: "dbm_enroll_student sid cid (dbm st) = Inr db'"
    by (cases "dbm_enroll_student sid cid (dbm st)")
       (simp_all add: DatabaseDataManager_enroll_student_def on_store_def)
  have db': "db' = (dbm st)\<lparr>enrollments_tab := enrollments_tab (dbm st) @ [(sid, cid)]\<rparr>"
    by (rule dbm_enroll_student_Inr[OF e])
  have 1: "DatabaseDataManager_enroll_student sid cid st = (Inr (), st\<lparr>dbm := db'\<rparr>)"
    using s c e by (simp add: DatabaseDataManager_enroll_student_def on_store_def)
  have 2: "DatabaseDataManager_enroll_student sid cid (st\<lparr>dbm := db'\<rparr>)
             = (Inl (DataError ''UNIQUE constraint failed: enrollments.student_id, enrollments.course_id''),
                st\<lparr>dbm := db'\<rparr>)"
    using s c unfolding db'
    by (auto simp: DatabaseDataManager_enroll_student_def on_store_def dbm_enroll_student_again
          unique_failed_def)
  show ?thesis by (simp add: 1 2)
qed

text \<open>
  C3 as stated: enrolling an already-enrolled pair is a no-op and not an error on both
  managers. On the database manager the second call inserts the same row again, the
  primary key of the enrollments table rejects it, and the \<open>sqlite3.IntegrityError\<close>
  comes back wrapped in a \<open>DataError\<close> (the interface documents \<open>DataError\<close> when the
  "enrollment already exists"). The first enrollment of the scenario succeeds; the second
  raises.
\<close>

theorem database_enroll_again_raises:
  "fst (DatabaseDataManager_enroll_student ''202401111'' ''EECE230'' db_demo_before) = Inr () \<and>
   enrollments_tab (dbm db_demo) = [(''202401111'', ''EECE230'')] \<and>
   DatabaseDataManager_enroll_student ''202401111'' ''EECE230'' db_demo
     = (Inl (DataError ''UNIQUE constraint failed: enrollments.student_id, enrollments.course_id''),
        db_demo)"
  by code_simp

text \<open>
  C3, amended. In-memory manager: when the student and the course exist, \<open>enroll_student\<close>
  succeeds; a second call succeeds too and leaves the datastore exactly as the first call
  left it; and when the student already lists a course of that id, the call changes
  nothing. Database manager: after a successful \<open>enroll_student\<close>, a second call for the
  same pair raises the \<open>DataError\<close> that wraps the store's uniqueness failure, and leaves
  the manager (tables and cache) as the first call left it.
\<close>

theorem enroll_twice:
  "(map_of (students ds) sid = Some rs \<and> map_of (courses ds) cid = Some rc \<longrightarrow>
      fst (MemoryDataManager_enroll_student sid cid ds) = Inr () \<and>
      MemoryDataManager_enroll_student sid cid (snd (MemoryDataManager_enroll_student sid cid ds))
        = (Inr (), snd (MemoryDataManager_enroll_student sid cid ds)) \<and>
      (course_id (course_objs ds ! rc)
         \<in> set (course_ids ds (registered_courses (student_objs ds ! rs))) \<longrightarrow>
       MemoryDataManager_enroll_student sid cid ds = (Inr (), ds))) \<and>
   (fst (DatabaseDataManager_enroll_student sid cid st) = Inr () \<longrightarrow>
      DatabaseDataManager_enroll_student sid cid
          (snd (DatabaseDataManager_enroll_student sid cid st))
        = (Inl (DataError
                  ''UNIQUE constraint failed: enrollments.student_id, enrollments.course_id''),
           snd (DatabaseDataManager_enroll_student sid cid st)))"
proof -
  have m: "fst (MemoryDataManager_enroll_student sid cid ds) = Inr ()"
    if "map_of (students ds) sid = Some rs" "map_of (courses ds) cid = Some rc"
    using that by (simp add: MemoryDataManager_enroll_student_def)
  have n: "MemoryDataManager_enroll_student sid cid ds = (Inr (), ds)"
    if "map_of (students ds) sid = Some rs" "map_of (courses ds) cid = Some rc"
       "course_id (course_objs ds ! rc)
          \<in> set (course_ids ds (registered_courses (student_objs ds ! rs)))"
    using that by (simp add: MemoryDataManager_enroll_student_def Student_register_course_def)
  show ?thesis
    using m n memory_enroll_twice[of sid cid ds] database_enroll_twice[of sid cid st]
    by blast
qed

text \<open>
  In the scenario the student and the course exist and the student is not enrolled yet;
  the in-memory manager accepts both calls and the graph after the second is the graph
  after the first, while the database manager accepts the first call and then raises.
\<close>

theorem enroll_twice_witness:
  "map_of (students demo_before) ''202401111'' = Some 0 \<and>
   map_of (courses demo_before) ''EECE230'' = Some 0 \<and>
   registered_courses (student_objs demo_before ! 0) = [] \<and>
   snd (MemoryDataManager_enroll_student ''202401111'' ''EECE230'' demo_before) = demo_graph \<and>
   registered_courses (student_objs demo_graph ! 0) = [0] \<and>
   enrolled_students (course_objs demo_graph ! 0) = [0] \<and>
   MemoryDataManager_enroll_student ''202401111'' ''EECE230'' demo_graph = (Inr (), demo_graph) \<and>
   fst (DatabaseDataManager_enroll_student ''202401111'' ''EECE230'' db_demo_before) = Inr () \<and>
   DatabaseDataManager_enroll_student ''202401111'' ''EECE230'' db_demo
     = (Inl (DataError ''UNIQUE constraint failed: enrollments.student_id, enrollments.course_id''),
        db_demo)"
proof -
  have s: "map_of (students demo_before) ''202401111'' = Some 0" by code_simp
  have c: "map_of (courses demo_before) ''EECE230'' = Some 0" by code_simp
  have r: "registered_courses (student_objs demo_before ! 0) = []" by code_simp
  have g: "registered_courses (student_objs demo_graph ! 0) = [0]"
          "enrolled_students (course_objs demo_graph ! 0) = [0]" by code_simp+
  have d: "fst (DatabaseDataManager_enroll_student ''202401111'' ''EECE230'' db_demo_before) = Inr ()"
    by code_simp
  from enroll_twice[of demo_before "''202401111''" 0 "''EECE230''" 0 db_demo_before] s c r g d
  show ?thesis by (simp add: demo_graph_def db_demo_def)
qed

section \<open>Writes and the cache\<close>

lemma Course_init_cache [simp]: "cache (snd (Course_init a b c st)) = cache st"
  by (simp add: Course_init_def Instructor_assign_course_def Let_def split: pyval.splits)

lemma Course_init_dbm [simp]: "dbm (snd (Course_init a b c st)) = dbm st"
  by (simp add: Course_init_def Instructor_assign_course_def Let_def split: pyval.splits)

lemma on_store_cache [simp]: "cache (snd (on_store r st)) = cache st"
  by (simp add: on_store_def split: sum.splits)

lemma Course_init_cache_eq: "Course_init a b c st = (r, st') \<Longrightarrow> cache st' = cache st"
  using Course_init_cache[of a b c st] by simp

lemma Course_new_cache: "Course_new kwargs st = (r, st') \<Longrightarrow> cache st' = cache st"
  by (auto simp: Course_new_def split: if_splits dest: Course_init_cache_eq)

lemma add_course_keeps_cache:
  "cache (snd (DatabaseDataManager_add_course kwargs st)) = cache st"
proof -
  obtain r st1 where c: "Course_new kwargs st = (r, st1)" by (cases "Course_new kwargs st")
  have "cache st1 = cache st" by (rule Course_new_cache[OF c])
  then show ?thesis using c
    by (cases r) (simp_all add: DatabaseDataManager_add_course_def Let_def split: pyval.splits)
qed

lemma mutating_calls_keep_cache:
  "cache (snd (DatabaseDataManager_add_student kwargs st)) = cache st"
  "cache (snd (DatabaseDataManager_add_instructor kwargs st)) = cache st"
  "cache (snd (DatabaseDataManager_remove_student sid st)) = cache st"
  "cache (snd (DatabaseDataManager_remove_instructor iid st)) = cache st"
  "cache (snd (DatabaseDataManager_remove_course cid st)) = cache st"
  "cache (snd (DatabaseDataManager_enroll_student sid cid st)) = cache st"
  by (simp_all add: DatabaseDataManager_add_student_def DatabaseDataManager_add_instructor_def
        DatabaseDataManager_remove_student_def
        DatabaseDataManager_remove_instructor_def DatabaseDataManager_remove_course_def
        DatabaseDataManager_enroll_student_def
        split: sum.splits)

lemma on_store_cache_eq: "on_store x st = (r, st') \<Longrightarrow> cache st' = cache st"
  using on_store_cache[of x st] by simp

lemma edit_calls_keep_cache:
  "(DatabaseDataManager_edit_student kwargs st = Some (r, st') \<longrightarrow> cache st' = cache st) \<and>
   (DatabaseDataManager_edit_instructor kwargs st = Some (r, st') \<longrightarrow> cache st' = cache st)"
  by (auto simp: DatabaseDataManager_edit_student_def DatabaseDataManager_edit_instructor_def
        Let_def dest: on_store_cache_eq split: if_splits sum.splits bool.splits option.splits)

text \<open>
  C9. The claim: every mutating call of the database manager checks the id through the
  store, issues the row-level mutation and then invalidates the hydration cache. The
  check and the mutation are as claimed, but no mutating call touches the cache (only the
  reads clear it, before they hydrate). After a read has filled the cache from the empty
  tables, \<open>add_student\<close> succeeds and inserts the row, the cache is still the graph without
  students, and \<open>_get_hydrated_data\<close> returns that stale graph.
\<close>

theorem add_student_leaves_stale_cache:
  "cache warm_database
     = Some \<lparr>all_students = [], all_instructors = [], all_courses = [],
             students_map = [], instructors_map = [], courses_map = []\<rparr> \<and>
   fst (DatabaseDataManager_add_student kw_john warm_database) = Inr () \<and>
   students_tab (dbm (snd (DatabaseDataManager_add_student kw_john warm_database)))
     = [(''John Doe'', 20, ''john.doe@lau.edu'', ''202401111'')] \<and>
   cache (snd (DatabaseDataManager_add_student kw_john warm_database)) = cache warm_database \<and>
   fst (get_hydrated_data (snd (DatabaseDataManager_add_student kw_john warm_database)))
     = Inr \<lparr>all_students = [], all_instructors = [], all_courses = [],
            students_map = [], instructors_map = [], courses_map = []\<rparr>"
  by code_simp

section \<open>Import from unreadable or malformed input\<close>

lemma clear_all_idem [simp]: "clear_all (clear_all fm) = clear_all fm"
  by (simp add: clear_all_def)

lemma clear_all_dicts [simp]:
  "students (clear_all fm) = []" "instructors (clear_all fm) = []" "courses (clear_all fm) = []"
  by (simp_all add: clear_all_def)

text \<open>
  What \<open>data_from_json\<close> of the in-memory manager does before it has a document: a missing
  file and a text that is not JSON end the call normally, a path that cannot be opened
  and a file that is not UTF-8 raise; the dictionaries are empty in all four cases.
\<close>

lemma json_import_unreadable:
  "MemoryDataManager_data_from_json FileNotFound ds = (Inr (), clear_all ds) \<and>
   MemoryDataManager_data_from_json InvalidJSON ds = (Inr (), clear_all ds) \<and>
   MemoryDataManager_data_from_json (Unreadable m) ds = (Inl (OSError m), clear_all ds) \<and>
   MemoryDataManager_data_from_json (Undecodable m) ds = (Inl (UnicodeDecodeError m), clear_all ds)"
  by (simp add: MemoryDataManager_data_from_json_def load_from_json_def)

text \<open>
  A document whose student entry carries the age 200, after a well-formed instructor
  entry; and the datastore that holds that instructor alone.
\<close>

definition bad_document :: pyval where
  "bad_document =
     PDict [(''students'',
             PList [PDict [(''name'', PStr ''John Doe''), (''age'', PInt 200),
                           (''email'', PStr ''john.doe@lau.edu''),
                           (''student_id'', PStr ''202401111''),
                           (''registered_courses'', PList [])]]),
            (''instructors'',
             PList [PDict [(''name'', PStr ''Emily Smith''), (''age'', PInt 45),
                           (''email'', PStr ''e.smith@university.edu''),
                           (''instructor_id'', PStr ''199801234''),
                           (''assigned_courses'', PList [])]]),
            (''courses'', PList [])]"

definition smith_only :: FileManager where
  "smith_only =
     \<lparr>student_objs = [],
      instructor_objs =
        [\<lparr>name = ''Emily Smith'', age = 45, email = ''e.smith@university.edu'',
          instructor_id = ''199801234'', assigned_courses = []\<rparr>],
      course_objs = [], students = [], instructors = [(''199801234'', 0)], courses = []\<rparr>"

text \<open>
  C7. The claim: a JSON import of a missing file, of invalid JSON or of a document with
  missing keys or invalid field values reports a failure to the caller and leaves the
  graph empty. The code misses it twice. For the missing file and for invalid JSON,
  \<open>load_from_json\<close> catches the exception, logs it and returns: \<open>data_from_json\<close> ends
  normally and no failure reaches the caller, here on the scenario graph (the interface
  documents \<open>IOError\<close> and \<open>DataError\<close> for these inputs, and the database manager has an
  \<open>except\<close> clause waiting for the two exceptions). For the document above the
  \<open>ValueError\<close> of the student's constructor does reach the caller, but nothing clears
  the dictionaries, and the instructor loaded before it stays in the datastore.
\<close>

theorem json_import_failures:
  "MemoryDataManager_data_from_json FileNotFound demo_graph = (Inr (), clear_all demo_graph) \<and>
   MemoryDataManager_data_from_json InvalidJSON demo_graph = (Inr (), clear_all demo_graph) \<and>
   MemoryDataManager_data_from_json (Document bad_document) empty_datastore
     = (Inl (ValueError ''Invalid Age.''), smith_only) \<and>
   instructors smith_only = [(''199801234'', 0)]"
  by code_simp

text \<open>
  An \<open>instructors.csv\<close> with one well-formed row; a directory that holds this file alone;
  and a directory whose \<open>instructors.csv\<close> has a second row with the age \<open>abc\<close>.
\<close>

definition instructors_file :: "string list list" where
  "instructors_file =
     [[''name'', ''age'', ''email'', ''instructor_id''],
      [''Emily Smith'', ''45'', ''e.smith@university.edu'', ''199801234'']]"

definition good_dir :: csv_dir where
  "good_dir = \<lparr>instructors_csv = File instructors_file,
               students_csv = NoFile, courses_csv = NoFile, enrollments_csv = NoFile\<rparr>"

definition bad_dir :: csv_dir where
  "bad_dir =
     \<lparr>instructors_csv =
        File (instructors_file @ [[''Alan Jones'', ''abc'', ''a.jones@university.edu'', ''199505678'']]),
      students_csv = NoFile, courses_csv = NoFile, enrollments_csv = NoFile\<rparr>"

text \<open>
  What the handler of \<open>load_from_csv\<close> achieves: whenever a file is missing and the call
  ends normally, the three dictionaries are empty. In the scenario, with only
  \<open>instructors.csv\<close> present, its row is loaded (a third instructor object, under the key
  199801234), then \<open>students.csv\<close> is found missing and the datastore ends empty.
\<close>

lemma read_csv_NoFile [simp]: "read_csv NoFile body fm = (Some FileNotFoundError, fm)"
  by (simp add: read_csv_def)

lemma csv_import_missing_file:
  assumes m: "instructors_csv dir = NoFile \<or> students_csv dir = NoFile \<or>
              courses_csv dir = NoFile \<or> enrollments_csv dir = NoFile"
    and ok: "fst (MemoryDataManager_data_from_csv dir ds) = Inr ()"
  shows "students (snd (MemoryDataManager_data_from_csv dir ds)) = [] \<and>
         instructors (snd (MemoryDataManager_data_from_csv dir ds)) = [] \<and>
         courses (snd (MemoryDataManager_data_from_csv dir ds)) = []"
proof -
  obtain e1 fm1 where r1: "read_csv (instructors_csv dir) csv_instructor (clear_all ds) = (e1, fm1)"
    by (cases "read_csv (instructors_csv dir) csv_instructor (clear_all ds)")
  obtain e2 fm2 where r2: "read_csv (students_csv dir) csv_student fm1 = (e2, fm2)"
    by (cases "read_csv (students_csv dir) csv_student fm1")
  obtain e3 fm3 where r3: "read_csv (courses_csv dir) csv_course fm2 = (e3, fm3)"
    by (cases "read_csv (courses_csv dir) csv_course fm2")
  obtain e4 fm4 where r4: "read_csv (enrollments_csv dir) csv_enrollment fm3 = (e4, fm4)"
    by (cases "read_csv (enrollments_csv dir) csv_enrollment fm3")
  show ?thesis
  proof (cases e1)
    case (Some x1)
    with ok r1 have "x1 = FileNotFoundError"
      by (simp add: MemoryDataManager_data_from_csv_def load_from_csv_def Let_def split: if_splits)
    with Some r1 show ?thesis
      by (simp add: MemoryDataManager_data_from_csv_def load_from_csv_def Let_def)
  next
    case n1: None
    with r1 m have m2: "students_csv dir = NoFile \<or> courses_csv dir = NoFile \<or>
                        enrollments_csv dir = NoFile" by auto
    show ?thesis
    proof (cases e2)
      case (Some x2)
      with ok r1 r2 n1 have "x2 = FileNotFoundError"
        by (simp add: MemoryDataManager_data_from_csv_def load_from_csv_def Let_def split: if_splits)
      with Some r1 r2 n1 show ?thesis
        by (simp add: MemoryDataManager_data_from_csv_def load_from_csv_def Let_def)
    next
      case n2: None
      with r2 m2 have m3: "courses_csv dir = NoFile \<or> enrollments_csv dir = NoFile" by auto
      show ?thesis
      proof (cases e3)
        case (Some x3)
        with ok r1 r2 r3 n1 n2 have "x3 = FileNotFoundError"
          by (simp add: MemoryDataManager_data_from_csv_def load_from_csv_def Let_def split: if_splits)
        with Some r1 r2 r3 n1 n2 show ?thesis
          by (simp add: MemoryDataManager_data_from_csv_def load_from_csv_def Let_def)
      next
        case n3: None
        with r3 m3 have m4: "enrollments_csv dir = NoFile" by auto
        with r4 have "e4 = Some FileNotFoundError" by simp
        with r1 r2 r3 r4 n1 n2 n3 show ?thesis
          by (simp add: MemoryDataManager_data_from_csv_def load_from_csv_def Let_def)
      qed
    qed
  qed
qed

lemma csv_import_missing_file_scenario:
  "read_csv (instructors_csv good_dir) csv_instructor (clear_all demo_graph)
     = (None, demo_graph\<lparr>instructor_objs := instructor_objs demo_graph @ instructor_objs smith_only,
                         students := [], instructors := [(''199801234'', 2)], courses := []\<rparr>) \<and>
   MemoryDataManager_data_from_csv good_dir demo_graph
     = (Inr (), demo_graph\<lparr>instructor_objs := instructor_objs demo_graph @ instructor_objs smith_only,
                           students := [], instructors := [], courses := []\<rparr>)"
  by code_simp

text \<open>
  C8. The claim: whenever one of the four files is missing, the import aborts and leaves
  the graph empty, with nothing of the files that were present. \<open>load_from_csv\<close> reads the
  files in turn inside one \<open>try\<close> whose handler, the one that clears the dictionaries,
  catches \<open>FileNotFoundError\<close> alone. With \<open>students.csv\<close> missing and a malformed second
  row in \<open>instructors.csv\<close>, \<open>int('abc')\<close> raises before the missing file is reached: the
  \<open>ValueError\<close> leaves the method as it is (the interface documents \<open>DataError\<close> for an
  invalid format), and the instructor of the first row stays in the datastore.
\<close>

theorem csv_import_bad_row_before_missing_file:
  "students_csv bad_dir = NoFile \<and>
   MemoryDataManager_data_from_csv bad_dir empty_datastore
     = (Inl (ValueError (''invalid literal for int() with base 10: '' @ quoted ''abc'')),
        smith_only) \<and>
   instructors smith_only = [(''199801234'', 0)]"
  by code_simp

section \<open>Export followed by import\<close>

subsection \<open>The loops of the loader as folds\<close>

lemma for_each_fold:
  assumes "\<And>x t. x \<in> set xs \<Longrightarrow> body (f x) t = (None, step x t)"
  shows "for_each body (map f xs) t = (None, foldl (\<lambda>t x. step x t) t xs)"
  using assms by (induction xs arbitrary: t) simp_all

lemma collect_total:
  assumes "\<And>x. x \<in> set xs \<Longrightarrow> f x = Inr (g x)"
  shows "collect f xs = Inr (map g xs)"
  using assms by (induction xs) simp_all

lemma Instructor_reset:
  "\<lparr>name = name i, age = age i, email = email i, instructor_id = instructor_id i,
    assigned_courses = []\<rparr> = (i :: Instructor)\<lparr>assigned_courses := []\<rparr>"
  by (cases i) simp

lemma Student_reset:
  "\<lparr>name = name s, age = age s, email = email s, student_id = student_id s,
    registered_courses = []\<rparr> = (s :: Student)\<lparr>registered_courses := []\<rparr>"
  by (cases s) simp

lemma Person_init_valid:
  "valid_person p \<Longrightarrow>
   Person_init (PStr (name p)) (PInt (age p)) (PStr (email p))
     = Inr \<lparr>name = name p, age = age p, email = email p\<rparr>"
  by (simp add: Person_init_def valid_person_def check_email_def Let_def)

lemma Instructor_init_valid:
  "valid_instructor i \<Longrightarrow>
   Instructor_init (PStr (name i)) (PInt (age i)) (PStr (email i)) (PStr (instructor_id i))
     = Inr (i\<lparr>assigned_courses := []\<rparr>)"
  by (simp add: Instructor_init_def valid_instructor_def Person_init_valid Instructor_reset)

lemma Student_init_valid:
  "valid_student s \<Longrightarrow>
   Student_init (PStr (name s)) (PInt (age s)) (PStr (email s)) (PStr (student_id s))
     = Inr (s\<lparr>registered_courses := []\<rparr>)"
  by (simp add: Student_init_def valid_student_def Person_init_valid Student_reset)

lemma json_instructor_step:
  "valid_instructor i \<Longrightarrow> json_instructor (Instructor_to_dict h i) t = (None, instr_step i t)"
  by (simp add: json_instructor_def Instructor_to_dict_def Person_to_dict_def
        Instructor_init_valid instr_step_def)

lemma json_student_step:
  "valid_student s \<Longrightarrow> json_student (Student_to_dict h s) t = (None, student_step s t)"
  by (simp add: json_student_def Student_to_dict_def Person_to_dict_def
        Student_init_valid student_step_def)

subsection \<open>Courses and enrollments as steps\<close>

lemma Course_to_dict_ok:
  "instructor c = PInstructor ri \<Longrightarrow>
   Course_to_dict h c =
     Inr (PDict [(''course_id'', PStr (course_id c)), (''course_name'', PStr (course_name c)),
                 (''instructor_id'', PStr (instructor_id_of h c)),
                 (''enrolled_students'', PList (map PStr (student_ids h (enrolled_students c))))])"
  by (simp add: Course_to_dict_def instructor_id_of_def)

lemma new_course_valid:
  "valid_course c \<Longrightarrow> fst (new_course (PStr (course_id c)) (PStr (course_name c)) ri t) = None"
  by (simp add: new_course_def Course_init_def valid_course_def Let_def)

lemma new_course_pair:
  "valid_course c \<Longrightarrow>
   new_course (PStr (course_id c)) (PStr (course_name c)) ri t
     = (None, snd (new_course (PStr (course_id c)) (PStr (course_name c)) ri t))"
  using new_course_valid[of c ri t] by (simp add: prod_eq_iff)

lemma json_course_step:
  assumes "valid_course c"
  shows "json_course
           (PDict [(''course_id'', PStr (course_id c)), (''course_name'', PStr (course_name c)),
                   (''instructor_id'', PStr iid), (''enrolled_students'', es)]) t
         = (None, course_step (course_id c, course_name c, iid) t)"
  using new_course_pair[OF assms]
  by (simp add: json_course_def course_step_def dict_find_def split: option.splits)

subsection \<open>Dictionaries under the steps\<close>

lemma Instructor_assign_course_dicts [simp]:
  "students (Instructor_assign_course ri rc t) = students t"
  "instructors (Instructor_assign_course ri rc t) = instructors t"
  "courses (Instructor_assign_course ri rc t) = courses t"
  "student_objs (Instructor_assign_course ri rc t) = student_objs t"
  "course_objs (Instructor_assign_course ri rc t) = course_objs t"
  by (simp_all add: Instructor_assign_course_def Let_def)

lemma new_course_students [simp]:
  "students (snd (new_course a b ri t)) = students t"
  "instructors (snd (new_course a b ri t)) = instructors t"
  "student_objs (snd (new_course a b ri t)) = student_objs t"
  by (simp_all add: new_course_def Course_init_def Let_def split: pyval.splits)

lemma course_step_dicts [simp]:
  "students (course_step c t) = students t"
  "instructors (course_step c t) = instructors t"
  "student_objs (course_step c t) = student_objs t"
  by (simp_all add: course_step_def split: prod.splits option.splits)

lemma reg_step_dicts [simp]:
  "students (reg_step p t) = students t"
  "courses (reg_step p t) = courses t"
  "instructors (reg_step p t) = instructors t"
  by (simp_all add: reg_step_def split: option.splits)

lemma fold_reg_step_dicts [simp]:
  "students (foldl (\<lambda>t p. reg_step p t) t ps) = students t"
  "courses (foldl (\<lambda>t p. reg_step p t) t ps) = courses t"
  "instructors (foldl (\<lambda>t p. reg_step p t) t ps) = instructors t"
  by (induction ps arbitrary: t) simp_all

lemma fold_course_step_dicts [simp]:
  "students (foldl (\<lambda>t c. course_step c t) t cs) = students t"
  "instructors (foldl (\<lambda>t c. course_step c t) t cs) = instructors t"
  "student_objs (foldl (\<lambda>t c. course_step c t) t cs) = student_objs t"
  by (induction cs arbitrary: t) simp_all

subsection \<open>Linking\<close>

lemma link_course_fold:
  assumes "map_of (students t) sid = Some rs"
  shows "for_each (link_course rs) (map PStr cids) t
         = (None, foldl (\<lambda>t p. reg_step p t) t (map (Pair sid) cids))"
  using assms
proof (induction cids arbitrary: t)
  case Nil
  then show ?case by simp
next
  case (Cons cid cids)
  have 1: "link_course rs (PStr cid) t = (None, reg_step (sid, cid) t)"
    using Cons.prems
    by (simp add: link_course_def reg_step_def dict_find_def split: option.splits)
  have "map_of (students (reg_step (sid, cid) t)) sid = Some rs"
    using Cons.prems by simp
  from Cons.IH[OF this] 1 show ?case by simp
qed

lemma json_link_fold:
  assumes "map_of (students t) (student_id s) = Some rs"
  shows "json_link (Student_to_dict h s) t
         = (None, foldl (\<lambda>t p. reg_step p t) t (student_pairs h s))"
  using assms link_course_fold[OF assms, of "course_ids h (registered_courses s)"]
  by (simp add: json_link_def Student_to_dict_def Person_to_dict_def dict_find_def
        student_pairs_def)

lemma json_link_all:
  assumes "\<And>s. s \<in> set ss \<Longrightarrow> map_of (students t) (student_id s) \<noteq> None"
  shows "for_each json_link (map (Student_to_dict h) ss) t
         = (None, foldl (\<lambda>t p. reg_step p t) t (concat (map (student_pairs h) ss)))"
  using assms
proof (induction ss arbitrary: t)
  case Nil
  then show ?case by simp
next
  case (Cons s ss)
  from Cons.prems[of s] obtain rs where rs: "map_of (students t) (student_id s) = Some rs"
    by auto
  let ?t1 = "foldl (\<lambda>t p. reg_step p t) t (student_pairs h s)"
  have "\<And>x. x \<in> set ss \<Longrightarrow> map_of (students ?t1) (student_id x) \<noteq> None"
    using Cons.prems by simp
  from Cons.IH[OF this] json_link_fold[OF rs, of h] show ?case by simp
qed

subsection \<open>The loader on a well-formed export\<close>

lemma well_formed_student:
  "well_formed fm \<Longrightarrow> (k, r) \<in> set (students fm) \<Longrightarrow> student_ok fm k r"
  unfolding well_formed_def by fast

lemma well_formed_instructor:
  "well_formed fm \<Longrightarrow> (k, r) \<in> set (instructors fm) \<Longrightarrow> instructor_ok fm k r"
  unfolding well_formed_def by fast

lemma well_formed_course:
  "well_formed fm \<Longrightarrow> (k, r) \<in> set (courses fm) \<Longrightarrow> course_ok fm k r"
  unfolding well_formed_def by fast

lemma well_formed_students:
  assumes "well_formed fm" "s \<in> set (student_list fm)"
  shows "valid_student s"
proof -
  from assms(2) obtain k r where "(k, r) \<in> set (students fm)" "s = student_objs fm ! r"
    by (auto simp: student_list_def)
  with well_formed_student[OF assms(1)] show ?thesis by (simp add: student_ok_def)
qed

lemma well_formed_instructors:
  assumes "well_formed fm" "i \<in> set (instructor_list fm)"
  shows "valid_instructor i"
proof -
  from assms(2) obtain k r where "(k, r) \<in> set (instructors fm)" "i = instructor_objs fm ! r"
    by (auto simp: instructor_list_def)
  with well_formed_instructor[OF assms(1)] show ?thesis by (simp add: instructor_ok_def)
qed

lemma well_formed_courses:
  assumes "well_formed fm" "c \<in> set (course_list fm)"
  shows "valid_course c" "\<exists>ri. instructor c = PInstructor ri"
proof -
  from assms(2) obtain k r where kr: "(k, r) \<in> set (courses fm)" "c = course_objs fm ! r"
    by (auto simp: course_list_def)
  from well_formed_course[OF assms(1) kr(1)] kr(2) show "valid_course c"
    by (simp add: course_ok_def)
  from well_formed_course[OF assms(1) kr(1)] kr(2) show "\<exists>ri. instructor c = PInstructor ri"
    by (cases "instructor c") (simp_all add: course_ok_def)
qed

lemma json_document_well_formed:
  assumes "well_formed fm"
  shows "json_document fm = Inr (export_document fm)"
proof -
  have "collect (\<lambda>r. Course_to_dict fm (course_objs fm ! r)) (map snd (courses fm))
          = Inr (map (\<lambda>r. course_doc fm (course_objs fm ! r)) (map snd (courses fm)))"
  proof (rule collect_total)
    fix r assume "r \<in> set (map snd (courses fm))"
    then have "course_objs fm ! r \<in> set (course_list fm)" by (auto simp: course_list_def)
    from well_formed_courses(2)[OF assms this]
    show "Course_to_dict fm (course_objs fm ! r) = Inr (course_doc fm (course_objs fm ! r))"
      by (auto simp: Course_to_dict_ok course_doc_def)
  qed
  then show ?thesis
    by (simp add: json_document_def export_document_def student_list_def instructor_list_def
          course_list_def)
qed

lemma students_student_step:
  "map_of (students (student_step s t)) = (map_of (students t))(student_id s \<mapsto> length (student_objs t))"
  by (simp add: student_step_def update_conv')

lemma students_fold_student_step:
  "s \<in> set ss \<Longrightarrow>
   map_of (students (foldl (\<lambda>t s. student_step s t) t ss)) (student_id s) \<noteq> None"
proof (induction ss arbitrary: t rule: rev_induct)
  case Nil
  then show ?case by simp
next
  case (snoc x xs)
  then show ?case by (auto simp: students_student_step)
qed

lemma fold_steps_map:
  "foldl (\<lambda>t c. course_step (course_item h c) t) t cs
     = foldl (\<lambda>t c. course_step c t) t (map (course_item h) cs)"
  by (induction cs arbitrary: t) simp_all

lemma json_course_doc_step:
  "valid_course c \<Longrightarrow> json_course (course_doc h c) t = (None, course_step (course_item h c) t)"
  by (simp add: course_doc_def course_item_def json_course_step)

lemma load_from_json_rebuild:
  assumes wf: "well_formed fm"
  shows "load_from_json (Document (export_document fm)) t = (Inr (), rebuild fm t)"
proof -
  let ?t1 = "foldl (\<lambda>t i. instr_step i t) (clear_all t) (instructor_list fm)"
  let ?t2 = "foldl (\<lambda>t s. student_step s t) ?t1 (student_list fm)"
  let ?t3 = "foldl (\<lambda>t c. course_step c t) ?t2 (map (course_item fm) (course_list fm))"
  have "for_each json_instructor (map (Instructor_to_dict fm) (instructor_list fm)) (clear_all t)
          = (None, ?t1)"
    by (rule for_each_fold) (simp add: json_instructor_step well_formed_instructors[OF wf])
  then have 1: "for_key (export_document fm) ''instructors'' json_instructor (clear_all t)
                  = (None, ?t1)"
    by (simp add: for_key_def export_document_def)
  have "for_each json_student (map (Student_to_dict fm) (student_list fm)) ?t1 = (None, ?t2)"
    by (rule for_each_fold) (simp add: json_student_step well_formed_students[OF wf])
  then have 2: "for_key (export_document fm) ''students'' json_student ?t1 = (None, ?t2)"
    by (simp add: for_key_def export_document_def)
  have "for_each json_course (map (course_doc fm) (course_list fm)) ?t2
          = (None, foldl (\<lambda>t c. course_step (course_item fm c) t) ?t2 (course_list fm))"
    by (rule for_each_fold) (simp add: json_course_doc_step well_formed_courses(1)[OF wf])
  then have 3: "for_key (export_document fm) ''courses'' json_course ?t2 = (None, ?t3)"
    by (simp add: for_key_def export_document_def fold_steps_map)
  have "\<And>s. s \<in> set (student_list fm) \<Longrightarrow> map_of (students ?t3) (student_id s) \<noteq> None"
    by (simp add: students_fold_student_step)
  from json_link_all[OF this, of "student_list fm" fm]
  have 4: "for_key (export_document fm) ''students'' json_link ?t3 = (None, rebuild fm t)"
    by (simp add: for_key_def export_document_def rebuild_def)
  show ?thesis
    by (simp add: load_from_json_def 1 2 3 4)
qed

subsection \<open>The fresh entities\<close>

lemma update_fresh: "k \<notin> fst ` set al \<Longrightarrow> AList.update k v al = al @ [(k, v)]"
  by (induction al) auto

lemma upt_Suc_add: "[n..<n + Suc m] = [n..<n + m] @ [n + m]"
  by simp

lemma fold_instr_step:
  assumes "distinct (map instructor_id xs)"
    and "\<And>i. i \<in> set xs \<Longrightarrow> instructor_id i \<notin> fst ` set (instructors t)"
  shows "foldl (\<lambda>t i. instr_step i t) t xs
         = t\<lparr>instructor_objs := instructor_objs t @ map (\<lambda>i. i\<lparr>assigned_courses := []\<rparr>) xs,
             instructors := instructors t @
               zip (map instructor_id xs)
                 [length (instructor_objs t)..<length (instructor_objs t) + length xs]\<rparr>"
  using assms
proof (induction xs rule: rev_induct)
  case Nil
  then show ?case by simp
next
  case (snoc x xs)
  let ?n = "length (instructor_objs t)"
  let ?al = "instructors t @ zip (map instructor_id xs) [?n..<?n + length xs]"
  from snoc.prems have d: "distinct (map instructor_id xs)" and nx: "instructor_id x \<notin> instructor_id ` set xs"
    and fr: "\<And>i. i \<in> set xs \<Longrightarrow> instructor_id i \<notin> fst ` set (instructors t)"
    and fx: "instructor_id x \<notin> fst ` set (instructors t)" by auto
  have "fst ` set (zip (map instructor_id xs) [?n..<?n + length xs]) = instructor_id ` set xs"
    by (simp add: map_fst_zip flip: set_map)
  with nx fx have "instructor_id x \<notin> fst ` set ?al" by auto
  then have u: "AList.update (instructor_id x) (?n + length xs) ?al
                  = ?al @ [(instructor_id x, ?n + length xs)]"
    by (rule update_fresh)
  show ?case
    using snoc.IH[OF d fr] u
    by (simp add: instr_step_def)
qed

lemma fold_student_step:
  assumes "distinct (map student_id xs)"
    and "\<And>s. s \<in> set xs \<Longrightarrow> student_id s \<notin> fst ` set (students t)"
  shows "foldl (\<lambda>t s. student_step s t) t xs
         = t\<lparr>student_objs := student_objs t @ map (\<lambda>s. s\<lparr>registered_courses := []\<rparr>) xs,
             students := students t @
               zip (map student_id xs)
                 [length (student_objs t)..<length (student_objs t) + length xs]\<rparr>"
  using assms
proof (induction xs rule: rev_induct)
  case Nil
  then show ?case by simp
next
  case (snoc x xs)
  let ?n = "length (student_objs t)"
  let ?al = "students t @ zip (map student_id xs) [?n..<?n + length xs]"
  from snoc.prems have d: "distinct (map student_id xs)" and nx: "student_id x \<notin> student_id ` set xs"
    and fr: "\<And>s. s \<in> set xs \<Longrightarrow> student_id s \<notin> fst ` set (students t)"
    and fx: "student_id x \<notin> fst ` set (students t)" by auto
  have "fst ` set (zip (map student_id xs) [?n..<?n + length xs]) = student_id ` set xs"
    by (simp add: map_fst_zip flip: set_map)
  with nx fx have "student_id x \<notin> fst ` set ?al" by auto
  then have u: "AList.update (student_id x) (?n + length xs) ?al
                  = ?al @ [(student_id x, ?n + length xs)]"
    by (rule update_fresh)
  show ?case
    using snoc.IH[OF d fr] u
    by (simp add: student_step_def)
qed

text \<open>In a well-formed graph the keys of a dictionary are the ids of its objects.\<close>

lemma map_cong_set: "(\<And>x. x \<in> set xs \<Longrightarrow> f x = g x) \<Longrightarrow> map f xs = map g xs"
  by simp

lemma student_list_ids:
  assumes "well_formed fm"
  shows "map student_id (student_list fm) = map fst (students fm)"
proof -
  have "map (\<lambda>p. student_id (student_objs fm ! snd p)) (students fm) = map fst (students fm)"
  proof (rule map_cong_set)
    fix p assume "p \<in> set (students fm)"
    then have "(fst p, snd p) \<in> set (students fm)" by simp
    from well_formed_student[OF assms this] show "student_id (student_objs fm ! snd p) = fst p"
      by (simp add: student_ok_def)
  qed
  then show ?thesis by (simp add: student_list_def comp_def)
qed

lemma instructor_list_ids:
  assumes "well_formed fm"
  shows "map instructor_id (instructor_list fm) = map fst (instructors fm)"
proof -
  have "map (\<lambda>p. instructor_id (instructor_objs fm ! snd p)) (instructors fm)
          = map fst (instructors fm)"
  proof (rule map_cong_set)
    fix p assume "p \<in> set (instructors fm)"
    then have "(fst p, snd p) \<in> set (instructors fm)" by simp
    from well_formed_instructor[OF assms this]
    show "instructor_id (instructor_objs fm ! snd p) = fst p"
      by (simp add: instructor_ok_def)
  qed
  then show ?thesis by (simp add: instructor_list_def comp_def)
qed

lemma course_list_ids:
  assumes "well_formed fm"
  shows "map course_id (course_list fm) = map fst (courses fm)"
proof -
  have "map (\<lambda>p. course_id (course_objs fm ! snd p)) (courses fm) = map fst (courses fm)"
  proof (rule map_cong_set)
    fix p assume "p \<in> set (courses fm)"
    then have "(fst p, snd p) \<in> set (courses fm)" by simp
    from well_formed_course[OF assms this] show "course_id (course_objs fm ! snd p) = fst p"
      by (simp add: course_ok_def)
  qed
  then show ?thesis by (simp add: course_list_def comp_def)
qed

subsection \<open>The target while its courses are created\<close>

lemma target_ok_student:
  "target_ok t \<Longrightarrow> (k, r) \<in> set (students t) \<Longrightarrow>
   r < length (student_objs t) \<and> student_id (student_objs t ! r) = k"
  unfolding target_ok_def by fast

lemma target_ok_instructor:
  "target_ok t \<Longrightarrow> (k, r) \<in> set (instructors t) \<Longrightarrow>
   r < length (instructor_objs t) \<and> instructor_id (instructor_objs t ! r) = k \<and>
   (\<forall>rc \<in> set (assigned_courses (instructor_objs t ! r)). rc < length (course_objs t))"
  unfolding target_ok_def by fast

lemma target_ok_course:
  "target_ok t \<Longrightarrow> (k, r) \<in> set (courses t) \<Longrightarrow>
   r < length (course_objs t) \<and> course_id (course_objs t ! r) = k"
  unfolding target_ok_def by fast

lemma target_ok_distinct:
  "target_ok t \<Longrightarrow> distinct (map snd (students t))"
  "target_ok t \<Longrightarrow> distinct (map snd (instructors t))"
  "target_ok t \<Longrightarrow> distinct (map snd (courses t))"
  unfolding target_ok_def by simp_all

lemma same_ref_same_key:
  "distinct (map snd al) \<Longrightarrow> (a, r) \<in> set al \<Longrightarrow> (b, r) \<in> set al \<Longrightarrow> a = b"
  by (induction al) (auto simp: image_iff)

lemma assigned_edges_iff:
  "(a, b) \<in> assigned_edges t \<longleftrightarrow>
   (\<exists>r. (a, r) \<in> set (instructors t) \<and>
        b \<in> set (course_ids t (assigned_courses (instructor_objs t ! r))))"
  by (auto simp: assigned_edges_def)

lemma enrollment_edges_iff:
  "(a, b) \<in> enrollment_edges t \<longleftrightarrow>
   (\<exists>r. (a, r) \<in> set (students t) \<and>
        b \<in> set (course_ids t (registered_courses (student_objs t ! r))))"
  by (auto simp: enrollment_edges_def)

lemma roster_edges_iff:
  "(a, b) \<in> roster_edges t \<longleftrightarrow>
   (\<exists>r. (a, r) \<in> set (courses t) \<and>
        b \<in> set (student_ids t (enrolled_students (course_objs t ! r))))"
  by (auto simp: roster_edges_def)

lemma course_ids_append:
  "(\<And>r. r \<in> set xs \<Longrightarrow> r < length (course_objs t)) \<Longrightarrow>
   course_ids (t\<lparr>course_objs := course_objs t @ cs\<rparr>) xs = course_ids t xs"
  by (simp add: course_ids_def nth_append)

lemma course_step_explicit:
  assumes f: "map_of (instructors t) iid = Some ri"
    and v: "check_course_id (strip cid)" "upper (strip cid) = cid" "check_course_name (strip cname)"
    and a: "\<And>r. r \<in> set (assigned_courses (instructor_objs t ! ri)) \<Longrightarrow> r < length (course_objs t)"
  shows "course_step (cid, cname, iid) t = course_added cid cname ri t"
proof -
  let ?c = "\<lparr>course_id = cid, course_name = cname, instructor = PInstructor ri,
             enrolled_students = []\<rparr>"
  let ?h1 = "t\<lparr>course_objs := course_objs t @ [?c]\<rparr>"
  have ids: "course_ids ?h1 (assigned_courses (instructor_objs t ! ri))
               = course_ids t (assigned_courses (instructor_objs t ! ri))"
    using a by (rule course_ids_append)
  have "Course_init (PStr cid) (PStr cname) (PInstructor ri) t
          = (Inr (length (course_objs t)), Instructor_assign_course ri (length (course_objs t)) ?h1)"
    using v by (simp add: Course_init_def Let_def)
  then show ?thesis
    using f ids
    by (simp add: course_step_def new_course_def Instructor_assign_course_def course_added_def Let_def)
qed

lemma target_okI:
  assumes "distinct (map snd (students t))" "distinct (map snd (instructors t))"
    "distinct (map snd (courses t))"
    "\<And>k r. (k, r) \<in> set (students t) \<Longrightarrow>
       r < length (student_objs t) \<and> student_id (student_objs t ! r) = k"
    "\<And>k r. (k, r) \<in> set (instructors t) \<Longrightarrow>
       r < length (instructor_objs t) \<and> instructor_id (instructor_objs t ! r) = k \<and>
       (\<forall>rc \<in> set (assigned_courses (instructor_objs t ! r)). rc < length (course_objs t))"
    "\<And>k r. (k, r) \<in> set (courses t) \<Longrightarrow>
       r < length (course_objs t) \<and> course_id (course_objs t ! r) = k"
  shows "target_ok t"
  unfolding target_ok_def using assms by fast

lemma unlinkedI:
  assumes "\<And>k r. (k, r) \<in> set (students t) \<Longrightarrow> registered_courses (student_objs t ! r) = []"
    "\<And>k r. (k, r) \<in> set (courses t) \<Longrightarrow> enrolled_students (course_objs t ! r) = []"
  shows "unlinked t"
  unfolding unlinked_def using assms by fast

lemma unlinked_student:
  "unlinked t \<Longrightarrow> (k, r) \<in> set (students t) \<Longrightarrow> registered_courses (student_objs t ! r) = []"
  unfolding unlinked_def by fast

lemma unlinked_course:
  "unlinked t \<Longrightarrow> (k, r) \<in> set (courses t) \<Longrightarrow> enrolled_students (course_objs t ! r) = []"
  unfolding unlinked_def by fast

lemma course_added_same [simp]:
  "students (course_added cid cname ri t) = students t"
  "instructors (course_added cid cname ri t) = instructors t"
  "student_objs (course_added cid cname ri t) = student_objs t"
  "length (instructor_objs (course_added cid cname ri t)) = length (instructor_objs t)"
  "course_objs (course_added cid cname ri t) = course_objs t @
     [\<lparr>course_id = cid, course_name = cname, instructor = PInstructor ri, enrolled_students = []\<rparr>]"
  by (simp_all add: course_added_def)

lemma nth_update_same_field:
  "f y = f (xs ! i) \<Longrightarrow> f (xs[i := y] ! r) = f (xs ! r)"
  by (cases "i < length xs") (simp_all add: nth_list_update list_update_beyond)

lemma course_added_instructor:
  "instructor_id (instructor_objs (course_added cid cname ri t) ! r) = instructor_id (instructor_objs t ! r)"
  "name (instructor_objs (course_added cid cname ri t) ! r) = name (instructor_objs t ! r)"
  "age (instructor_objs (course_added cid cname ri t) ! r) = age (instructor_objs t ! r)"
  "email (instructor_objs (course_added cid cname ri t) ! r) = email (instructor_objs t ! r)"
  by (simp_all add: course_added_def nth_update_same_field)

lemma course_added_assigned:
  assumes "ri < length (instructor_objs t)"
  shows "assigned_courses (instructor_objs (course_added cid cname ri t) ! r)
         = (if r = ri \<and> cid \<notin> set (course_ids t (assigned_courses (instructor_objs t ! ri)))
            then assigned_courses (instructor_objs t ! ri) @ [length (course_objs t)]
            else assigned_courses (instructor_objs t ! r))"
  using assms by (simp add: course_added_def nth_list_update)

lemma course_added_ids:
  assumes "\<And>rc. rc \<in> set xs \<Longrightarrow> rc < length (course_objs t)"
  shows "course_ids (course_added cid cname ri t) xs = course_ids t xs"
  using assms by (simp add: course_ids_def nth_append)

lemma course_added_assigned_ids:
  assumes ri: "ri < length (instructor_objs t)"
    and a: "\<And>rc. rc \<in> set (assigned_courses (instructor_objs t ! r)) \<Longrightarrow> rc < length (course_objs t)"
  shows "set (course_ids (course_added cid cname ri t)
               (assigned_courses (instructor_objs (course_added cid cname ri t) ! r)))
         = set (course_ids t (assigned_courses (instructor_objs t ! r))) \<union>
           (if r = ri then {cid} else {})"
proof -
  let ?t' = "course_added cid cname ri t"
  let ?xs = "assigned_courses (instructor_objs t ! r)"
  have old: "course_ids ?t' ?xs = course_ids t ?xs"
    using a by (rule course_added_ids)
  have new: "course_ids ?t' (?xs @ [length (course_objs t)]) = course_ids t ?xs @ [cid]"
    using old by (simp add: course_ids_def)
  show ?thesis
    using old new by (auto simp: course_added_assigned[OF ri])
qed

lemma course_added_courses:
  "cid \<notin> fst ` set (courses t) \<Longrightarrow>
   courses (course_added cid cname ri t) = courses t @ [(cid, length (course_objs t))]"
  by (simp add: course_added_def update_fresh)

lemma course_added_target_ok:
  assumes ok: "target_ok t" and f: "(iid, ri) \<in> set (instructors t)"
    and fresh: "cid \<notin> fst ` set (courses t)"
  shows "target_ok (course_added cid cname ri t)"
proof (rule target_okI)
  let ?t' = "course_added cid cname ri t"
  from target_ok_instructor[OF ok f] have ri: "ri < length (instructor_objs t)" by simp
  show "distinct (map snd (students ?t'))" using target_ok_distinct(1)[OF ok] by simp
  show "distinct (map snd (instructors ?t'))" using target_ok_distinct(2)[OF ok] by simp
  have "length (course_objs t) \<notin> snd ` set (courses t)"
  proof
    assume "length (course_objs t) \<in> snd ` set (courses t)"
    then obtain k where "(k, length (course_objs t)) \<in> set (courses t)" by auto
    from target_ok_course[OF ok this] show False by simp
  qed
  then show "distinct (map snd (courses ?t'))"
    using target_ok_distinct(3)[OF ok] by (simp add: course_added_courses[OF fresh])
next
  fix k r assume "(k, r) \<in> set (students (course_added cid cname ri t))"
  then have "(k, r) \<in> set (students t)" by simp
  from target_ok_student[OF ok this]
  show "r < length (student_objs (course_added cid cname ri t)) \<and>
        student_id (student_objs (course_added cid cname ri t) ! r) = k" by simp
next
  fix k r assume "(k, r) \<in> set (instructors (course_added cid cname ri t))"
  then have kr: "(k, r) \<in> set (instructors t)" by simp
  from target_ok_instructor[OF ok f] have ri: "ri < length (instructor_objs t)" by simp
  from target_ok_instructor[OF ok kr]
  show "r < length (instructor_objs (course_added cid cname ri t)) \<and>
        instructor_id (instructor_objs (course_added cid cname ri t) ! r) = k \<and>
        (\<forall>rc \<in> set (assigned_courses (instructor_objs (course_added cid cname ri t) ! r)).
           rc < length (course_objs (course_added cid cname ri t)))"
    by (auto simp: course_added_instructor course_added_assigned[OF ri] less_Suc_eq)
next
  fix k r assume "(k, r) \<in> set (courses (course_added cid cname ri t))"
  then consider "(k, r) \<in> set (courses t)" | "k = cid" "r = length (course_objs t)"
    by (auto simp: course_added_courses[OF fresh])
  then show "r < length (course_objs (course_added cid cname ri t)) \<and>
        course_id (course_objs (course_added cid cname ri t) ! r) = k"
  proof cases
    case 1
    from target_ok_course[OF ok 1] show ?thesis by (simp add: nth_append)
  next
    case 2
    then show ?thesis by simp
  qed
qed

lemma course_added_unlinked:
  assumes ok: "target_ok t" and ul: "unlinked t" and fresh: "cid \<notin> fst ` set (courses t)"
  shows "unlinked (course_added cid cname ri t)"
proof (rule unlinkedI)
  fix k r assume "(k, r) \<in> set (students (course_added cid cname ri t))"
  then have "(k, r) \<in> set (students t)" by simp
  from unlinked_student[OF ul this]
  show "registered_courses (student_objs (course_added cid cname ri t) ! r) = []" by simp
next
  fix k r assume "(k, r) \<in> set (courses (course_added cid cname ri t))"
  then consider "(k, r) \<in> set (courses t)" | "k = cid" "r = length (course_objs t)"
    by (auto simp: course_added_courses[OF fresh])
  then show "enrolled_students (course_objs (course_added cid cname ri t) ! r) = []"
  proof cases
    case 1
    from target_ok_course[OF ok 1] unlinked_course[OF ul 1] show ?thesis by (simp add: nth_append)
  next
    case 2
    then show ?thesis by simp
  qed
qed

lemma course_added_student_entities:
  "student_entities (course_added cid cname ri t) = student_entities t"
  by (simp add: student_entities_def)

lemma course_added_instructor_entities:
  "instructor_entities (course_added cid cname ri t) = instructor_entities t"
  by (simp add: instructor_entities_def course_added_instructor)

lemma course_added_instructor_id_of:
  "instructor_id_of (course_added cid cname ri t) c = instructor_id_of t c"
  by (simp add: instructor_id_of_def course_added_instructor split: pyval.splits)

lemma course_added_course_entities:
  assumes ok: "target_ok t" and f: "(iid, ri) \<in> set (instructors t)"
    and fresh: "cid \<notin> fst ` set (courses t)"
  shows "course_entities (course_added cid cname ri t)
         = course_entities t @ [(cid, cid, cname, iid)]"
proof -
  let ?t' = "course_added cid cname ri t"
  let ?e = "\<lambda>t (k, r). (k, course_id (course_objs t ! r), course_name (course_objs t ! r),
                 instructor_id_of t (course_objs t ! r))"
  have old: "map (?e ?t') (courses t) = map (?e t) (courses t)"
  proof (rule map_cong_set)
    fix p assume "p \<in> set (courses t)"
    then have "(fst p, snd p) \<in> set (courses t)" by simp
    from target_ok_course[OF ok this] show "?e ?t' p = ?e t p"
      by (simp add: case_prod_unfold nth_append course_added_instructor_id_of)
  qed
  from target_ok_instructor[OF ok f] have "instructor_id (instructor_objs t ! ri) = iid" by simp
  then have new: "?e ?t' (cid, length (course_objs t)) = (cid, cid, cname, iid)"
    by (simp add: instructor_id_of_def course_added_instructor)
  show ?thesis
    unfolding course_entities_def course_added_courses[OF fresh]
    using old new by simp
qed

lemma course_added_assigned_edges:
  assumes ok: "target_ok t" and f: "(iid, ri) \<in> set (instructors t)"
  shows "assigned_edges (course_added cid cname ri t) = assigned_edges t \<union> {(iid, cid)}"
proof -
  let ?t' = "course_added cid cname ri t"
  from target_ok_instructor[OF ok f] have ri: "ri < length (instructor_objs t)" by simp
  have ids: "set (course_ids ?t' (assigned_courses (instructor_objs ?t' ! r)))
           = set (course_ids t (assigned_courses (instructor_objs t ! r))) \<union>
             (if r = ri then {cid} else {})"
    if "(a, r) \<in> set (instructors t)" for a r
    using target_ok_instructor[OF ok that] by (intro course_added_assigned_ids[OF ri]) simp
  have "(a, b) \<in> assigned_edges ?t' \<longleftrightarrow> (a, b) \<in> assigned_edges t \<union> {(iid, cid)}" for a b
  proof
    assume "(a, b) \<in> assigned_edges ?t'"
    then obtain r where r: "(a, r) \<in> set (instructors t)"
      and b: "b \<in> set (course_ids ?t' (assigned_courses (instructor_objs ?t' ! r)))"
      by (auto simp: assigned_edges_iff)
    from b ids[OF r] consider "b \<in> set (course_ids t (assigned_courses (instructor_objs t ! r)))"
      | "r = ri" "b = cid" by (auto split: if_splits)
    then show "(a, b) \<in> assigned_edges t \<union> {(iid, cid)}"
    proof cases
      case 1
      with r show ?thesis by (auto simp: assigned_edges_iff)
    next
      case 2
      with r f same_ref_same_key[OF target_ok_distinct(2)[OF ok]] have "a = iid" by blast
      with 2 show ?thesis by simp
    qed
  next
    assume "(a, b) \<in> assigned_edges t \<union> {(iid, cid)}"
    then consider "(a, b) \<in> assigned_edges t" | "a = iid" "b = cid" by auto
    then show "(a, b) \<in> assigned_edges ?t'"
    proof cases
      case 1
      then obtain r where r: "(a, r) \<in> set (instructors t)"
        and b: "b \<in> set (course_ids t (assigned_courses (instructor_objs t ! r)))"
        by (auto simp: assigned_edges_iff)
      from b ids[OF r] have "b \<in> set (course_ids ?t' (assigned_courses (instructor_objs ?t' ! r)))"
        by simp
      with r show ?thesis by (auto simp: assigned_edges_iff)
    next
      case 2
      from ids[OF f] have "cid \<in> set (course_ids ?t' (assigned_courses (instructor_objs ?t' ! ri)))"
        by simp
      with f 2 show ?thesis by (auto simp: assigned_edges_iff)
    qed
  qed
  then show ?thesis by auto
qed

lemma course_step_one:
  assumes ok: "target_ok t" and ul: "unlinked t" and c: "course_item_ok t c"
  shows "target_ok (course_step c t)" "unlinked (course_step c t)"
    "course_entities (course_step c t) = course_entities t @ [course_entity c]"
    "assigned_edges (course_step c t) = assigned_edges t \<union> {course_edge c}"
    "instructor_entities (course_step c t) = instructor_entities t"
    "student_entities (course_step c t) = student_entities t"
    "fst ` set (courses (course_step c t)) = fst ` set (courses t) \<union> {fst c}"
proof -
  obtain cid cname iid where c_def: "c = (cid, cname, iid)" by (cases c)
  from c obtain ri where v: "check_course_id (strip cid)" "upper (strip cid) = cid"
      "check_course_name (strip cname)"
    and m: "map_of (instructors t) iid = Some ri" and fresh: "cid \<notin> fst ` set (courses t)"
    by (auto simp: course_item_ok_def c_def)
  from m have f: "(iid, ri) \<in> set (instructors t)" by (rule map_of_SomeD)
  have "\<And>r. r \<in> set (assigned_courses (instructor_objs t ! ri)) \<Longrightarrow> r < length (course_objs t)"
    using target_ok_instructor[OF ok f] by simp
  with m v have e: "course_step c t = course_added cid cname ri t"
    unfolding c_def by (intro course_step_explicit)
  show "target_ok (course_step c t)"
    unfolding e using ok f fresh by (rule course_added_target_ok)
  show "unlinked (course_step c t)"
    unfolding e using ok ul fresh by (rule course_added_unlinked)
  show "course_entities (course_step c t) = course_entities t @ [course_entity c]"
    unfolding e using course_added_course_entities[OF ok f fresh]
    by (simp add: course_entity_def c_def)
  show "assigned_edges (course_step c t) = assigned_edges t \<union> {course_edge c}"
    unfolding e using course_added_assigned_edges[OF ok f] by (simp add: course_edge_def c_def)
  show "instructor_entities (course_step c t) = instructor_entities t"
    unfolding e by (rule course_added_instructor_entities)
  show "student_entities (course_step c t) = student_entities t"
    unfolding e by (rule course_added_student_entities)
  show "fst ` set (courses (course_step c t)) = fst ` set (courses t) \<union> {fst c}"
    unfolding e by (simp add: course_added_courses[OF fresh] c_def)
qed

lemma fold_course_step:
  assumes "target_ok t" "unlinked t" "distinct (map fst cs)"
    and "\<And>c. c \<in> set cs \<Longrightarrow> course_item_ok t c"
  shows "target_ok (foldl (\<lambda>t c. course_step c t) t cs) \<and>
         unlinked (foldl (\<lambda>t c. course_step c t) t cs) \<and>
         course_entities (foldl (\<lambda>t c. course_step c t) t cs)
           = course_entities t @ map course_entity cs \<and>
         assigned_edges (foldl (\<lambda>t c. course_step c t) t cs)
           = assigned_edges t \<union> course_edge ` set cs \<and>
         instructor_entities (foldl (\<lambda>t c. course_step c t) t cs) = instructor_entities t \<and>
         student_entities (foldl (\<lambda>t c. course_step c t) t cs) = student_entities t \<and>
         fst ` set (courses (foldl (\<lambda>t c. course_step c t) t cs))
           = fst ` set (courses t) \<union> fst ` set cs"
  using assms
proof (induction cs arbitrary: t)
  case Nil
  then show ?case by simp
next
  case (Cons c cs)
  let ?t1 = "course_step c t"
  from Cons.prems have c: "course_item_ok t c" by simp
  note one = course_step_one[OF Cons.prems(1,2) c]
  from Cons.prems(3) have d: "distinct (map fst cs)" and nc: "fst c \<notin> fst ` set cs" by auto
  have rest: "course_item_ok ?t1 x" if "x \<in> set cs" for x
  proof -
    from Cons.prems(4)[of x] that have x: "course_item_ok t x" by simp
    from that nc have "fst x \<noteq> fst c" by (metis imageI)
    with x one(7) show ?thesis
      by (auto simp: course_item_ok_def split: prod.splits)
  qed
  from Cons.IH[OF one(1) one(2) d rest] one(3-7) show ?case
    by (simp add: Un_assoc)
qed

subsection \<open>The target while its students are registered\<close>

lemma Course_add_student_same [simp]:
  "instructor_objs (Course_add_student rc rs h) = instructor_objs h"
  "length (course_objs (Course_add_student rc rs h)) = length (course_objs h)"
  by (simp_all add: Course_add_student_def Let_def)

lemma Course_add_student_course:
  "course_name (course_objs (Course_add_student rc rs h) ! r) = course_name (course_objs h ! r)"
  "instructor (course_objs (Course_add_student rc rs h) ! r) = instructor (course_objs h ! r)"
  by (simp_all add: Course_add_student_def Let_def nth_update_same_field)

lemma Course_add_student_enrolled:
  assumes "rc < length (course_objs h)"
  shows "enrolled_students (course_objs (Course_add_student rc rs h) ! r)
         = (if r = rc \<and> student_id (student_objs h ! rs)
                           \<notin> set (student_ids h (enrolled_students (course_objs h ! rc)))
            then enrolled_students (course_objs h ! rc) @ [rs]
            else enrolled_students (course_objs h ! r))"
  using assms by (simp add: Course_add_student_def Let_def nth_list_update)

lemma Student_register_course_same [simp]:
  "instructor_objs (Student_register_course rs rc h) = instructor_objs h"
  "length (course_objs (Student_register_course rs rc h)) = length (course_objs h)"
  "length (student_objs (Student_register_course rs rc h)) = length (student_objs h)"
  by (simp_all add: Student_register_course_def Let_def)

lemma Student_register_course_student:
  "student_id (student_objs (Student_register_course rs rc h) ! r) = student_id (student_objs h ! r)"
  "name (student_objs (Student_register_course rs rc h) ! r) = name (student_objs h ! r)"
  "age (student_objs (Student_register_course rs rc h) ! r) = age (student_objs h ! r)"
  "email (student_objs (Student_register_course rs rc h) ! r) = email (student_objs h ! r)"
  by (simp_all add: Student_register_course_def Let_def nth_update_same_field)

lemma Student_register_course_course:
  "course_id (course_objs (Student_register_course rs rc h) ! r) = course_id (course_objs h ! r)"
  "course_name (course_objs (Student_register_course rs rc h) ! r) = course_name (course_objs h ! r)"
  "instructor (course_objs (Student_register_course rs rc h) ! r) = instructor (course_objs h ! r)"
  by (simp_all add: Student_register_course_def Let_def Course_add_student_course)

lemma Student_register_course_registered:
  assumes "rs < length (student_objs h)"
  shows "registered_courses (student_objs (Student_register_course rs rc h) ! r)
         = (if r = rs \<and> course_id (course_objs h ! rc)
                           \<notin> set (course_ids h (registered_courses (student_objs h ! rs)))
            then registered_courses (student_objs h ! rs) @ [rc]
            else registered_courses (student_objs h ! r))"
  using assms by (simp add: Student_register_course_def Let_def nth_list_update)

lemma Student_register_course_enrolled:
  assumes "rc < length (course_objs h)"
  shows "enrolled_students (course_objs (Student_register_course rs rc h) ! r)
         = (if r = rc \<and>
               course_id (course_objs h ! rc)
                 \<notin> set (course_ids h (registered_courses (student_objs h ! rs))) \<and>
               student_id (student_objs h ! rs)
                 \<notin> set (student_ids h (enrolled_students (course_objs h ! rc)))
            then enrolled_students (course_objs h ! rc) @ [rs]
            else enrolled_students (course_objs h ! r))"
  using assms
  by (simp add: Student_register_course_def Let_def Course_add_student_enrolled student_ids_def
        nth_update_same_field)

lemma Student_register_course_ids [simp]:
  "course_ids (Student_register_course rs rc h) xs = course_ids h xs"
  "student_ids (Student_register_course rs rc h) xs = student_ids h xs"
  by (simp_all add: course_ids_def student_ids_def Student_register_course_student
        Student_register_course_course)

lemma Student_register_course_target_ok:
  assumes ok: "target_ok t"
  shows "target_ok (Student_register_course rs rc t)"
proof (rule target_okI)
  let ?t' = "Student_register_course rs rc t"
  show "distinct (map snd (students ?t'))" using target_ok_distinct(1)[OF ok] by simp
  show "distinct (map snd (instructors ?t'))" using target_ok_distinct(2)[OF ok] by simp
  show "distinct (map snd (courses ?t'))" using target_ok_distinct(3)[OF ok] by simp
next
  fix k r assume "(k, r) \<in> set (students (Student_register_course rs rc t))"
  then have "(k, r) \<in> set (students t)" by simp
  from target_ok_student[OF ok this]
  show "r < length (student_objs (Student_register_course rs rc t)) \<and>
        student_id (student_objs (Student_register_course rs rc t) ! r) = k"
    by (simp add: Student_register_course_student)
next
  fix k r assume "(k, r) \<in> set (instructors (Student_register_course rs rc t))"
  then have "(k, r) \<in> set (instructors t)" by simp
  from target_ok_instructor[OF ok this]
  show "r < length (instructor_objs (Student_register_course rs rc t)) \<and>
        instructor_id (instructor_objs (Student_register_course rs rc t) ! r) = k \<and>
        (\<forall>x \<in> set (assigned_courses (instructor_objs (Student_register_course rs rc t) ! r)).
           x < length (course_objs (Student_register_course rs rc t)))"
    by simp
next
  fix k r assume "(k, r) \<in> set (courses (Student_register_course rs rc t))"
  then have "(k, r) \<in> set (courses t)" by simp
  from target_ok_course[OF ok this]
  show "r < length (course_objs (Student_register_course rs rc t)) \<and>
        course_id (course_objs (Student_register_course rs rc t) ! r) = k"
    by (simp add: Student_register_course_course)
qed

lemma Student_register_course_instructor_id_of [simp]:
  "instructor_id_of (Student_register_course rs rc t) c = instructor_id_of t c"
  by (simp add: instructor_id_of_def split: pyval.splits)

lemma instructor_id_of_cong:
  "instructor c = instructor c' \<Longrightarrow> instructor_id_of h c = instructor_id_of h c'"
  by (simp add: instructor_id_of_def)

lemma Student_register_course_entities:
  "student_entities (Student_register_course rs rc t) = student_entities t"
  "instructor_entities (Student_register_course rs rc t) = instructor_entities t"
  "course_entities (Student_register_course rs rc t) = course_entities t"
  "assigned_edges (Student_register_course rs rc t) = assigned_edges t"
  by (simp_all add: student_entities_def instructor_entities_def course_entities_def
        assigned_edges_def Student_register_course_student
        Student_register_course_course
        instructor_id_of_cong[OF Student_register_course_course(3)])

lemma register_enrollment_edges:
  assumes ok: "target_ok t" and s: "(sid, rs) \<in> set (students t)"
    and c: "(cid, rc) \<in> set (courses t)"
  shows "enrollment_edges (Student_register_course rs rc t) = enrollment_edges t \<union> {(sid, cid)}"
proof -
  let ?t' = "Student_register_course rs rc t"
  from target_ok_student[OF ok s] have rs: "rs < length (student_objs t)" by simp
  from target_ok_course[OF ok c] have cid: "course_id (course_objs t ! rc) = cid" by simp
  have ids: "set (course_ids t (registered_courses (student_objs ?t' ! r)))
           = set (course_ids t (registered_courses (student_objs t ! r))) \<union>
             (if r = rs then {cid} else {})" for r
    using cid by (auto simp: Student_register_course_registered[OF rs] course_ids_def)
  have "(a, b) \<in> enrollment_edges ?t' \<longleftrightarrow> (a, b) \<in> enrollment_edges t \<union> {(sid, cid)}" for a b
  proof
    assume "(a, b) \<in> enrollment_edges ?t'"
    then obtain r where r: "(a, r) \<in> set (students t)"
      and b: "b \<in> set (course_ids t (registered_courses (student_objs ?t' ! r)))"
      by (auto simp: enrollment_edges_iff)
    from b ids[of r] consider "b \<in> set (course_ids t (registered_courses (student_objs t ! r)))"
      | "r = rs" "b = cid" by (auto split: if_splits)
    then show "(a, b) \<in> enrollment_edges t \<union> {(sid, cid)}"
    proof cases
      case 1
      with r show ?thesis by (auto simp: enrollment_edges_iff)
    next
      case 2
      with r s same_ref_same_key[OF target_ok_distinct(1)[OF ok]] have "a = sid" by blast
      with 2 show ?thesis by simp
    qed
  next
    assume "(a, b) \<in> enrollment_edges t \<union> {(sid, cid)}"
    then consider "(a, b) \<in> enrollment_edges t" | "a = sid" "b = cid" by auto
    then show "(a, b) \<in> enrollment_edges ?t'"
    proof cases
      case 1
      then obtain r where r: "(a, r) \<in> set (students t)"
        and b: "b \<in> set (course_ids t (registered_courses (student_objs t ! r)))"
        by (auto simp: enrollment_edges_iff)
      from b ids[of r] have "b \<in> set (course_ids t (registered_courses (student_objs ?t' ! r)))"
        by simp
      with r show ?thesis by (auto simp: enrollment_edges_iff)
    next
      case 2
      from ids[of rs] have "cid \<in> set (course_ids t (registered_courses (student_objs ?t' ! rs)))"
        by simp
      with s 2 show ?thesis by (auto simp: enrollment_edges_iff)
    qed
  qed
  then show ?thesis by auto
qed

lemma register_roster_edges:
  assumes ok: "target_ok t" and s: "(sid, rs) \<in> set (students t)"
    and c: "(cid, rc) \<in> set (courses t)"
    and sym: "(sid, cid) \<in> enrollment_edges t \<Longrightarrow> (cid, sid) \<in> roster_edges t"
  shows "roster_edges (Student_register_course rs rc t) = roster_edges t \<union> {(cid, sid)}"
proof -
  let ?t' = "Student_register_course rs rc t"
  let ?new = "course_id (course_objs t ! rc)
                \<notin> set (course_ids t (registered_courses (student_objs t ! rs)))"
  from target_ok_student[OF ok s] have rs: "rs < length (student_objs t)"
    and sid: "student_id (student_objs t ! rs) = sid" by simp_all
  from target_ok_course[OF ok c] have rc: "rc < length (course_objs t)"
    and cid: "course_id (course_objs t ! rc) = cid" by simp_all
  have sub: "set (student_ids t (enrolled_students (course_objs ?t' ! r)))
           \<subseteq> set (student_ids t (enrolled_students (course_objs t ! r))) \<union>
             (if r = rc then {sid} else {})" for r
    using sid by (auto simp: Student_register_course_enrolled[OF rc] student_ids_def)
  have sup: "set (student_ids t (enrolled_students (course_objs t ! r)))
           \<subseteq> set (student_ids t (enrolled_students (course_objs ?t' ! r)))" for r
    by (auto simp: Student_register_course_enrolled[OF rc] student_ids_def)
  have new: "sid \<in> set (student_ids t (enrolled_students (course_objs ?t' ! rc)))" if "?new"
    using that sid by (auto simp: Student_register_course_enrolled[OF rc] student_ids_def)
  have "(a, b) \<in> roster_edges ?t' \<longleftrightarrow> (a, b) \<in> roster_edges t \<union> {(cid, sid)}" for a b
  proof
    assume "(a, b) \<in> roster_edges ?t'"
    then obtain r where r: "(a, r) \<in> set (courses t)"
      and b: "b \<in> set (student_ids t (enrolled_students (course_objs ?t' ! r)))"
      by (auto simp: roster_edges_iff)
    from b sub[of r] consider "b \<in> set (student_ids t (enrolled_students (course_objs t ! r)))"
      | "r = rc" "b = sid" by (auto split: if_splits)
    then show "(a, b) \<in> roster_edges t \<union> {(cid, sid)}"
    proof cases
      case 1
      with r show ?thesis by (auto simp: roster_edges_iff)
    next
      case 2
      with r c same_ref_same_key[OF target_ok_distinct(3)[OF ok]] have "a = cid" by blast
      with 2 show ?thesis by simp
    qed
  next
    assume "(a, b) \<in> roster_edges t \<union> {(cid, sid)}"
    then consider "(a, b) \<in> roster_edges t" | "a = cid" "b = sid" by auto
    then show "(a, b) \<in> roster_edges ?t'"
    proof cases
      case 1
      then obtain r where r: "(a, r) \<in> set (courses t)"
        and b: "b \<in> set (student_ids t (enrolled_students (course_objs t ! r)))"
        by (auto simp: roster_edges_iff)
      from b sup[of r] have "b \<in> set (student_ids t (enrolled_students (course_objs ?t' ! r)))"
        by auto
      with r show ?thesis by (auto simp: roster_edges_iff)
    next
      case 2
      show ?thesis
      proof (cases ?new)
        case True
        from new[OF True] c 2 show ?thesis by (auto simp: roster_edges_iff)
      next
        case False
        with s cid have "(sid, cid) \<in> enrollment_edges t" by (auto simp: enrollment_edges_iff)
        from sym[OF this] obtain r where r: "(cid, r) \<in> set (courses t)"
          and b: "sid \<in> set (student_ids t (enrolled_students (course_objs t ! r)))"
          by (auto simp: roster_edges_iff)
        from b sup[of r] have "sid \<in> set (student_ids t (enrolled_students (course_objs ?t' ! r)))"
          by auto
        with r 2 show ?thesis by (auto simp: roster_edges_iff)
      qed
    qed
  qed
  then show ?thesis by auto
qed

lemma reg_step_one:
  assumes ok: "target_ok t" and p: "pair_ok t p"
    and sym: "enrollment_edges t \<subseteq> (roster_edges t)\<inverse>"
  shows "target_ok (reg_step p t)"
    "enrollment_edges (reg_step p t) = enrollment_edges t \<union> {p}"
    "roster_edges (reg_step p t) = roster_edges t \<union> {(snd p, fst p)}"
    "student_entities (reg_step p t) = student_entities t"
    "instructor_entities (reg_step p t) = instructor_entities t"
    "course_entities (reg_step p t) = course_entities t"
    "assigned_edges (reg_step p t) = assigned_edges t"
proof -
  obtain sid cid where p_def: "p = (sid, cid)" by (cases p)
  from p obtain rs rc where ms: "map_of (students t) sid = Some rs"
    and mc: "map_of (courses t) cid = Some rc" by (auto simp: pair_ok_def p_def)
  from ms have s: "(sid, rs) \<in> set (students t)" by (rule map_of_SomeD)
  from mc have c: "(cid, rc) \<in> set (courses t)" by (rule map_of_SomeD)
  from ms mc have e: "reg_step p t = Student_register_course rs rc t"
    by (simp add: reg_step_def p_def)
  from sym have sym': "(sid, cid) \<in> enrollment_edges t \<Longrightarrow> (cid, sid) \<in> roster_edges t"
    by auto
  show "target_ok (reg_step p t)"
    unfolding e using ok by (rule Student_register_course_target_ok)
  show "enrollment_edges (reg_step p t) = enrollment_edges t \<union> {p}"
    unfolding e using register_enrollment_edges[OF ok s c] by (simp add: p_def)
  show "roster_edges (reg_step p t) = roster_edges t \<union> {(snd p, fst p)}"
    unfolding e using register_roster_edges[OF ok s c sym'] by (simp add: p_def)
  show "student_entities (reg_step p t) = student_entities t"
    "instructor_entities (reg_step p t) = instructor_entities t"
    "course_entities (reg_step p t) = course_entities t"
    "assigned_edges (reg_step p t) = assigned_edges t"
    unfolding e by (rule Student_register_course_entities)+
qed

lemma fold_reg_step:
  assumes "target_ok t" "enrollment_edges t \<subseteq> (roster_edges t)\<inverse>"
    and "\<And>p. p \<in> set ps \<Longrightarrow> pair_ok t p"
  shows "enrollment_edges (foldl (\<lambda>t p. reg_step p t) t ps) = enrollment_edges t \<union> set ps \<and>
         roster_edges (foldl (\<lambda>t p. reg_step p t) t ps) = roster_edges t \<union> (set ps)\<inverse> \<and>
         student_entities (foldl (\<lambda>t p. reg_step p t) t ps) = student_entities t \<and>
         instructor_entities (foldl (\<lambda>t p. reg_step p t) t ps) = instructor_entities t \<and>
         course_entities (foldl (\<lambda>t p. reg_step p t) t ps) = course_entities t \<and>
         assigned_edges (foldl (\<lambda>t p. reg_step p t) t ps) = assigned_edges t"
  using assms
proof (induction ps arbitrary: t)
  case Nil
  then show ?case by simp
next
  case (Cons p ps)
  let ?t1 = "reg_step p t"
  from Cons.prems(3) have p: "pair_ok t p" by simp
  note one = reg_step_one[OF Cons.prems(1) p Cons.prems(2)]
  have sym: "enrollment_edges ?t1 \<subseteq> (roster_edges ?t1)\<inverse>"
    using Cons.prems(2) unfolding one(2,3) by (cases p) auto
  have rest: "pair_ok ?t1 x" if "x \<in> set ps" for x
    using Cons.prems(3)[of x] that by (simp add: pair_ok_def)
  have conv: "(insert p (set ps))\<inverse> = insert (snd p, fst p) ((set ps)\<inverse>)"
    by (cases p) auto
  from Cons.IH[OF one(1) sym rest] one(2-7) conv show ?case
    by (simp add: Un_assoc)
qed

subsection \<open>The target after its instructors and students\<close>

lemma fold_entities_loaded:
  assumes "distinct (map instructor_id ins)" "distinct (map student_id ss)"
  shows "foldl (\<lambda>t s. student_step s t) (foldl (\<lambda>t i. instr_step i t) (clear_all t) ins) ss
         = loaded ins ss t"
proof -
  have 1: "foldl (\<lambda>t i. instr_step i t) (clear_all t) ins
           = (clear_all t)\<lparr>instructor_objs := instructor_objs t @ map (\<lambda>i. i\<lparr>assigned_courses := []\<rparr>) ins,
               instructors := zip (map instructor_id ins)
                 [length (instructor_objs t)..<length (instructor_objs t) + length ins]\<rparr>"
    using fold_instr_step[OF assms(1), of "clear_all t"] by (simp add: clear_all_def)
  show ?thesis
    unfolding 1 using fold_student_step[OF assms(2)]
    by (simp add: clear_all_def loaded_def)
qed

lemma in_zip_upt:
  "(k, r) \<in> set (zip (map g xs) [m..<m + length xs]) \<longleftrightarrow>
   (\<exists>i < length xs. k = g (xs ! i) \<and> r = m + i)"
proof
  assume "(k, r) \<in> set (zip (map g xs) [m..<m + length xs])"
  then show "\<exists>i < length xs. k = g (xs ! i) \<and> r = m + i"
    by (auto simp: set_zip)
next
  assume "\<exists>i < length xs. k = g (xs ! i) \<and> r = m + i"
  then obtain i where "i < length xs" "k = g (xs ! i)" "r = m + i" by auto
  then have "(k, r) = (map g xs ! i, [m..<m + length xs] ! i) \<and>
             i < min (length (map g xs)) (length [m..<m + length xs])"
    by simp
  then show "(k, r) \<in> set (zip (map g xs) [m..<m + length xs])"
    unfolding set_zip by blast
qed

lemma map_zip_upt:
  assumes "\<And>i. i < length xs \<Longrightarrow> f (g (xs ! i), m + i) = h (xs ! i)"
  shows "map f (zip (map g xs) [m..<m + length xs]) = map h xs"
  by (rule nth_equalityI) (simp_all add: assms)

lemma loaded_student:
  "(k, r) \<in> set (students (loaded ins ss t)) \<longleftrightarrow>
   (\<exists>i < length ss. k = student_id (ss ! i) \<and> r = length (student_objs t) + i)"
  by (simp add: loaded_def in_zip_upt)

lemma loaded_instructor:
  "(k, r) \<in> set (instructors (loaded ins ss t)) \<longleftrightarrow>
   (\<exists>i < length ins. k = instructor_id (ins ! i) \<and> r = length (instructor_objs t) + i)"
  by (simp add: loaded_def in_zip_upt)

lemma loaded_objs:
  "i < length ss \<Longrightarrow>
   student_objs (loaded ins ss t) ! (length (student_objs t) + i) = (ss ! i)\<lparr>registered_courses := []\<rparr>"
  "j < length ins \<Longrightarrow>
   instructor_objs (loaded ins ss t) ! (length (instructor_objs t) + j) = (ins ! j)\<lparr>assigned_courses := []\<rparr>"
  "length (student_objs (loaded ins ss t)) = length (student_objs t) + length ss"
  "length (instructor_objs (loaded ins ss t)) = length (instructor_objs t) + length ins"
  "courses (loaded ins ss t) = []"
  by (simp_all add: loaded_def)

lemma loaded_target_ok: "target_ok (loaded ins ss t)"
proof (rule target_okI)
  show "distinct (map snd (students (loaded ins ss t)))" by (simp add: loaded_def)
  show "distinct (map snd (instructors (loaded ins ss t)))" by (simp add: loaded_def)
  show "distinct (map snd (courses (loaded ins ss t)))" by (simp add: loaded_def)
next
  fix k r assume "(k, r) \<in> set (students (loaded ins ss t))"
  then show "r < length (student_objs (loaded ins ss t)) \<and>
             student_id (student_objs (loaded ins ss t) ! r) = k"
    by (auto simp: loaded_student loaded_objs)
next
  fix k r assume "(k, r) \<in> set (instructors (loaded ins ss t))"
  then show "r < length (instructor_objs (loaded ins ss t)) \<and>
        instructor_id (instructor_objs (loaded ins ss t) ! r) = k \<and>
        (\<forall>rc \<in> set (assigned_courses (instructor_objs (loaded ins ss t) ! r)).
           rc < length (course_objs (loaded ins ss t)))"
    by (auto simp: loaded_instructor loaded_objs)
next
  fix k r assume "(k, r) \<in> set (courses (loaded ins ss t))"
  then show "r < length (course_objs (loaded ins ss t)) \<and>
             course_id (course_objs (loaded ins ss t) ! r) = k"
    by (simp add: loaded_objs)
qed

lemma loaded_unlinked: "unlinked (loaded ins ss t)"
proof (rule unlinkedI)
  fix k r assume "(k, r) \<in> set (students (loaded ins ss t))"
  then show "registered_courses (student_objs (loaded ins ss t) ! r) = []"
    by (auto simp: loaded_student loaded_objs)
next
  fix k r assume "(k, r) \<in> set (courses (loaded ins ss t))"
  then show "enrolled_students (course_objs (loaded ins ss t) ! r) = []"
    by (simp add: loaded_objs)
qed

lemma loaded_entities:
  "student_entities (loaded ins ss t) = map student_entity ss"
  "instructor_entities (loaded ins ss t) = map instructor_entity ins"
  "course_entities (loaded ins ss t) = []"
proof -
  have "student_entities (loaded ins ss t)
        = map (\<lambda>(k, r). (k, student_id (student_objs (loaded ins ss t) ! r),
                          name (student_objs (loaded ins ss t) ! r),
                          age (student_objs (loaded ins ss t) ! r),
                          email (student_objs (loaded ins ss t) ! r)))
            (zip (map student_id ss) [length (student_objs t)..<length (student_objs t) + length ss])"
    by (simp add: student_entities_def loaded_def)
  also have "\<dots> = map student_entity ss"
    by (rule map_zip_upt) (simp add: loaded_objs student_entity_def)
  finally show "student_entities (loaded ins ss t) = map student_entity ss" .
  have "instructor_entities (loaded ins ss t)
        = map (\<lambda>(k, r). (k, instructor_id (instructor_objs (loaded ins ss t) ! r),
                          name (instructor_objs (loaded ins ss t) ! r),
                          age (instructor_objs (loaded ins ss t) ! r),
                          email (instructor_objs (loaded ins ss t) ! r)))
            (zip (map instructor_id ins)
               [length (instructor_objs t)..<length (instructor_objs t) + length ins])"
    by (simp add: instructor_entities_def loaded_def)
  also have "\<dots> = map instructor_entity ins"
    by (rule map_zip_upt) (simp add: loaded_objs instructor_entity_def)
  finally show "instructor_entities (loaded ins ss t) = map instructor_entity ins" .
  show "course_entities (loaded ins ss t) = []"
    by (simp add: course_entities_def loaded_objs)
qed

lemma loaded_assigned_edges: "assigned_edges (loaded ins ss t) = {}"
proof -
  have "(a, b) \<notin> assigned_edges (loaded ins ss t)" for a b
    by (auto simp: assigned_edges_iff loaded_instructor loaded_objs course_ids_def)
  then show ?thesis by auto
qed

lemma loaded_keys:
  "fst ` set (students (loaded ins ss t)) = student_id ` set ss"
  "fst ` set (instructors (loaded ins ss t)) = instructor_id ` set ins"
  by (simp_all add: loaded_def map_fst_zip flip: set_map)

lemma unlinked_edges:
  assumes "unlinked t"
  shows "enrollment_edges t = {}" "roster_edges t = {}"
proof -
  have "(a, b) \<notin> enrollment_edges t" for a b
    using unlinked_student[OF assms] by (auto simp: enrollment_edges_iff course_ids_def)
  then show "enrollment_edges t = {}" by auto
  have "(a, b) \<notin> roster_edges t" for a b
    using unlinked_course[OF assms] by (auto simp: roster_edges_iff student_ids_def)
  then show "roster_edges t = {}" by auto
qed

subsection \<open>The exported graph\<close>

lemma student_entities_source:
  assumes "well_formed fm"
  shows "student_entities fm = map student_entity (student_list fm)"
proof -
  have "map (\<lambda>(k, r). (k, student_id (student_objs fm ! r), name (student_objs fm ! r),
                        age (student_objs fm ! r), email (student_objs fm ! r))) (students fm)
        = map (\<lambda>p. student_entity (student_objs fm ! snd p)) (students fm)"
  proof (rule map_cong_set)
    fix p assume "p \<in> set (students fm)"
    then have "(fst p, snd p) \<in> set (students fm)" by simp
    from well_formed_student[OF assms this]
    show "(case p of (k, r) \<Rightarrow> (k, student_id (student_objs fm ! r), name (student_objs fm ! r),
                        age (student_objs fm ! r), email (student_objs fm ! r)))
          = student_entity (student_objs fm ! snd p)"
      by (simp add: student_ok_def student_entity_def case_prod_unfold)
  qed
  then show ?thesis by (simp add: student_entities_def student_list_def comp_def)
qed

lemma instructor_entities_source:
  assumes "well_formed fm"
  shows "instructor_entities fm = map instructor_entity (instructor_list fm)"
proof -
  have "map (\<lambda>(k, r). (k, instructor_id (instructor_objs fm ! r), name (instructor_objs fm ! r),
                        age (instructor_objs fm ! r), email (instructor_objs fm ! r)))
          (instructors fm)
        = map (\<lambda>p. instructor_entity (instructor_objs fm ! snd p)) (instructors fm)"
  proof (rule map_cong_set)
    fix p assume "p \<in> set (instructors fm)"
    then have "(fst p, snd p) \<in> set (instructors fm)" by simp
    from well_formed_instructor[OF assms this]
    show "(case p of (k, r) \<Rightarrow> (k, instructor_id (instructor_objs fm ! r),
                        name (instructor_objs fm ! r), age (instructor_objs fm ! r),
                        email (instructor_objs fm ! r)))
          = instructor_entity (instructor_objs fm ! snd p)"
      by (simp add: instructor_ok_def instructor_entity_def case_prod_unfold)
  qed
  then show ?thesis by (simp add: instructor_entities_def instructor_list_def comp_def)
qed

lemma course_entities_source:
  assumes "well_formed fm"
  shows "course_entities fm = map course_entity (map (course_item fm) (course_list fm))"
proof -
  have "map (\<lambda>(k, r). (k, course_id (course_objs fm ! r), course_name (course_objs fm ! r),
                        instructor_id_of fm (course_objs fm ! r))) (courses fm)
        = map (\<lambda>p. course_entity (course_item fm (course_objs fm ! snd p))) (courses fm)"
  proof (rule map_cong_set)
    fix p assume "p \<in> set (courses fm)"
    then have "(fst p, snd p) \<in> set (courses fm)" by simp
    from well_formed_course[OF assms this]
    show "(case p of (k, r) \<Rightarrow> (k, course_id (course_objs fm ! r), course_name (course_objs fm ! r),
                        instructor_id_of fm (course_objs fm ! r)))
          = course_entity (course_item fm (course_objs fm ! snd p))"
      by (simp add: course_ok_def course_entity_def course_item_def case_prod_unfold)
  qed
  then show ?thesis by (simp add: course_entities_def course_list_def comp_def)
qed

lemma enrollment_edges_source:
  assumes "well_formed fm"
  shows "enrollment_edges fm = set (concat (map (student_pairs fm) (student_list fm)))"
proof -
  have "map (\<lambda>(k, r). map (Pair k) (course_ids fm (registered_courses (student_objs fm ! r))))
          (students fm)
        = map (\<lambda>p. student_pairs fm (student_objs fm ! snd p)) (students fm)"
  proof (rule map_cong_set)
    fix p assume "p \<in> set (students fm)"
    then have "(fst p, snd p) \<in> set (students fm)" by simp
    from well_formed_student[OF assms this]
    show "(case p of (k, r) \<Rightarrow> map (Pair k) (course_ids fm (registered_courses (student_objs fm ! r))))
          = student_pairs fm (student_objs fm ! snd p)"
      by (simp add: student_ok_def student_pairs_def case_prod_unfold)
  qed
  then show ?thesis by (simp add: enrollment_edges_def student_list_def comp_def)
qed

lemma roster_edges_source:
  assumes wf: "well_formed fm"
  shows "roster_edges fm = (enrollment_edges fm)\<inverse>"
proof -
  have "(c, s) \<in> roster_edges fm \<longleftrightarrow> (s, c) \<in> enrollment_edges fm" for c s
  proof
    assume "(c, s) \<in> roster_edges fm"
    then obtain rc rs where rc: "(c, rc) \<in> set (courses fm)"
      and rs: "rs \<in> set (enrolled_students (course_objs fm ! rc))"
      and s: "s = student_id (student_objs fm ! rs)"
      by (auto simp: roster_edges_iff student_ids_def)
    from well_formed_course[OF wf rc] rs
    have c: "course_id (course_objs fm ! rc) = c" and "rs \<in> snd ` set (students fm)"
      and reg: "rc \<in> set (registered_courses (student_objs fm ! rs))"
      by (auto simp: course_ok_def)
    then obtain k where k: "(k, rs) \<in> set (students fm)" by auto
    from well_formed_student[OF wf k] s have "k = s" by (simp add: student_ok_def)
    with k reg c show "(s, c) \<in> enrollment_edges fm"
      by (auto simp: enrollment_edges_iff course_ids_def)
  next
    assume "(s, c) \<in> enrollment_edges fm"
    then obtain rs rc where rs: "(s, rs) \<in> set (students fm)"
      and rc: "rc \<in> set (registered_courses (student_objs fm ! rs))"
      and c: "c = course_id (course_objs fm ! rc)"
      by (auto simp: enrollment_edges_iff course_ids_def)
    from well_formed_student[OF wf rs] rc
    have s: "student_id (student_objs fm ! rs) = s" and "rc \<in> snd ` set (courses fm)"
      and enr: "rs \<in> set (enrolled_students (course_objs fm ! rc))"
      by (auto simp: student_ok_def)
    then obtain k where k: "(k, rc) \<in> set (courses fm)" by auto
    from well_formed_course[OF wf k] c have "k = c" by (simp add: course_ok_def)
    with k enr s show "(c, s) \<in> roster_edges fm"
      by (auto simp: roster_edges_iff student_ids_def)
  qed
  then show ?thesis by auto
qed

lemma assigned_edges_source:
  assumes wf: "well_formed fm"
  shows "assigned_edges fm = course_edge ` set (map (course_item fm) (course_list fm))"
proof -
  have "(a, b) \<in> assigned_edges fm \<longleftrightarrow>
        (a, b) \<in> course_edge ` set (map (course_item fm) (course_list fm))" for a b
  proof
    assume "(a, b) \<in> assigned_edges fm"
    then obtain ri rc where ri: "(a, ri) \<in> set (instructors fm)"
      and rc: "rc \<in> set (assigned_courses (instructor_objs fm ! ri))"
      and b: "b = course_id (course_objs fm ! rc)"
      by (auto simp: assigned_edges_iff course_ids_def)
    from well_formed_instructor[OF wf ri] rc
    have a: "instructor_id (instructor_objs fm ! ri) = a" and "rc \<in> snd ` set (courses fm)"
      and i: "instructor (course_objs fm ! rc) = PInstructor ri"
      by (auto simp: instructor_ok_def)
    then have "course_objs fm ! rc \<in> set (course_list fm)"
      by (auto simp: course_list_def)
    moreover have "course_edge (course_item fm (course_objs fm ! rc)) = (a, b)"
      using a b i by (simp add: course_edge_def course_item_def instructor_id_of_def)
    ultimately show "(a, b) \<in> course_edge ` set (map (course_item fm) (course_list fm))"
      by (metis image_eqI image_set)
  next
    assume "(a, b) \<in> course_edge ` set (map (course_item fm) (course_list fm))"
    then obtain k rc where rc: "(k, rc) \<in> set (courses fm)"
      and ab: "(a, b) = course_edge (course_item fm (course_objs fm ! rc))"
      by (auto simp: course_list_def)
    from well_formed_course[OF wf rc] obtain ri
      where i: "instructor (course_objs fm ! rc) = PInstructor ri"
        and "ri \<in> snd ` set (instructors fm)"
        and asg: "rc \<in> set (assigned_courses (instructor_objs fm ! ri))"
      by (cases "instructor (course_objs fm ! rc)") (auto simp: course_ok_def)
    then obtain k' where k': "(k', ri) \<in> set (instructors fm)" by auto
    from well_formed_instructor[OF wf k'] have "instructor_id (instructor_objs fm ! ri) = k'"
      by (simp add: instructor_ok_def)
    with ab i have "a = k'" "b = course_id (course_objs fm ! rc)"
      by (simp_all add: course_edge_def course_item_def instructor_id_of_def)
    with k' asg show "(a, b) \<in> assigned_edges fm"
      by (auto simp: assigned_edges_iff course_ids_def)
  qed
  then show ?thesis by auto
qed

subsection \<open>The rebuilt graph\<close>

lemma course_items_ok:
  assumes wf: "well_formed fm" and c: "c \<in> set (course_list fm)"
  shows "course_item_ok (loaded (instructor_list fm) (student_list fm) t) (course_item fm c)"
proof -
  from c obtain k rc where rc: "(k, rc) \<in> set (courses fm)" and c_def: "c = course_objs fm ! rc"
    by (auto simp: course_list_def)
  from well_formed_courses(1)[OF wf c] have v: "valid_course c" .
  from well_formed_course[OF wf rc] obtain ri
    where i: "instructor c = PInstructor ri" and "ri \<in> snd ` set (instructors fm)"
    unfolding c_def by (cases "instructor (course_objs fm ! rc)") (auto simp: course_ok_def)
  then have "instructor_objs fm ! ri \<in> set (instructor_list fm)"
    by (auto simp: instructor_list_def)
  then have "instructor_id_of fm c \<in> instructor_id ` set (instructor_list fm)"
    using i by (simp add: instructor_id_of_def)
  then have "map_of (instructors (loaded (instructor_list fm) (student_list fm) t))
               (instructor_id_of fm c) \<noteq> None"
    by (simp add: map_of_eq_None_iff loaded_keys)
  with v show ?thesis
    by (simp add: course_item_ok_def course_item_def valid_course_def loaded_objs)
qed

lemma student_pairs_ok:
  assumes wf: "well_formed fm"
    and p: "p \<in> set (concat (map (student_pairs fm) (student_list fm)))"
    and st: "students t' = students (loaded (instructor_list fm) (student_list fm) t)"
    and ct: "fst ` set (courses t') = fst ` set (map (course_item fm) (course_list fm))"
  shows "pair_ok t' p"
proof -
  from p obtain s where s: "s \<in> set (student_list fm)" and ps: "p \<in> set (student_pairs fm s)"
    by auto
  from s obtain k rs where rs: "(k, rs) \<in> set (students fm)" and s_def: "s = student_objs fm ! rs"
    by (auto simp: student_list_def)
  from ps obtain rc where rc: "rc \<in> set (registered_courses s)"
    and p_def: "p = (student_id s, course_id (course_objs fm ! rc))"
    by (auto simp: student_pairs_def course_ids_def)
  from well_formed_student[OF wf rs] rc have "rc \<in> snd ` set (courses fm)"
    unfolding s_def by (auto simp: student_ok_def)
  then have "course_objs fm ! rc \<in> set (course_list fm)"
    by (auto simp: course_list_def)
  then have "course_id (course_objs fm ! rc) \<in> fst ` set (map (course_item fm) (course_list fm))"
    by (force simp: course_item_def)
  then have 1: "map_of (courses t') (snd p) \<noteq> None"
    by (simp add: map_of_eq_None_iff ct p_def)
  from s have "student_id s \<in> fst ` set (students t')"
    by (simp add: st loaded_keys)
  then have 2: "map_of (students t') (fst p) \<noteq> None"
    by (simp add: map_of_eq_None_iff p_def)
  from 1 2 show ?thesis by (simp add: pair_ok_def)
qed

lemma rebuild_same_graph:
  assumes wf: "well_formed fm"
  shows "same_graph fm (rebuild fm t)"
proof -
  let ?ins = "instructor_list fm" and ?ss = "student_list fm"
  let ?cs = "map (course_item fm) (course_list fm)"
  let ?ps = "concat (map (student_pairs fm) (student_list fm))"
  let ?t2 = "loaded ?ins ?ss t"
  let ?t3 = "foldl (\<lambda>t c. course_step c t) ?t2 ?cs"
  let ?t4 = "foldl (\<lambda>t p. reg_step p t) ?t3 ?ps"
  from wf have d: "distinct (map fst (students fm))" "distinct (map fst (instructors fm))"
    "distinct (map fst (courses fm))" by (simp_all add: well_formed_def)
  have di: "distinct (map instructor_id ?ins)" using d(2) by (simp add: instructor_list_ids[OF wf])
  have ds: "distinct (map student_id ?ss)" using d(1) by (simp add: student_list_ids[OF wf])
  have "map fst ?cs = map course_id (course_list fm)" by (simp add: course_item_def comp_def)
  then have dc: "distinct (map fst ?cs)" using d(3) by (simp add: course_list_ids[OF wf])
  have r: "rebuild fm t = ?t4"
    unfolding rebuild_def fold_entities_loaded[OF di ds] ..
  have cok: "\<And>c. c \<in> set ?cs \<Longrightarrow> course_item_ok ?t2 c"
    using course_items_ok[OF wf] by auto
  note p3 = fold_course_step[OF loaded_target_ok loaded_unlinked dc cok]
  from p3 have ok3: "target_ok ?t3" and ul3: "unlinked ?t3"
    and ce3: "course_entities ?t3 = course_entities ?t2 @ map course_entity ?cs"
    and ae3: "assigned_edges ?t3 = assigned_edges ?t2 \<union> course_edge ` set ?cs"
    and ie3: "instructor_entities ?t3 = instructor_entities ?t2"
    and se3: "student_entities ?t3 = student_entities ?t2"
    and k3: "fst ` set (courses ?t3) = fst ` set (courses ?t2) \<union> fst ` set ?cs"
    by blast+
  from k3 have k3': "fst ` set (courses ?t3) = fst ` set ?cs" by (simp add: loaded_objs)
  have st3: "students ?t3 = students ?t2" by simp
  have pok: "\<And>p. p \<in> set ?ps \<Longrightarrow> pair_ok ?t3 p"
    using student_pairs_ok[OF wf _ st3 k3'] by blast
  have sym3: "enrollment_edges ?t3 \<subseteq> (roster_edges ?t3)\<inverse>"
    by (simp add: unlinked_edges[OF ul3])
  note p4 = fold_reg_step[OF ok3 sym3 pok]
  from p4 have ee4: "enrollment_edges ?t4 = enrollment_edges ?t3 \<union> set ?ps"
    and re4: "roster_edges ?t4 = roster_edges ?t3 \<union> (set ?ps)\<inverse>"
    and se4: "student_entities ?t4 = student_entities ?t3"
    and ie4: "instructor_entities ?t4 = instructor_entities ?t3"
    and ce4: "course_entities ?t4 = course_entities ?t3"
    and ae4: "assigned_edges ?t4 = assigned_edges ?t3"
    by blast+
  have 1: "student_entities ?t4 = student_entities fm"
    unfolding se4 se3 by (simp add: loaded_entities student_entities_source[OF wf])
  have 2: "instructor_entities ?t4 = instructor_entities fm"
    unfolding ie4 ie3 by (simp add: loaded_entities instructor_entities_source[OF wf])
  have 3: "course_entities ?t4 = course_entities fm"
    unfolding ce4 ce3 by (simp add: loaded_entities course_entities_source[OF wf])
  have 4: "enrollment_edges ?t4 = enrollment_edges fm"
    unfolding ee4 by (simp add: unlinked_edges[OF ul3] enrollment_edges_source[OF wf])
  have 5: "roster_edges ?t4 = roster_edges fm"
    unfolding re4 roster_edges_source[OF wf]
    by (simp add: unlinked_edges[OF ul3] enrollment_edges_source[OF wf])
  have 6: "assigned_edges ?t4 = assigned_edges fm"
    unfolding ae4 ae3 by (simp add: loaded_assigned_edges assigned_edges_source[OF wf])
  show ?thesis
    unfolding r same_graph_def using 1 2 3 4 5 6 by simp
qed

subsection \<open>The JSON round trip\<close>

text \<open>
  For every graph that satisfies the data-model invariants, \<open>save_to_json\<close> succeeds and
  \<open>load_from_json\<close> of the document it wrote, into any manager (the import clears it
  first), succeeds and yields a graph with the same entities, scalar field for scalar
  field, and the same edge sets: enrollments, rosters, assignments, and the instructor of
  every course. The scenario graph is such a graph.
\<close>

lemma json_export_import_same_graph:
  assumes "well_formed fm"
  shows "fst (save_to_json fm file) = None \<and>
         fst (load_from_json (snd (save_to_json fm file)) t) = Inr () \<and>
         same_graph fm (snd (load_from_json (snd (save_to_json fm file)) t))"
proof -
  have j: "save_to_json fm file = (None, Document (export_document fm))"
    by (simp add: save_to_json_def json_document_well_formed[OF assms])
  show ?thesis
    unfolding j
    by (simp add: load_from_json_rebuild[OF assms] rebuild_same_graph[OF assms])
qed

lemma demo_graph_well_formed: "well_formed demo_graph"
  by code_simp

lemma json_export_import_scenario:
  "same_graph demo_graph
     (snd (load_from_json (snd (save_to_json demo_graph FileNotFound)) empty_datastore))"
  using json_export_import_same_graph[OF demo_graph_well_formed] by simp

subsection \<open>The CSV round trip\<close>

text \<open>
  A graph built through the in-memory manager: one instructor and the course EECE230,
  whose name ends in a carriage return. \<open>Course.__init__\<close> validates the stripped name and
  stores the name as given. The graph satisfies the data-model invariants.
\<close>

definition cr_name :: string where
  "cr_name = ''Software Engineering'' @ [CHR 0x0D]"

definition cr_graph :: FileManager where
  "cr_graph =
     snd (MemoryDataManager_add_course
            [(''course_id'', PStr ''EECE230''), (''course_name'', PStr cr_name),
             (''instructor'', PInstructor 0)]
            (snd (MemoryDataManager_add_instructor kw_smith empty_datastore)))"

definition empty_dir :: csv_dir where
  "empty_dir = \<lparr>instructors_csv = NoFile, students_csv = NoFile, courses_csv = NoFile,
                enrollments_csv = NoFile\<rparr>"

lemma cr_graph_well_formed: "well_formed cr_graph"
  by code_simp

text \<open>
  C6. The claim: for every graph that satisfies the data-model invariants, export to JSON
  or to the four CSV files followed by import into a fresh manager gives the same
  entities with the same scalar field values and the same edges. \<open>save_to_csv\<close> opens its
  files with \<open>newline=''\<close>, as the \<open>csv\<close> module asks, and \<open>load_from_csv\<close> does not: the
  carriage return at the end of the course name, written inside a quoted field, is read
  back as a line feed. For the graph above both calls succeed and the imported course has
  another name, while the JSON round trip of the same graph gives the same graph.
\<close>

theorem csv_round_trip_changes_course_name:
  "course_entities cr_graph
     = [(''EECE230'', ''EECE230'', ''Software Engineering'' @ [CHR 0x0D], ''199801234'')] \<and>
   fst (MemoryDataManager_data_to_csv cr_graph empty_dir) = None \<and>
   fst (MemoryDataManager_data_from_csv (snd (MemoryDataManager_data_to_csv cr_graph empty_dir))
          empty_datastore) = Inr () \<and>
   course_entities
     (snd (MemoryDataManager_data_from_csv (snd (MemoryDataManager_data_to_csv cr_graph empty_dir))
             empty_datastore))
     = [(''EECE230'', ''EECE230'', ''Software Engineering'' @ [CHR 0x0A], ''199801234'')] \<and>
   fst (MemoryDataManager_data_from_json (snd (MemoryDataManager_data_to_json cr_graph FileNotFound))
          empty_datastore) = Inr () \<and>
   same_graph cr_graph
     (snd (MemoryDataManager_data_from_json (snd (MemoryDataManager_data_to_json cr_graph FileNotFound))
             empty_datastore))"
  by code_simp

end
